theory Spec2Isabelle
  imports Main
begin

section \<open>The quasar.config file reader (QuasarConfigFile)\<close>

text \<open>
  A shallow embedding of \<^verbatim>\<open>quasar-config-file.js\<close> of app-webpack: the module-level
  helpers (\<^verbatim>\<open>encode\<close>, \<^verbatim>\<open>formatPublicPath\<close>), the one-shot reader \<^verbatim>\<open>#build\<close>, the
  watcher \<^verbatim>\<open>#buildAndWatch\<close> with its \<^verbatim>\<open>build.onEnd\<close> handler and debounced update, and
  the normalizer \<^verbatim>\<open>#computeConfig\<close>.
\<close>

subsection \<open>Strings and the public path\<close>

text \<open>
  JavaScript strings are modelled as \<^typ>\<open>string\<close>, one \<^typ>\<open>char\<close> per code unit.

  \<^verbatim>\<open>const urlRegex = /^http(s)?:\/\//\<close>: the pattern is anchored at the start only, so
  \<^verbatim>\<open>urlRegex.test(s)\<close> holds exactly when \<open>s\<close> begins with \<^verbatim>\<open>http://\<close> or \<^verbatim>\<open>https://\<close>.
\<close>

definition endsWith :: "string \<Rightarrow> string \<Rightarrow> bool" where
  "endsWith s t = (length t \<le> length s \<and> drop (length s - length t) s = t)"

definition startsWith :: "string \<Rightarrow> string \<Rightarrow> bool" where
  "startsWith s t = (take (length t) s = t)"

definition urlRegex_test :: "string \<Rightarrow> bool" where
  "urlRegex_test s = (startsWith s ''http://'' \<or> startsWith s ''https://'')"

text \<open>
  \<^verbatim>\<open>
  function formatPublicPath (path) {
    if (!path) { return '' }
    if (!path.endsWith('/')) { path = `${ path }/` }
    if (urlRegex.test(path) === true) { return path }
    if (!path.startsWith('/')) { path = `/${ path }` }
    return path
  }
  \<close>
  For a string argument \<^verbatim>\<open>!path\<close> holds exactly for the empty string.
\<close>

definition formatPublicPath :: "string \<Rightarrow> string" where
  "formatPublicPath path =
     (if path = [] then []
      else
        let path1 = (if \<not> endsWith path ''/'' then path @ ''/'' else path)
        in if urlRegex_test path1 then path1
           else if \<not> startsWith path1 ''/'' then ''/'' @ path1
           else path1)"

subsection \<open>JavaScript values\<close>

text \<open>
  The user's configuration is a dynamically typed object. \<open>jsval\<close> covers the values a
  configuration is made of: \<^verbatim>\<open>undefined\<close>, \<^verbatim>\<open>null\<close>, booleans, integral numbers, strings,
  functions (represented by their source text, which is all \<^verbatim>\<open>encode\<close> reads of them),
  arrays, and plain objects as association lists in property enumeration order
  (keys are distinct in an object of the program). Non-integral numbers, regular
  expressions, and named properties attached to arrays or functions are not represented.
\<close>

datatype jsval =
    JUndefined
  | JNull
  | JBool bool
  | JNum int
  | JStr string
  | JFun string
  | JArr "jsval list"
  | JObj "(string \<times> jsval) list"

text \<open>Truthiness, as tested by \<^verbatim>\<open>if (x)\<close>, \<^verbatim>\<open>!x\<close>, \<^verbatim>\<open>x ? a : b\<close>, \<^verbatim>\<open>x && y\<close>.\<close>

fun truthy :: "jsval \<Rightarrow> bool" where
  "truthy JUndefined = False"
| "truthy JNull = False"
| "truthy (JBool b) = b"
| "truthy (JNum n) = (n \<noteq> 0)"
| "truthy (JStr s) = (s \<noteq> [])"
| "truthy (JFun f) = True"
| "truthy (JArr xs) = True"
| "truthy (JObj ps) = True"

fun nullish :: "jsval \<Rightarrow> bool" where
  "nullish JUndefined = True"
| "nullish JNull = True"
| "nullish (JBool b) = False"
| "nullish (JNum n) = False"
| "nullish (JStr s) = False"
| "nullish (JFun f) = False"
| "nullish (JArr xs) = False"
| "nullish (JObj ps) = False"

fun primitive :: "jsval \<Rightarrow> bool" where
  "primitive (JFun f) = False"
| "primitive (JArr xs) = False"
| "primitive (JObj ps) = False"
| "primitive JUndefined = True"
| "primitive JNull = True"
| "primitive (JBool b) = True"
| "primitive (JNum n) = True"
| "primitive (JStr s) = True"

fun is_JObj :: "jsval \<Rightarrow> bool" where
  "is_JObj (JObj ps) = True"
| "is_JObj JUndefined = False"
| "is_JObj JNull = False"
| "is_JObj (JBool b) = False"
| "is_JObj (JNum n) = False"
| "is_JObj (JStr s) = False"
| "is_JObj (JFun f) = False"
| "is_JObj (JArr xs) = False"

text \<open>
  \<^verbatim>\<open>a === b\<close>. On primitives it is equality of type and value. Two objects are identical
  only when they are the same reference, which a value model cannot see; the comparisons
  of the source that the model evaluates with \<open>strict_eq\<close> are between a host or a port of
  one cycle and of another, and an object-valued host or port is taken to be a fresh
  object in each cycle.
\<close>

definition strict_eq :: "jsval \<Rightarrow> jsval \<Rightarrow> bool" where
  "strict_eq a b = (primitive a \<and> a = b)"

text \<open>
  Property read \<^verbatim>\<open>o.k\<close> on an object (\<^verbatim>\<open>undefined\<close> for a missing key) and property
  write \<^verbatim>\<open>o.k = v\<close>: an existing key keeps its position, a new key is appended. Reading
  a property of \<^verbatim>\<open>null\<close> or \<^verbatim>\<open>undefined\<close>, and writing one on a primitive value, is a
  TypeError in the source (class bodies are strict code); the places that do so guard
  with \<open>nullish\<close> or \<open>is_JObj\<close> first. The guard \<open>is_JObj\<close> also stops an array or a
  function in the place of a container of the skeleton, where the source would attach a
  named property to it: such configurations are outside the model.
\<close>

fun getp :: "jsval \<Rightarrow> string \<Rightarrow> jsval" where
  "getp (JObj ps) k = (case map_of ps k of Some v \<Rightarrow> v | None \<Rightarrow> JUndefined)"
| "getp JUndefined k = JUndefined"
| "getp JNull k = JUndefined"
| "getp (JBool b) k = JUndefined"
| "getp (JNum n) k = JUndefined"
| "getp (JStr s) k = JUndefined"
| "getp (JFun f) k = JUndefined"
| "getp (JArr xs) k = JUndefined"

fun put :: "string \<Rightarrow> jsval \<Rightarrow> (string \<times> jsval) list \<Rightarrow> (string \<times> jsval) list" where
  "put k v [] = [(k, v)]"
| "put k v ((k', v') # ps) = (if k = k' then (k, v) # ps else (k', v') # put k v ps)"

fun setp :: "jsval \<Rightarrow> string \<Rightarrow> jsval \<Rightarrow> jsval" where
  "setp (JObj ps) k v = JObj (put k v ps)"
| "setp JUndefined k v = JUndefined"
| "setp JNull k v = JNull"
| "setp (JBool b) k v = JBool b"
| "setp (JNum n) k v = JNum n"
| "setp (JStr s) k v = JStr s"
| "setp (JFun f) k v = JFun f"
| "setp (JArr xs) k v = JArr xs"

text \<open>\<^verbatim>\<open>x.length\<close> of an array or a string.\<close>

fun js_length :: "jsval \<Rightarrow> jsval" where
  "js_length (JArr xs) = JNum (int (length xs))"
| "js_length (JStr s) = JNum (int (length s))"
| "js_length (JObj ps) = getp (JObj ps) ''length''"
| "js_length JUndefined = JUndefined"
| "js_length JNull = JUndefined"
| "js_length (JBool b) = JUndefined"
| "js_length (JNum n) = JUndefined"
| "js_length (JFun f) = JUndefined"

subsection \<open>Number and string conversion\<close>

text \<open>
  \<^verbatim>\<open>String(n)\<close> of an integral number: its decimal digits, after a minus sign when it
  is negative (numbers of a magnitude below \<^verbatim>\<open>1e21\<close>, which JavaScript prints without an
  exponent).
\<close>

definition digit :: "nat \<Rightarrow> char" where
  "digit d = ''0123456789'' ! d"

fun decimal :: "nat \<Rightarrow> string" where
  "decimal n = (if 10 \<le> n then decimal (n div 10) @ [digit (n mod 10)] else [digit n])"

declare decimal.simps [simp del]

definition number_toString :: "int \<Rightarrow> string" where
  "number_toString i = (if 0 \<le> i then decimal (nat i) else CHR ''-'' # decimal (nat (- i)))"

fun join :: "string \<Rightarrow> string list \<Rightarrow> string" where
  "join sep [] = []"
| "join sep [x] = x"
| "join sep (x # y # ys) = x @ sep @ join sep (y # ys)"

text \<open>
  \<^verbatim>\<open>String(x)\<close>, and \<^verbatim>\<open>Array.prototype.join\<close>, which turns \<^verbatim>\<open>undefined\<close> and \<^verbatim>\<open>null\<close>
  elements into the empty string and every other element into \<^verbatim>\<open>String(x)\<close>.
\<close>

fun toString :: "jsval \<Rightarrow> string"
  and join_items :: "jsval list \<Rightarrow> string list"
where
  "toString JUndefined = ''undefined''"
| "toString JNull = ''null''"
| "toString (JBool b) = (if b then ''true'' else ''false'')"
| "toString (JNum n) = number_toString n"
| "toString (JStr s) = s"
| "toString (JFun src) = src"
| "toString (JArr xs) = join '','' (join_items xs)"
| "toString (JObj ps) = ''[object Object]''"
| "join_items [] = []"
| "join_items (x # xs) = (if nullish x then [] else toString x) # join_items xs"

definition array_join :: "jsval list \<Rightarrow> string \<Rightarrow> string" where
  "array_join xs sep = join sep (join_items xs)"

subsection \<open>encode: JSON.stringify with the function replacer\<close>

text \<open>
  \<^verbatim>\<open>
  function encode (obj) {
    return JSON.stringify(obj, (_, value) => {
      return typeof value === 'function'
        ? `/fn(${ value.toString() })`
        : value
    })
  }
  \<close>
  \<open>quote\<close> is QuoteJSONString: the two-character escapes, \<^verbatim>\<open>\u00XX\<close> for the other
  control characters, every other character as it is.
\<close>

definition hex4 :: "nat \<Rightarrow> string" where
  "hex4 n =
     [''0123456789abcdef'' ! (n div 4096 mod 16), ''0123456789abcdef'' ! (n div 256 mod 16),
      ''0123456789abcdef'' ! (n div 16 mod 16), ''0123456789abcdef'' ! (n mod 16)]"

definition quote_char :: "char \<Rightarrow> string" where
  "quote_char c =
     (if c = CHR 0x08 then [CHR 0x5C, CHR ''b'']
      else if c = CHR 0x09 then [CHR 0x5C, CHR ''t'']
      else if c = CHR 0x0A then [CHR 0x5C, CHR ''n'']
      else if c = CHR 0x0C then [CHR 0x5C, CHR ''f'']
      else if c = CHR 0x0D then [CHR 0x5C, CHR ''r'']
      else if c = CHR 0x22 then [CHR 0x5C, CHR 0x22]
      else if c = CHR 0x5C then [CHR 0x5C, CHR 0x5C]
      else if (of_char c :: nat) < 32 then [CHR 0x5C, CHR ''u''] @ hex4 (of_char c)
      else [c])"

definition quote :: "string \<Rightarrow> string" where
  "quote s = [CHR 0x22] @ concat (map quote_char s) @ [CHR 0x22]"

text \<open>
  \<open>stringify\<close> is SerializeJSONProperty after the replacer has run on the value: a function
  has become the string \<^verbatim>\<open>/fn(<source text>)\<close>; \<^verbatim>\<open>undefined\<close> has no serialization
  (\<open>None\<close>), is left out of an object and is \<^verbatim>\<open>null\<close> in an array.
\<close>

fun stringify :: "jsval \<Rightarrow> string option"
  and stringify_elems :: "jsval list \<Rightarrow> string list"
  and stringify_props :: "(string \<times> jsval) list \<Rightarrow> string list"
where
  "stringify JUndefined = None"
| "stringify JNull = Some ''null''"
| "stringify (JBool b) = Some (if b then ''true'' else ''false'')"
| "stringify (JNum n) = Some (number_toString n)"
| "stringify (JStr s) = Some (quote s)"
| "stringify (JFun src) = Some (quote (''/fn('' @ src @ '')''))"
| "stringify (JArr xs) = Some (''['' @ join '','' (stringify_elems xs) @ '']'')"
| "stringify (JObj ps) = Some (''{'' @ join '','' (stringify_props ps) @ ''}'')"
| "stringify_elems [] = []"
| "stringify_elems (x # xs) =
     (case stringify x of None \<Rightarrow> ''null'' | Some s \<Rightarrow> s) # stringify_elems xs"
| "stringify_props [] = []"
| "stringify_props ((k, v) # ps) =
     (case stringify v of
        None \<Rightarrow> stringify_props ps
      | Some s \<Rightarrow> (quote k @ '':'' @ s) # stringify_props ps)"

definition encode :: "jsval \<Rightarrow> jsval" where
  "encode obj = (case stringify obj of None \<Rightarrow> JUndefined | Some s \<Rightarrow> JStr s)"

subsection \<open>The merge of webpack-merge\<close>

text \<open>
  \<^verbatim>\<open>const { merge } = require('webpack-merge')\<close> is a third-party library. Its documented
  behaviour on configuration data: the result has the keys of the left operand followed by
  the new keys of the right one; under a common key two arrays are concatenated, two plain
  objects are merged recursively, and otherwise the right value replaces the left one,
  unless it is \<^verbatim>\<open>undefined\<close>, which keeps the left one. Two functions under one key are
  replaced by a wrapper function of the library, whose text stands for it here.
  \<open>own_props\<close> is \<^verbatim>\<open>Object.keys\<close> with the values: the operands of the top-level call are
  read through it. An object is the list of its properties in the order in which they
  were added, which is the order of \<^verbatim>\<open>Object.keys\<close> for the keys of a configuration;
  keys that are array indices, which JavaScript enumerates first and in ascending order,
  are listed where they were added.
\<close>

definition merged_function :: jsval where
  "merged_function = JFun ''(...args) => _joinArrays(a(...args), b(...args), k)''"

fun joinArrays :: "jsval \<Rightarrow> jsval \<Rightarrow> jsval"
  and mergeKeys :: "(string \<times> jsval) list \<Rightarrow> (string \<times> jsval) list \<Rightarrow> (string \<times> jsval) list"
where
  "joinArrays (JFun f) (JFun g) = merged_function"
| "joinArrays (JArr xs) (JArr ys) = JArr (xs @ ys)"
| "joinArrays (JObj ps) (JObj qs) =
     JObj (mergeKeys ps qs @ filter (\<lambda>(k, v). map_of ps k = None) qs)"
| "joinArrays a b = b"
| "mergeKeys [] qs = []"
| "mergeKeys ((k, v) # ps) qs =
     (k, (let r = joinArrays v (getp (JObj qs) k) in if r = JUndefined then v else r))
       # mergeKeys ps qs"

fun indexed :: "nat \<Rightarrow> jsval list \<Rightarrow> (string \<times> jsval) list" where
  "indexed i [] = []"
| "indexed i (x # xs) = (decimal i, x) # indexed (Suc i) xs"

fun own_props :: "jsval \<Rightarrow> (string \<times> jsval) list" where
  "own_props (JObj ps) = ps"
| "own_props (JArr xs) = indexed 0 xs"
| "own_props (JStr s) = indexed 0 (map (\<lambda>c. JStr [c]) s)"
| "own_props JUndefined = []"
| "own_props JNull = []"
| "own_props (JBool b) = []"
| "own_props (JNum n) = []"
| "own_props (JFun f) = []"

definition merge2 :: "jsval \<Rightarrow> jsval \<Rightarrow> jsval" where
  "merge2 a b = joinArrays (JObj (own_props a)) (JObj (own_props b))"

definition merge_js :: "jsval list \<Rightarrow> jsval" where
  "merge_js xs = (case xs of [] \<Rightarrow> JObj [] | x # ys \<Rightarrow> foldl merge2 x ys)"

subsection \<open>Context, options, collaborators and state\<close>

text \<open>
  \<^verbatim>\<open>this.ctx\<close>: the properties of the context that the modelled lines read, each flag by
  its truthiness. \<open>mode_pwa\<close> is the one the normalizer writes (line 720).
\<close>

record ctx =
  ctx_dev :: bool
  ctx_prod :: bool
  ctx_debug :: bool
  ctx_modeName :: string
  mode_ssr :: bool
  mode_pwa :: bool
  mode_cordova :: bool
  mode_capacitor :: bool
  mode_electron :: bool
  mode_bex :: bool

definition ctx_js :: "ctx \<Rightarrow> jsval" where
  "ctx_js c =
     JObj [(''dev'', JBool (ctx_dev c)), (''prod'', JBool (ctx_prod c)),
           (''debug'', JBool (ctx_debug c)), (''modeName'', JStr (ctx_modeName c)),
           (''mode'', JObj [(''ssr'', JBool (mode_ssr c)), (''pwa'', JBool (mode_pwa c)),
                            (''cordova'', JBool (mode_cordova c)),
                            (''capacitor'', JBool (mode_capacitor c)),
                            (''electron'', JBool (mode_electron c)),
                            (''bex'', JBool (mode_bex c))])]"

text \<open>
  \<^verbatim>\<open>this.opts\<close>: \<open>opts_watch\<close> says whether \<^verbatim>\<open>opts.watch\<close> (the bundle of the two callbacks
  \<^verbatim>\<open>onBuildChange\<close> and \<^verbatim>\<open>onAppChange\<close>) is defined; \<open>opts_onAddress\<close> is the negotiation
  callback, when there is one, as the function from the requested address to its answer.
\<close>

record opts =
  opts_host :: jsval
  opts_port :: jsval
  opts_onAddress :: "(jsval \<Rightarrow> jsval) option"
  opts_watch :: bool

text \<open>
  What the modules that are not part of this file supply to one run of the normalizer:
  the animation list, the package metadata, the asset-url table, the
  \<^verbatim>\<open>extendQuasarConf\<close> hooks of the installed extensions (extension id, and what the
  hook does to the properties of the configuration object, which it mutates in place), and
  the webpack configuration generator.
\<close>

record env =
  animations :: jsval
  appPkg_name :: jsval
  appPkg_productName :: jsval
  appPkg_description :: jsval
  transformAssetUrls :: jsval
  hooks :: "(string \<times> ((string \<times> jsval) list \<Rightarrow> (string \<times> jsval) list)) list"
  createWebpackConfig :: "jsval \<Rightarrow> jsval"

text \<open>
  The value the compiled module exports (\<^verbatim>\<open>result.default || result\<close>): something that is
  not a function, or a function, given by what a call with the context does: it throws (or
  its promise rejects), or it yields a value.
\<close>

datatype factory_result = Rejects | Resolves jsval

datatype factory = NotAFunction | Factory "ctx \<Rightarrow> factory_result"

datatype update_fn = OnBuildChange | OnAppChange

text \<open>
  Everything the code does to the outside is recorded, in order, as an effect: the logger
  calls, \<^verbatim>\<open>console.error\<close>, \<^verbatim>\<open>removeSync(tempFile)\<close>, \<^verbatim>\<open>require(tempFile)\<close>, a call of
  \<^verbatim>\<open>#computeConfig\<close> (with \<^verbatim>\<open>failOnError\<close>), a call of \<^verbatim>\<open>opts.onAddress\<close>, the resolution of
  the first build's promise, a call of the debounced \<^verbatim>\<open>scheduleUpdate\<close>, a call of one of
  the two callbacks of \<^verbatim>\<open>opts.watch\<close>, and a call of a missing callback.
\<close>

datatype effect =
    Log string
  | Warn string
  | Fatal string
  | ConsoleError
  | RemoveSync
  | Require
  | ComputeConfig bool
  | OnAddress jsval
  | FirstBuildIsDone
  | ScheduleUpdate
  | Callback update_fn
  | CallbackMissing

text \<open>
  The state: the fields of the instance (\<^verbatim>\<open>this.ctx\<close>, \<^verbatim>\<open>this.quasarConf\<close>,
  \<^verbatim>\<open>this.webpackConf\<close>, \<^verbatim>\<open>this.address\<close>, \<^verbatim>\<open>#isWatching\<close>, \<^verbatim>\<open>#configSnapshot\<close>,
  \<^verbatim>\<open>#webpackConfChanged\<close>), the closure variables of the watcher plugin (\<^verbatim>\<open>isFirst\<close>,
  \<^verbatim>\<open>updateFn\<close>, the pending timer of the debounced function as its deadline in
  milliseconds, the value the first build's promise was resolved with), whether the
  temporary file exists on disk, and the effects so far. An unset field is \<open>JUndefined\<close>
  or \<open>None\<close>; \<open>updateFn\<close> is \<open>None\<close> when it is \<^verbatim>\<open>undefined\<close> or \<^verbatim>\<open>null\<close>.
\<close>

record world =
  this_ctx :: ctx
  quasarConf :: jsval
  webpackConf :: jsval
  address :: jsval
  isWatching :: bool
  configSnapshot :: "string option"
  webpackConfChanged :: "bool option"
  isFirst :: bool
  updateFn :: "update_fn option"
  timer :: "nat option"
  firstBuild :: "(jsval \<times> jsval) option"
  tempFile_exists :: bool
  effects :: "effect list"

text \<open>
  How a call ends: it returns, the process exits (\<^verbatim>\<open>process.exit\<close>), or it throws.
\<close>

datatype 'a completion = Returned 'a | ProcessExit | Threw string

definition emit :: "effect \<Rightarrow> world \<Rightarrow> world" where
  "emit e w = w\<lparr>effects := effects w @ [e]\<rparr>"

definition warn :: "string \<Rightarrow> world \<Rightarrow> world" where
  "warn msg w = emit (Warn msg) w"

definition log :: "string \<Rightarrow> world \<Rightarrow> world" where
  "log msg w = emit (Log msg) w"

text \<open>
  Modelled from the spec: \<^verbatim>\<open>fatal\<close> of \<^verbatim>\<open>./utils/logger.js\<close>, which is not among the
  sources. The spec: a fatal error ``terminates the process after logging context''.
\<close>

definition fatal :: "string \<Rightarrow> world \<Rightarrow> 'a completion \<times> world" where
  "fatal msg w = (ProcessExit, emit (Fatal msg) w)"

definition andThen ::
  "'a completion \<times> world \<Rightarrow> ('a \<Rightarrow> world \<Rightarrow> 'b completion \<times> world) \<Rightarrow> 'b completion \<times> world"
where
  "andThen r k =
     (case r of
        (Returned x, w) \<Rightarrow> k x w
      | (ProcessExit, w) \<Rightarrow> (ProcessExit, w)
      | (Threw e, w) \<Rightarrow> (Threw e, w))"

definition js_or :: "jsval \<Rightarrow> jsval \<Rightarrow> jsval" where
  "js_or a b = (if truthy a then a else b)"

fun set_path :: "jsval \<Rightarrow> string list \<Rightarrow> jsval \<Rightarrow> jsval" where
  "set_path obj [] v = v"
| "set_path obj (k # ks) v = setp obj k (set_path (getp obj k) ks v)"

subsection \<open>The normalizer, phase B: merge and address\<close>

text \<open>
  \<^verbatim>\<open>#computeConfig\<close> is modelled along its control flow: the skeleton merge (lines
  299--372), the animation and framework defaults (374--384), the dev-server address
  (386--432), the extension hooks (434--437), the snapshot (441--458), the naming case
  (514--516), the build defaults, mode overrides and public path (531--591, 604--631,
  649--652), the server-rendering defaults and the installable-web-app flag (694--701,
  720), the installable-web-app defaults and checks (876--912), and the result
  (1120--1129), each with the ways it ends early.

  The lines in between are not modelled: 460--512 and 518--529 (define table, vendor
  patterns, asset lists, component registration), 593--602 (transpile banner, plugin
  flags), 633--647 and 654--692 (output directories, router base, source files, store),
  703--718 (hydration hook, middlewares), 723--874 (dev-server middleware block, gzip),
  914--919 (icon sources) and 922--1118 (application url, environment table, packaging
  blocks, html variables, versions). They write fields that the modelled lines do not
  read afterwards, and they call modules that are not part of this file; the model follows
  the source on the configurations on which they complete, and the configuration it
  stores is without the fields they derive.
\<close>

definition skeleton :: "ctx \<Rightarrow> jsval" where
  "skeleton c =
     JObj [
       (''ctx'', ctx_js c),
       (''css'', JArr []),
       (''boot'', JArr []),
       (''vendor'', JObj [(''add'', JArr []), (''remove'', JArr [])]),
       (''build'', JObj [
          (''transpileDependencies'', JArr []),
          (''vueLoaderOptions'', JObj [(''transformAssetUrls'', JObj [])]),
          (''sassLoaderOptions'', JObj []),
          (''scssLoaderOptions'', JObj []),
          (''stylusLoaderOptions'', JObj []),
          (''lessLoaderOptions'', JObj []),
          (''tsLoaderOptions'', JObj []),
          (''tsCheckerOptions'', JObj []),
          (''env'', JObj []),
          (''rawDefine'', JObj []),
          (''envFiles'', JArr []),
          (''uglifyOptions'', JObj [(''compress'', JObj []), (''mangle'', JObj [])])]),
       (''devServer'', JObj [(''server'', JObj [])]),
       (''framework'', JObj [
          (''components'', JArr []), (''directives'', JArr []), (''plugins'', JArr [])]),
       (''animations'', JArr []),
       (''extras'', JArr []),
       (''sourceFiles'', JObj []),
       (''ssr'', JObj [(''middlewares'', JArr [])]),
       (''pwa'', JObj [
          (''workboxOptions'', JObj []),
          (''manifest'', JObj [(''icons'', JArr [])]),
          (''metaVariables'', JObj [])]),
       (''electron'', JObj [
          (''inspectPort'', JNum 5858),
          (''unPackagedInstallParams'', JArr []),
          (''packager'', JObj []),
          (''builder'', JObj [])]),
       (''cordova'', JObj []),
       (''capacitor'', JObj [(''capacitorCliPreparationParams'', JArr [])]),
       (''bex'', JObj [(''builder'', JObj [(''directories'', JObj [])])]),
       (''bin'', JObj []),
       (''htmlVariables'', JObj [])]"

text \<open>
  \<^verbatim>\<open>
  if (cfg.animations === 'all') { cfg.animations = animations }
  if (!cfg.framework.plugins) { cfg.framework.plugins = [] }
  if (!cfg.framework.config) { cfg.framework.config = {} }
  \<close>
\<close>

definition resolve_animations :: "env \<Rightarrow> jsval \<Rightarrow> jsval" where
  "resolve_animations e cfg =
     (if getp cfg ''animations'' = JStr ''all'' then setp cfg ''animations'' (animations e)
      else cfg)"

definition framework_defaults :: "jsval \<Rightarrow> jsval completion" where
  "framework_defaults cfg =
     (let fw = getp cfg ''framework'' in
      if \<not> is_JObj fw then Threw ''TypeError''
      else
        let fw1 = (if \<not> truthy (getp fw ''plugins'') then setp fw ''plugins'' (JArr []) else fw);
            fw2 = (if \<not> truthy (getp fw1 ''config'') then setp fw1 ''config'' (JObj []) else fw1)
        in Returned (setp cfg ''framework'' fw2))"

text \<open>
  \<^verbatim>\<open>
  if (this.opts.host) { cfg.devServer.host = this.opts.host }
  else if (!cfg.devServer.host) { cfg.devServer.host = '0.0.0.0' }
  if (this.opts.port) { cfg.devServer.port = this.opts.port }
  else if (!cfg.devServer.port) { cfg.devServer.port = 8080 }
  \<close>
\<close>

definition requested_devServer :: "opts \<Rightarrow> jsval \<Rightarrow> jsval" where
  "requested_devServer opts devServer =
     (let ds1 = (if truthy (opts_host opts) then setp devServer ''host'' (opts_host opts)
                 else if \<not> truthy (getp devServer ''host'')
                 then setp devServer ''host'' (JStr ''0.0.0.0'')
                 else devServer);
          ds2 = (if truthy (opts_port opts) then setp ds1 ''port'' (opts_port opts)
                 else if \<not> truthy (getp ds1 ''port'')
                 then setp ds1 ''port'' (JNum 8080)
                 else ds1)
      in ds2)"

text \<open>
  \<^verbatim>\<open>
  if (this.address
    && this.address.from.host === cfg.devServer.host
    && this.address.from.port === cfg.devServer.port) {
    cfg.devServer.host = this.address.to.host
    cfg.devServer.port = this.address.to.port
  }
  else {
    const addr = { host: cfg.devServer.host, port: cfg.devServer.port }
    const to = this.opts.onAddress !== void 0 ? await this.opts.onAddress(addr) : addr
    // if network error while running
    if (to === null) { throw new Error('NETWORK_ERROR') }
    cfg.devServer = merge({}, cfg.devServer, to)
    this.address = {
      from: addr,
      to: { host: cfg.devServer.host, port: cfg.devServer.port }
    }
  }
  \<close>
  \<open>negotiated\<close> is the part after the callback has answered; webpack-merge refuses an
  \<^verbatim>\<open>undefined\<close> operand with a TypeError.
\<close>

definition negotiated :: "jsval \<Rightarrow> jsval \<Rightarrow> jsval \<Rightarrow> world \<Rightarrow> jsval completion \<times> world" where
  "negotiated devServer addr to w =
     (if to = JNull then (Threw ''NETWORK_ERROR'', w)
      else if to = JUndefined then (Threw ''TypeError'', w)
      else
        let ds = merge_js [JObj [], devServer, to]
        in (Returned ds,
            w\<lparr>address :=
                 JObj [(''from'', addr),
                       (''to'', JObj [(''host'', getp ds ''host''),
                                      (''port'', getp ds ''port'')])]\<rparr>))"

definition negotiate :: "opts \<Rightarrow> jsval \<Rightarrow> world \<Rightarrow> jsval completion \<times> world" where
  "negotiate opts devServer w =
     (if truthy (address w)
         \<and> strict_eq (getp (getp (address w) ''from'') ''host'') (getp devServer ''host'')
         \<and> strict_eq (getp (getp (address w) ''from'') ''port'') (getp devServer ''port'')
      then
        (Returned (setp (setp devServer ''host'' (getp (getp (address w) ''to'') ''host''))
                     ''port'' (getp (getp (address w) ''to'') ''port'')),
         w)
      else
        let addr = JObj [(''host'', getp devServer ''host''),
                         (''port'', getp devServer ''port'')]
        in case opts_onAddress opts of
             Some onAddress \<Rightarrow> negotiated devServer addr (onAddress addr) (emit (OnAddress addr) w)
           | None \<Rightarrow> negotiated devServer addr addr w)"

text \<open>Lines 386--432: \<^verbatim>\<open>if (this.ctx.dev) { ... }\<close>.\<close>

definition resolve_address :: "opts \<Rightarrow> jsval \<Rightarrow> world \<Rightarrow> jsval completion \<times> world" where
  "resolve_address opts cfg w =
     (if ctx_dev (this_ctx w) then
        (if \<not> is_JObj (getp cfg ''devServer'') then (Threw ''TypeError'', w)
         else
           andThen (negotiate opts (requested_devServer opts (getp cfg ''devServer'')) w)
             (\<lambda>ds w'. (Returned (setp cfg ''devServer'' ds), w')))
      else (Returned cfg, w))"

text \<open>
  \<^verbatim>\<open>
  await extensionsRunner.runHook('extendQuasarConf', async hook => {
    log(`Extension(${ hook.api.extId }): Extending quasar.config file...`)
    await hook.fn(cfg, hook.api)
  })
  \<close>
\<close>

fun mutate :: "((string \<times> jsval) list \<Rightarrow> (string \<times> jsval) list) \<Rightarrow> jsval \<Rightarrow> jsval" where
  "mutate fn (JObj ps) = JObj (fn ps)"
| "mutate fn JUndefined = JUndefined"
| "mutate fn JNull = JNull"
| "mutate fn (JBool b) = JBool b"
| "mutate fn (JNum n) = JNum n"
| "mutate fn (JStr s) = JStr s"
| "mutate fn (JFun f) = JFun f"
| "mutate fn (JArr xs) = JArr xs"

fun runHook ::
  "(string \<times> ((string \<times> jsval) list \<Rightarrow> (string \<times> jsval) list)) list \<Rightarrow> jsval \<Rightarrow> world
     \<Rightarrow> jsval completion \<times> world"
where
  "runHook [] cfg w = (Returned cfg, w)"
| "runHook ((extId, fn) # hs) cfg w =
     runHook hs (mutate fn cfg)
       (log (''Extension('' @ extId @ ''): Extending quasar.config file...'') w)"

subsection \<open>The normalizer, phase B: snapshot\<close>

text \<open>
  \<^verbatim>\<open>
  if (this.opts.watch !== void 0) {
    const newConfigSnapshot = [
      cfg.build ? encode(cfg.build) : '',
      cfg.ssr && cfg.ssr.pwa ? encode(cfg.ssr.pwa) : '',
      cfg.framework ? cfg.framework.autoImportComponentCase : '',
      cfg.devServer ? encode(cfg.devServer) : '',
      cfg.pwa ? encode(cfg.pwa) : '',
      cfg.electron ? encode(cfg.electron) : '',
      cfg.bex ? encode(cfg.bex) : '',
      cfg.htmlVariables ? encode(cfg.htmlVariables) : ''
    ].join('')

    if (this.#configSnapshot) {
      this.#webpackConfChanged = newConfigSnapshot !== this.#configSnapshot
    }
    this.#configSnapshot = newConfigSnapshot
  }
  \<close>
\<close>

definition encoded_or_empty :: "jsval \<Rightarrow> jsval" where
  "encoded_or_empty v = (if truthy v then encode v else JStr [])"

definition snapshot_parts :: "jsval \<Rightarrow> jsval list" where
  "snapshot_parts cfg =
     [ encoded_or_empty (getp cfg ''build''),
       (if truthy (getp cfg ''ssr'') \<and> truthy (getp (getp cfg ''ssr'') ''pwa'')
        then encode (getp (getp cfg ''ssr'') ''pwa'') else JStr []),
       (if truthy (getp cfg ''framework'')
        then getp (getp cfg ''framework'') ''autoImportComponentCase'' else JStr []),
       encoded_or_empty (getp cfg ''devServer''),
       encoded_or_empty (getp cfg ''pwa''),
       encoded_or_empty (getp cfg ''electron''),
       encoded_or_empty (getp cfg ''bex''),
       encoded_or_empty (getp cfg ''htmlVariables'') ]"

definition newConfigSnapshot :: "jsval \<Rightarrow> string" where
  "newConfigSnapshot cfg = array_join (snapshot_parts cfg) []"

definition take_snapshot :: "opts \<Rightarrow> jsval \<Rightarrow> world \<Rightarrow> world" where
  "take_snapshot opts cfg w =
     (if opts_watch opts then
        let new = newConfigSnapshot cfg;
            w1 = (case configSnapshot w of
                    None \<Rightarrow> w
                  | Some old \<Rightarrow>
                      if old \<noteq> [] then w\<lparr>webpackConfChanged := Some (new \<noteq> old)\<rparr> else w)
        in w1\<lparr>configSnapshot := Some new\<rparr>
      else w)"

subsection \<open>The normalizer, phase B: build options and public path\<close>

text \<open>
  \<^verbatim>\<open>
  if (![ 'kebab', 'pascal', 'combined' ].includes(cfg.framework.autoImportComponentCase)) {
    cfg.framework.autoImportComponentCase = 'kebab'
  }
  \<close>
\<close>

definition naming_case :: "jsval \<Rightarrow> jsval completion" where
  "naming_case cfg =
     (let fw = getp cfg ''framework'' in
      if \<not> is_JObj fw then Threw ''TypeError''
      else if getp fw ''autoImportComponentCase''
                \<notin> set [JStr ''kebab'', JStr ''pascal'', JStr ''combined'']
      then Returned (setp cfg ''framework'' (setp fw ''autoImportComponentCase'' (JStr ''kebab'')))
      else Returned cfg)"

text \<open>
  The defaults of lines 531--591, under which \<^verbatim>\<open>cfg.build\<close> is merged.
  \<^verbatim>\<open>path.join('dist', this.ctx.modeName)\<close> is the mode name under \<^verbatim>\<open>dist/\<close>.
\<close>

definition uglify_compress :: jsval where
  "uglify_compress =
     JObj [
       (''arrows'', JBool False), (''collapse_vars'', JBool False),
       (''comparisons'', JBool False), (''computed_props'', JBool False),
       (''hoist_funs'', JBool False), (''hoist_props'', JBool False),
       (''hoist_vars'', JBool False), (''inline'', JBool False),
       (''loops'', JBool False), (''negate_iife'', JBool False),
       (''properties'', JBool False), (''reduce_funcs'', JBool False),
       (''reduce_vars'', JBool False), (''switches'', JBool False),
       (''toplevel'', JBool False), (''typeofs'', JBool False),
       (''booleans'', JBool True), (''if_return'', JBool True),
       (''sequences'', JBool True), (''unused'', JBool True),
       (''conditionals'', JBool True), (''dead_code'', JBool True),
       (''evaluate'', JBool True)]"

definition build_defaults :: "env \<Rightarrow> ctx \<Rightarrow> jsval" where
  "build_defaults e c =
     JObj [
       (''vueLoaderOptions'', JObj [(''transformAssetUrls'', transformAssetUrls e)]),
       (''showProgress'', JBool True),
       (''productName'', appPkg_productName e),
       (''productDescription'', appPkg_description e),
       (''extractCSS'', JBool (ctx_prod c \<or> mode_ssr c)),
       (''sourceMap'', JBool (ctx_dev c)),
       (''minify'', JBool (ctx_prod c \<and> \<not> mode_bex c)),
       (''distDir'', JStr (''dist/'' @ ctx_modeName c)),
       (''htmlFilename'', JStr ''index.html''),
       (''ssrPwaHtmlFilename'', JStr ''offline.html''),
       (''vueRouterMode'', JStr ''hash''),
       (''transpile'', JBool True),
       (''devtool'', JStr (if ctx_dev c then ''eval-cheap-module-source-map''
                           else ''source-map'')),
       (''uglifyOptions'',
          JObj [(''compress'', uglify_compress),
                (''mangle'', JObj [(''safari10'', JBool True)])])]"

text \<open>
  Lines 604--631, the overrides by mode (\<^verbatim>\<open>Object.assign(cfg.build, ...)\<close> and single
  assignments):
  \<^verbatim>\<open>
  if (this.ctx.dev || this.ctx.debug) { minify: false, gzip: false }
  if (this.ctx.dev && !this.ctx.mode.ssr) { cfg.build.extractCSS = false }
  if (this.ctx.debug) { cfg.build.sourceMap = true }
  if (this.ctx.mode.ssr) { vueRouterMode: 'history', gzip: false }
  else if (this.ctx.mode.cordova || this.ctx.mode.capacitor
           || this.ctx.mode.electron || this.ctx.mode.bex) {
    htmlFilename: 'index.html', vueRouterMode: 'hash', gzip: false
  }
  \<close>
\<close>

definition mode_overrides :: "ctx \<Rightarrow> jsval \<Rightarrow> jsval" where
  "mode_overrides c build =
     (let b1 = (if ctx_dev c \<or> ctx_debug c
                then setp (setp build ''minify'' (JBool False)) ''gzip'' (JBool False)
                else build);
          b2 = (if ctx_dev c \<and> \<not> mode_ssr c then setp b1 ''extractCSS'' (JBool False) else b1);
          b3 = (if ctx_debug c then setp b2 ''sourceMap'' (JBool True) else b2);
          b4 = (if mode_ssr c
                then setp (setp b3 ''vueRouterMode'' (JStr ''history'')) ''gzip'' (JBool False)
                else if mode_cordova c \<or> mode_capacitor c \<or> mode_electron c \<or> mode_bex c
                then setp (setp (setp b3 ''htmlFilename'' (JStr ''index.html''))
                             ''vueRouterMode'' (JStr ''hash''))
                       ''gzip'' (JBool False)
                else b3)
      in b4)"

text \<open>
  \<^verbatim>\<open>
  cfg.build.publicPath
    = cfg.build.publicPath && [ 'spa', 'pwa', 'ssr' ].includes(this.ctx.modeName)
      ? formatPublicPath(cfg.build.publicPath)
      : (cfg.build.vueRouterMode === 'hash' ? '' : '/')
  \<close>
  \<^verbatim>\<open>formatPublicPath\<close> calls \<^verbatim>\<open>path.endsWith\<close>, which only a string has: any other truthy
  value is a TypeError.
\<close>

fun formatPublicPath_of :: "jsval \<Rightarrow> jsval completion" where
  "formatPublicPath_of (JStr s) = Returned (JStr (formatPublicPath s))"
| "formatPublicPath_of JUndefined = Returned (JStr [])"
| "formatPublicPath_of JNull = Returned (JStr [])"
| "formatPublicPath_of (JBool b) = (if b then Threw ''TypeError'' else Returned (JStr []))"
| "formatPublicPath_of (JNum n) = (if n \<noteq> 0 then Threw ''TypeError'' else Returned (JStr []))"
| "formatPublicPath_of (JFun f) = Threw ''TypeError''"
| "formatPublicPath_of (JArr xs) = Threw ''TypeError''"
| "formatPublicPath_of (JObj ps) = Threw ''TypeError''"

definition publicPath :: "ctx \<Rightarrow> jsval \<Rightarrow> jsval completion" where
  "publicPath c build =
     (if truthy (getp build ''publicPath'')
         \<and> ctx_modeName c \<in> set [''spa'', ''pwa'', ''ssr'']
      then formatPublicPath_of (getp build ''publicPath'')
      else Returned (JStr (if getp build ''vueRouterMode'' = JStr ''hash'' then [] else ''/'')))"

text \<open>
  Line 462 is the first to read a property of \<^verbatim>\<open>cfg.build\<close>
  (\<^verbatim>\<open>cfg.build.vueOptionsApi\<close>), a TypeError when a hook has left it \<^verbatim>\<open>null\<close> or
  \<^verbatim>\<open>undefined\<close>; line 531 is \<^verbatim>\<open>cfg.build = merge({ ... }, cfg.build)\<close>.
\<close>

definition derive_build :: "env \<Rightarrow> ctx \<Rightarrow> jsval \<Rightarrow> jsval completion" where
  "derive_build e c cfg =
     (if nullish (getp cfg ''build'') then Threw ''TypeError''
      else
        case naming_case cfg of
          Returned cfg1 \<Rightarrow>
            (let build = mode_overrides c (merge_js [build_defaults e c, getp cfg1 ''build''])
             in case publicPath c build of
                  Returned pp \<Rightarrow> Returned (setp cfg1 ''build'' (setp build ''publicPath'' pp))
                | ProcessExit \<Rightarrow> ProcessExit
                | Threw err \<Rightarrow> Threw err)
        | ProcessExit \<Rightarrow> ProcessExit
        | Threw err \<Rightarrow> Threw err)"

subsection \<open>The normalizer, phase B: server rendering, installable web app, result\<close>

text \<open>
  \<^verbatim>\<open>
  if (this.ctx.mode.ssr) {
    cfg.ssr = merge({
      pwa: false, manualStoreHydration: false, manualPostHydrationTrigger: false,
      prodPort: 3000, maxAge: 1000 * 60 * 60 * 24 * 30
    }, cfg.ssr)
    ...
    this.ctx.mode.pwa = cfg.ctx.mode.pwa = !!cfg.ssr.pwa
  }
  \<close>
  Merging \<^verbatim>\<open>null\<close> or \<^verbatim>\<open>undefined\<close> is a TypeError of webpack-merge.
\<close>

definition ssr_defaults :: jsval where
  "ssr_defaults =
     JObj [(''pwa'', JBool False), (''manualStoreHydration'', JBool False),
           (''manualPostHydrationTrigger'', JBool False), (''prodPort'', JNum 3000),
           (''maxAge'', JNum (1000 * 60 * 60 * 24 * 30))]"

definition derive_ssr :: "jsval \<Rightarrow> world \<Rightarrow> jsval completion \<times> world" where
  "derive_ssr cfg w =
     (if mode_ssr (this_ctx w) then
        (if nullish (getp cfg ''ssr'') then (Threw ''TypeError'', w)
         else
           let ssr = merge_js [ssr_defaults, getp cfg ''ssr''];
               pwa = truthy (getp ssr ''pwa'')
           in (Returned (set_path (setp cfg ''ssr'' ssr) [''ctx'', ''mode'', ''pwa''] (JBool pwa)),
               w\<lparr>this_ctx := (this_ctx w)\<lparr>mode_pwa := pwa\<rparr>\<rparr>))
      else (Returned cfg, w))"

text \<open>
  \<^verbatim>\<open>
  if (this.ctx.mode.pwa) {
    cfg.pwa = merge({ workboxPluginMode: 'GenerateSW', ... }, cfg.pwa)

    if (cfg.pwa.manifest.icons.length === 0) {
      warn()
      warn('PWA manifest in quasar.config file > pwa > manifest is missing "icons" prop.\n')
      process.exit(1)
    }

    if (![ 'GenerateSW', 'InjectManifest' ].includes(cfg.pwa.workboxPluginMode)) {
      warn()
      warn(`Workbox webpack plugin mode "${ cfg.pwa.workboxPluginMode }" is invalid.`)
      warn('Valid Workbox modes are: GenerateSW, InjectManifest\n')
      process.exit(1)
    }
    ...
  }
  \<close>
\<close>

definition pwa_defaults :: "env \<Rightarrow> jsval" where
  "pwa_defaults e =
     JObj [
       (''workboxPluginMode'', JStr ''GenerateSW''),
       (''workboxOptions'', JObj []),
       (''useCredentials'', JBool False),
       (''manifest'', JObj [
          (''name'', js_or (appPkg_productName e) (js_or (appPkg_name e) (JStr ''Quasar App''))),
          (''short_name'', js_or (appPkg_name e) (JStr ''quasar-pwa'')),
          (''description'', appPkg_description e),
          (''display'', JStr ''standalone''),
          (''start_url'', JStr ''.'')]),
       (''metaVariables'', JObj [
          (''appleMobileWebAppCapable'', JStr ''yes''),
          (''appleMobileWebAppStatusBarStyle'', JStr ''default''),
          (''appleTouchIcon120'', JStr ''icons/apple-icon-120x120.png''),
          (''appleTouchIcon152'', JStr ''icons/apple-icon-152x152.png''),
          (''appleTouchIcon167'', JStr ''icons/apple-icon-167x167.png''),
          (''appleTouchIcon180'', JStr ''icons/apple-icon-180x180.png''),
          (''appleSafariPinnedTab'', JStr ''icons/safari-pinned-tab.svg''),
          (''msapplicationTileImage'', JStr ''icons/ms-icon-144x144.png''),
          (''msapplicationTileColor'', JStr ''#000000'')])]"

definition missing_icons_msg :: string where
  "missing_icons_msg =
     ''PWA manifest in quasar.config file > pwa > manifest is missing '' @ [CHR 0x22]
       @ ''icons'' @ [CHR 0x22] @ '' prop.'' @ [CHR 0x0A]"

definition invalid_workbox_msg :: "jsval \<Rightarrow> string" where
  "invalid_workbox_msg v =
     ''Workbox webpack plugin mode '' @ [CHR 0x22] @ toString v @ [CHR 0x22] @ '' is invalid.''"

definition derive_pwa :: "env \<Rightarrow> jsval \<Rightarrow> world \<Rightarrow> jsval completion \<times> world" where
  "derive_pwa e cfg w =
     (if mode_pwa (this_ctx w) then
        (if nullish (getp cfg ''pwa'') then (Threw ''TypeError'', w)
         else
           let pwa = merge_js [pwa_defaults e, getp cfg ''pwa''] in
           if nullish (getp pwa ''manifest'') \<or> nullish (getp (getp pwa ''manifest'') ''icons'')
           then (Threw ''TypeError'', w)
           else if js_length (getp (getp pwa ''manifest'') ''icons'') = JNum 0
           then (ProcessExit, warn missing_icons_msg (warn [] w))
           else if getp pwa ''workboxPluginMode''
                     \<notin> set [JStr ''GenerateSW'', JStr ''InjectManifest'']
           then (ProcessExit,
                 warn (''Valid Workbox modes are: GenerateSW, InjectManifest'' @ [CHR 0x0A])
                   (warn (invalid_workbox_msg (getp pwa ''workboxPluginMode'')) (warn [] w)))
           else (Returned (setp cfg ''pwa'' pwa), w))
      else (Returned cfg, w))"

text \<open>
  \<^verbatim>\<open>
  this.quasarConf = cfg
  if (this.#webpackConfChanged !== false) {
    this.webpackConf = await createWebpackConfig(cfg)
  }
  return { quasarConf: this.quasarConf, webpackConf: this.webpackConf }
  \<close>
\<close>

definition store_result ::
  "env \<Rightarrow> jsval \<Rightarrow> world \<Rightarrow> (jsval \<times> jsval) option completion \<times> world"
where
  "store_result e cfg w =
     (let w1 = w\<lparr>quasarConf := cfg\<rparr>;
          w2 = (if webpackConfChanged w1 \<noteq> Some False
                then w1\<lparr>webpackConf := createWebpackConfig e cfg\<rparr> else w1)
      in (Returned (Some (quasarConf w2, webpackConf w2)), w2))"

definition phaseB ::
  "env \<Rightarrow> opts \<Rightarrow> jsval \<Rightarrow> world \<Rightarrow> (jsval \<times> jsval) option completion \<times> world"
where
  "phaseB e opts userCfg w =
     andThen (framework_defaults
                (resolve_animations e (merge_js [skeleton (this_ctx w), userCfg])), w)
       (\<lambda>cfg w. andThen (resolve_address opts cfg w)
       (\<lambda>cfg w. andThen (runHook (hooks e) cfg w)
       (\<lambda>cfg w. andThen (derive_build e (this_ctx w) cfg, take_snapshot opts cfg w)
       (\<lambda>cfg w. andThen (derive_ssr cfg w)
       (\<lambda>cfg w. andThen (derive_pwa e cfg w)
       (\<lambda>cfg w. store_result e cfg w))))))"

subsection \<open>The normalizer, phase A\<close>

text \<open>
  \<^verbatim>\<open>
  async #computeConfig (quasarConfigFn, failOnError) {
    if (typeof quasarConfigFn !== 'function') {
      if (failOnError === true) {
        fatal('The default export value of the quasar.config file is not a function', 'FAIL')
      }
      warn('The default export value of the quasar.config file is not a function. ' ...)
      return
    }
    let userCfg
    try { userCfg = await quasarConfigFn(this.ctx) }
    catch (e) {
      console.log()
      console.error(e)
      if (failOnError === true) { fatal('The quasar.config file has runtime errors', 'FAIL') }
      warn('The quasar.config file has runtime errors. Please fix them ...')
      return
    }
    if (Object(userCfg) !== userCfg) {
      if (failOnError === true) {
        fatal('The quasar.config file does not default exports an Object', 'FAIL')
      }
      warn('The quasar.config file does not default exports an Object. Please fix it ...')
      return
    }
    ...
  \<close>
  The result is \<open>Returned None\<close> for the bare \<^verbatim>\<open>return\<close> and
  \<open>Returned (Some (quasarConf, webpackConf))\<close> for the returned pair.
  \<^verbatim>\<open>Object(userCfg) !== userCfg\<close> holds exactly for the primitive values.
\<close>

definition not_a_function_msg :: string where
  "not_a_function_msg = ''The default export value of the quasar.config file is not a function''"

definition runtime_errors_msg :: string where
  "runtime_errors_msg = ''The quasar.config file has runtime errors''"

definition not_an_object_msg :: string where
  "not_an_object_msg = ''The quasar.config file does not default exports an Object''"

definition computeConfig ::
  "env \<Rightarrow> opts \<Rightarrow> factory \<Rightarrow> bool \<Rightarrow> world \<Rightarrow> (jsval \<times> jsval) option completion \<times> world"
where
  "computeConfig e opts quasarConfigFn failOnError w =
     (case quasarConfigFn of
        NotAFunction \<Rightarrow>
          if failOnError then fatal not_a_function_msg w
          else (Returned None,
                warn (not_a_function_msg @ ''. Please fix it then save the file again.''
                        @ [CHR 0x0A]) w)
      | Factory fn \<Rightarrow>
          (case fn (this_ctx w) of
             Rejects \<Rightarrow>
               if failOnError then fatal runtime_errors_msg (emit ConsoleError w)
               else (Returned None,
                     warn (runtime_errors_msg @ ''. Please fix them then save the file again.''
                             @ [CHR 0x0A]) (emit ConsoleError w))
           | Resolves userCfg \<Rightarrow>
               if primitive userCfg then
                 (if failOnError then fatal not_an_object_msg w
                  else (Returned None,
                        warn (not_an_object_msg @ ''. Please fix it then save the file again.''
                                @ [CHR 0x0A]) w))
               else phaseB e opts userCfg w))"

subsection \<open>Compiling and loading: the one-shot reader\<close>

text \<open>
  esbuild writes \<^verbatim>\<open>outfile: tempFile\<close> when a build succeeds; the code relies on it when
  it requires the file right after. \<^verbatim>\<open>require(tempFile)\<close> throws when the file is missing
  or when evaluating the module throws; otherwise it gives the module, of which the code
  takes \<^verbatim>\<open>result.default || result\<close>: the \<open>factory\<close> of \<open>Loaded\<close>. The watcher deletes
  the entry of the file in \<^verbatim>\<open>require.cache\<close> before it requires it, so every require
  evaluates the file anew, and the cache is not part of the state.
\<close>

datatype load_result = LoadThrows | Loaded factory

definition esbuild_writes :: "bool \<Rightarrow> world \<Rightarrow> world" where
  "esbuild_writes succeeded w = (if succeeded then w\<lparr>tempFile_exists := True\<rparr> else w)"

definition removeSync :: "world \<Rightarrow> world" where
  "removeSync w = emit RemoveSync (w\<lparr>tempFile_exists := False\<rparr>)"

definition require_tempFile :: "load_result \<Rightarrow> world \<Rightarrow> load_result \<times> world" where
  "require_tempFile m w = ((if tempFile_exists w then m else LoadThrows), emit Require w)"

text \<open>
  \<^verbatim>\<open>
  async #build (esbuildConfig) {
    try { await esBuild(esbuildConfig) }
    catch (e) {
      removeSync(tempFile)
      console.log()
      console.error(e)
      fatal('Could not compile quasar.config file because it has errors', 'FAIL')
    }
    let fnResult
    try { fnResult = require(tempFile) }
    catch (e) {
      removeSync(tempFile)
      console.log()
      console.error(e)
      fatal('The quasar.config file has runtime errors', 'FAIL')
    }
    removeSync(tempFile)
    const quasarConfigFn = fnResult.default || fnResult
    return this.#computeConfig(quasarConfigFn, true)
  }
  \<close>
  \<open>succeeded\<close> says whether \<^verbatim>\<open>esBuild\<close> resolved, \<open>m\<close> is what requiring the written file
  gives. A module whose export is \<^verbatim>\<open>null\<close> or \<^verbatim>\<open>undefined\<close> is not among the values
  of \<open>load_result\<close>: reading \<^verbatim>\<open>fnResult.default\<close> is then a TypeError, here after the
  file has been removed, and in the watcher inside the \<^verbatim>\<open>try\<close> block, where it is one
  of the ways in which \<open>LoadThrows\<close> comes about.
\<close>

definition could_not_compile_msg :: string where
  "could_not_compile_msg = ''Could not compile quasar.config file because it has errors''"

definition importing_error_msg :: string where
  "importing_error_msg = ''Importing quasar.config file results in error''"

definition build ::
  "env \<Rightarrow> opts \<Rightarrow> bool \<Rightarrow> load_result \<Rightarrow> world \<Rightarrow> (jsval \<times> jsval) option completion \<times> world"
where
  "build e opts succeeded m w0 =
     (let w = esbuild_writes succeeded w0 in
      if \<not> succeeded then fatal could_not_compile_msg (emit ConsoleError (removeSync w))
      else
        case require_tempFile m w of
          (LoadThrows, w1) \<Rightarrow> fatal runtime_errors_msg (emit ConsoleError (removeSync w1))
        | (Loaded quasarConfigFn, w1) \<Rightarrow>
            computeConfig e opts quasarConfigFn True (emit (ComputeConfig True) (removeSync w1)))"

subsection \<open>The watcher\<close>

text \<open>\<^verbatim>\<open>watch () { this.#isWatching = true }\<close>\<close>

definition watch :: "world \<Rightarrow> world" where
  "watch w = w\<lparr>isWatching := True\<rparr>"

text \<open>
  \<^verbatim>\<open>
  const scheduleUpdate = debounce(() => {
    this.opts.watch[ updateFn ]()
    updateFn = null
  }, 1000)
  \<close>
  \<^verbatim>\<open>debounce\<close> of lodash, with its default options: a call (re)starts a timer of 1000
  milliseconds, and the function runs once when the timer expires, that is 1000
  milliseconds after the last call. \<open>scheduleUpdate now\<close> is a call at time \<open>now\<close>,
  \<open>expire\<close> is the timer expiring, \<open>advance t\<close> lets time pass until \<open>t\<close>.
\<close>

definition scheduleUpdate :: "nat \<Rightarrow> world \<Rightarrow> world" where
  "scheduleUpdate now w = emit ScheduleUpdate (w\<lparr>timer := Some (now + 1000)\<rparr>)"

definition expire :: "world \<Rightarrow> world" where
  "expire w =
     (case updateFn w of
        Some f \<Rightarrow> (emit (Callback f) w)\<lparr>updateFn := None, timer := None\<rparr>
      | None \<Rightarrow> (emit CallbackMissing w)\<lparr>timer := None\<rparr>)"

definition advance :: "nat \<Rightarrow> world \<Rightarrow> world" where
  "advance t w = (case timer w of Some d \<Rightarrow> if d \<le> t then expire w else w | None \<Rightarrow> w)"

text \<open>
  A build-finished event: \<^verbatim>\<open>result.errors.length\<close>, what requiring the written file
  gives, and the collaborators of this cycle.
\<close>

record build_end =
  errors_length :: nat
  loaded :: load_result
  cycle_env :: env

text \<open>
  \<^verbatim>\<open>
  build.onEnd(async result => {
    if (isFirst === false && this.#isWatching === false) {
      // not ready yet; watch() has not been issued yet
      return
    }
    delete require.cache[ tempFile ]
    if (result.errors.length !== 0) {
      removeSync(tempFile)
      if (isFirst === true) {
        fatal('Could not compile quasar.config file because it has errors', 'FAIL')
      }
      warn('Could not compile quasar.config file because it has errors. ' ...)
      return
    }
    let quasarConfigFn
    try {
      const result = require(tempFile)
      quasarConfigFn = result.default || result
    }
    catch (e) {
      removeSync(tempFile)
      console.log()
      console.error(e)
      if (isFirst === true) {
        fatal('Importing quasar.config file results in error', 'FAIL')
      }
      warn('Importing quasar.config file results in error. Please review ...')
      return
    }
    removeSync(tempFile)
    delete require.cache[ tempFile ]
    const { quasarConf, webpackConf } = await this.#computeConfig(quasarConfigFn, isFirst)
    if (isFirst === true) {
      isFirst = false
      firstBuildIsDone({ quasarConf, webpackConf })
      return
    }
    if (quasarConf !== void 0) {
      // if triggering updates too fast, then remember
      // if any of them required the rebuild
      updateFn = updateFn === 'onBuildChange' || this.#webpackConfChanged === true
        ? 'onBuildChange'
        : 'onAppChange'
      log('Scheduled to apply quasar.config changes in 1s')
      scheduleUpdate()
    }
  })
  \<close>
  The handler runs at time \<open>now\<close>. Destructuring the \<^verbatim>\<open>undefined\<close> that
  \<^verbatim>\<open>#computeConfig\<close> returns after a warning is a TypeError.
\<close>

definition after_computeConfig ::
  "nat \<Rightarrow> (jsval \<times> jsval) option completion \<times> world \<Rightarrow> unit completion \<times> world"
where
  "after_computeConfig now r =
     (case r of
        (Returned None, w) \<Rightarrow> (Threw ''TypeError'', w)
      | (Returned (Some (qc, wc)), w) \<Rightarrow>
          if isFirst w then
            (Returned (), emit FirstBuildIsDone (w\<lparr>isFirst := False, firstBuild := Some (qc, wc)\<rparr>))
          else if qc \<noteq> JUndefined then
            (Returned (),
             scheduleUpdate now
               (log ''Scheduled to apply quasar.config changes in 1s''
                  (w\<lparr>updateFn :=
                       Some (if updateFn w = Some OnBuildChange \<or> webpackConfChanged w = Some True
                             then OnBuildChange else OnAppChange)\<rparr>)))
          else (Returned (), w)
      | (ProcessExit, w) \<Rightarrow> (ProcessExit, w)
      | (Threw err, w) \<Rightarrow> (Threw err, w))"

definition onEnd :: "opts \<Rightarrow> nat \<Rightarrow> build_end \<Rightarrow> world \<Rightarrow> unit completion \<times> world" where
  "onEnd opts now result w =
     (if \<not> isFirst w \<and> \<not> isWatching w then (Returned (), w)
      else if errors_length result \<noteq> 0 then
        (if isFirst w then fatal could_not_compile_msg (removeSync w)
         else (Returned (),
               warn (could_not_compile_msg @ ''. Please fix them then save the file again.''
                       @ [CHR 0x0A]) (removeSync w)))
      else
        case require_tempFile (loaded result) w of
          (LoadThrows, w1) \<Rightarrow>
            if isFirst w then fatal importing_error_msg (emit ConsoleError (removeSync w1))
            else (Returned (),
                  warn (importing_error_msg @ ''. Please review the file then save it again.''
                          @ [CHR 0x0A]) (emit ConsoleError (removeSync w1)))
        | (Loaded quasarConfigFn, w1) \<Rightarrow>
            after_computeConfig now
              (computeConfig (cycle_env result) opts quasarConfigFn (isFirst w)
                 (emit (ComputeConfig (isFirst w)) (removeSync w1))))"

text \<open>
  One rebuild of the continuous session at time \<open>t\<close>: time passes until \<open>t\<close>, esbuild
  writes the file if the build succeeded, and the handler runs. The handler is
  asynchronous; build-finished events are handled one at a time, and the model runs a
  handler as one step, at the time \<open>t\<close> at which its normalization completes. A session is
  followed through its events for as long as the handler returns.
\<close>

definition rebuild :: "opts \<Rightarrow> nat \<Rightarrow> build_end \<Rightarrow> world \<Rightarrow> unit completion \<times> world" where
  "rebuild opts t ev w = onEnd opts t ev (esbuild_writes (errors_length ev = 0) (advance t w))"

fun session :: "opts \<Rightarrow> (nat \<times> build_end) list \<Rightarrow> world \<Rightarrow> unit completion \<times> world" where
  "session opts [] w = (Returned (), w)"
| "session opts ((t, ev) # evs) w =
     (case rebuild opts t ev w of
        (Returned u, w') \<Rightarrow> session opts evs w'
      | (ProcessExit, w') \<Rightarrow> (ProcessExit, w')
      | (Threw err, w') \<Rightarrow> (Threw err, w'))"

text \<open>The state of a new instance (constructor and field initialisers).\<close>

definition new_world :: "ctx \<Rightarrow> world" where
  "new_world c =
     \<lparr> this_ctx = c, quasarConf = JUndefined, webpackConf = JUndefined, address = JUndefined,
       isWatching = False, configSnapshot = None, webpackConfChanged = None,
       isFirst = True, updateFn = None, timer = None, firstBuild = None,
       tempFile_exists = False, effects = [] \<rparr>"

subsection \<open>Concrete inputs\<close>

text \<open>
  Contexts, options, collaborators and configurations at which the theorems below are
  instantiated: a development context for a browser application, a production context for
  an installable web app, options without and with a watch bundle.
\<close>

definition dev_ctx :: ctx where
  "dev_ctx =
     \<lparr> ctx_dev = True, ctx_prod = False, ctx_debug = False, ctx_modeName = ''spa'',
       mode_ssr = False, mode_pwa = False, mode_cordova = False, mode_capacitor = False,
       mode_electron = False, mode_bex = False \<rparr>"

definition pwa_ctx :: ctx where
  "pwa_ctx =
     \<lparr> ctx_dev = False, ctx_prod = True, ctx_debug = False, ctx_modeName = ''pwa'',
       mode_ssr = False, mode_pwa = True, mode_cordova = False, mode_capacitor = False,
       mode_electron = False, mode_bex = False \<rparr>"

definition plain_opts :: opts where
  "plain_opts =
     \<lparr> opts_host = JUndefined, opts_port = JUndefined, opts_onAddress = None,
       opts_watch = False \<rparr>"

definition watch_opts :: opts where
  "watch_opts =
     \<lparr> opts_host = JUndefined, opts_port = JUndefined, opts_onAddress = None,
       opts_watch = True \<rparr>"

definition minimal_cfg :: jsval where
  "minimal_cfg = JObj [(''devServer'', JObj [(''server'', JObj [])])]"


definition env0 :: env where
  "env0 =
     \<lparr> animations = JArr [], appPkg_name = JStr ''app'', appPkg_productName = JStr ''App'',
       appPkg_description = JStr ''An app'', transformAssetUrls = JObj [], hooks = [],
       createWebpackConfig = (\<lambda>cfg. JObj [(''entry'', JStr ''main'')]) \<rparr>"

definition declining_opts :: opts where
  "declining_opts =
     \<lparr> opts_host = JUndefined, opts_port = JUndefined,
       opts_onAddress = Some (\<lambda>addr. JNull), opts_watch = False \<rparr>"

definition port_taken_opts :: opts where
  "port_taken_opts =
     \<lparr> opts_host = JUndefined, opts_port = JUndefined,
       opts_onAddress = Some (\<lambda>addr. JObj [(''host'', getp addr ''host''), (''port'', JNum 8081)]),
       opts_watch = False \<rparr>"

definition negotiated_world :: world where
  "negotiated_world =
     (new_world dev_ctx)\<lparr>address :=
        JObj [(''from'', JObj [(''host'', JStr ''0.0.0.0''), (''port'', JNum 8080)]),
              (''to'', JObj [(''host'', JStr ''0.0.0.0''), (''port'', JNum 8081)])]\<rparr>"

subsection \<open>Frame conditions\<close>

text \<open>
  Vocabulary for what the normalizer leaves alone. \<open>quiet\<close> effects are the ones it can
  produce: logger calls, \<^verbatim>\<open>console.error\<close>, and the call of \<^verbatim>\<open>opts.onAddress\<close>.
  \<open>frame w w'\<close>: from \<open>w\<close> to \<open>w'\<close> the closure variables of the watcher, the temporary
  file, \<^verbatim>\<open>this.quasarConf\<close> and \<^verbatim>\<open>this.webpackConf\<close> are unchanged, the context is
  unchanged unless the mode is server rendering, and only quiet effects were added. \<open>step_ok\<close> is the frame condition of one step of phase B together with the
  fact that the configuration it passes on is still an object; \<open>final_ok\<close> says how phase
  B ends: the process exits, or it throws, or the result is stored, after steps that kept
  the frame.
\<close>

fun quiet :: "effect \<Rightarrow> bool" where
  "quiet (Log m) = True"
| "quiet (Warn m) = True"
| "quiet (Fatal m) = True"
| "quiet ConsoleError = True"
| "quiet (OnAddress a) = True"
| "quiet RemoveSync = False"
| "quiet Require = False"
| "quiet (ComputeConfig b) = False"
| "quiet FirstBuildIsDone = False"
| "quiet ScheduleUpdate = False"
| "quiet (Callback f) = False"
| "quiet CallbackMissing = False"

definition frame :: "world \<Rightarrow> world \<Rightarrow> bool" where
  "frame w w' \<longleftrightarrow>
     isWatching w' = isWatching w \<and> isFirst w' = isFirst w \<and> updateFn w' = updateFn w
     \<and> timer w' = timer w \<and> firstBuild w' = firstBuild w
     \<and> tempFile_exists w' = tempFile_exists w
     \<and> quasarConf w' = quasarConf w \<and> webpackConf w' = webpackConf w
     \<and> mode_ssr (this_ctx w') = mode_ssr (this_ctx w)
     \<and> (\<not> mode_ssr (this_ctx w) \<longrightarrow> this_ctx w' = this_ctx w)
     \<and> (\<exists>es. effects w' = effects w @ es \<and> list_all quiet es)"

definition step_ok :: "world \<Rightarrow> jsval completion \<times> world \<Rightarrow> bool" where
  "step_ok w r \<longleftrightarrow> frame w (snd r) \<and> (\<forall>cfg. fst r = Returned cfg \<longrightarrow> is_JObj cfg)"

definition final_ok ::
  "env \<Rightarrow> world \<Rightarrow> (jsval \<times> jsval) option completion \<times> world \<Rightarrow> bool"
where
  "final_ok e w r \<longleftrightarrow>
     (\<exists>w'. frame w w'
        \<and> (r = (ProcessExit, w') \<or> (\<exists>err. r = (Threw err, w'))
            \<or> (\<exists>cfg. is_JObj cfg \<and> r = store_result e cfg w')))"

definition armed_world :: world where
  "armed_world = (new_world pwa_ctx)\<lparr>isFirst := False, isWatching := True\<rparr>"

definition number_factory :: factory where
  "number_factory = Factory (\<lambda>c. Resolves (JNum 5))"

definition empty_factory :: factory where
  "empty_factory = Factory (\<lambda>c. Resolves (JObj []))"

definition edit_without_icons :: build_end where
  "edit_without_icons = \<lparr> errors_length = 0, loaded = Loaded empty_factory, cycle_env = env0 \<rparr>"

definition failed_build :: build_end where
  "failed_build = \<lparr> errors_length = 2, loaded = LoadThrows, cycle_env = env0 \<rparr>"

definition broken_module :: build_end where
  "broken_module = \<lparr> errors_length = 0, loaded = LoadThrows, cycle_env = env0 \<rparr>"

definition throwing_factory :: factory where
  "throwing_factory = Factory (\<lambda>c. Rejects)"

definition no_icons_cfg :: jsval where
  "no_icons_cfg = JObj [(''pwa'', JObj [(''manifest'', JObj [(''icons'', JArr [])])])]"

definition bad_workbox_cfg :: jsval where
  "bad_workbox_cfg =
     JObj [(''pwa'', JObj [(''workboxPluginMode'', JStr ''generateSW''),
                           (''manifest'', JObj [(''icons'', JArr [JObj [(''src'', JStr ''a.png'')]])])])]"

text \<open>
  The subtrees of the configuration that the snapshot is meant to cover, and two
  configurations after the skeleton merge: one whose user sets \<^verbatim>\<open>ssr.pwa\<close> to true, one
  whose user sets \<^verbatim>\<open>framework.autoImportComponentCase\<close> to the string \<^verbatim>\<open>true\<close>.
\<close>

definition whitelisted :: "jsval \<Rightarrow> jsval list" where
  "whitelisted cfg =
     [ getp cfg ''build'', getp (getp cfg ''ssr'') ''pwa'',
       getp (getp cfg ''framework'') ''autoImportComponentCase'', getp cfg ''devServer'',
       getp cfg ''pwa'', getp cfg ''electron'', getp cfg ''bex'', getp cfg ''htmlVariables'' ]"

definition ssr_pwa_cfg :: jsval where
  "ssr_pwa_cfg = merge_js [skeleton dev_ctx, JObj [(''ssr'', JObj [(''pwa'', JBool True)])]]"

definition case_true_cfg :: jsval where
  "case_true_cfg =
     merge_js [skeleton dev_ctx,
               JObj [(''framework'', JObj [(''autoImportComponentCase'', JStr ''true'')])]]"

text \<open>
  Three more configurations after the skeleton merge: the one of a user who sets nothing,
  the one of a user who adds a style sheet (not a whitelisted subtree), and the one of a
  user who sets \<^verbatim>\<open>build.transpileDependencies\<close>.
\<close>

definition plain_cfg :: jsval where
  "plain_cfg = merge_js [skeleton dev_ctx, JObj []]"

definition css_cfg :: jsval where
  "css_cfg = merge_js [skeleton dev_ctx, JObj [(''css'', JArr [JStr ''app.scss''])]]"

definition transpile_cfg :: jsval where
  "transpile_cfg =
     merge_js [skeleton dev_ctx,
               JObj [(''build'', JObj [(''transpileDependencies'', JArr [JStr ''vue''])])]]"

subsection \<open>Notifications\<close>

text \<open>
  The effects that belong to the update notification: a call of the debounced
  \<^verbatim>\<open>scheduleUpdate\<close> and a call of a callback of \<^verbatim>\<open>opts.watch\<close>. \<open>wframe\<close> is the frame
  of the watcher: closure variables and temporary file unchanged, no notification added.
  \<open>unarmed_world\<close> is a watch session after its first build, before \<^verbatim>\<open>watch()\<close>;
  \<open>saved_edit\<close> is a rebuild that succeeds, of a module whose factory yields \<^verbatim>\<open>{}\<close>.
\<close>

fun notification :: "effect \<Rightarrow> bool" where
  "notification ScheduleUpdate = True"
| "notification (Callback f) = True"
| "notification CallbackMissing = True"
| "notification (Log m) = False"
| "notification (Warn m) = False"
| "notification (Fatal m) = False"
| "notification ConsoleError = False"
| "notification RemoveSync = False"
| "notification Require = False"
| "notification (ComputeConfig b) = False"
| "notification (OnAddress a) = False"
| "notification FirstBuildIsDone = False"

definition wframe :: "world \<Rightarrow> world \<Rightarrow> bool" where
  "wframe w w' \<longleftrightarrow>
     isWatching w' = isWatching w \<and> isFirst w' = isFirst w \<and> updateFn w' = updateFn w
     \<and> timer w' = timer w \<and> firstBuild w' = firstBuild w
     \<and> tempFile_exists w' = tempFile_exists w
     \<and> filter notification (effects w') = filter notification (effects w)"

definition unarmed_world :: world where
  "unarmed_world = (new_world dev_ctx)\<lparr>isFirst := False\<rparr>"

definition saved_edit :: build_end where
  "saved_edit = \<lparr> errors_length = 0, loaded = Loaded empty_factory, cycle_env = env0 \<rparr>"

text \<open>
  \<open>written_world\<close> is a new watch session at its first build-finished event, the file
  written. \<open>calm w w'\<close>: from \<open>w\<close> to \<open>w'\<close> the armed flag and the timer are unchanged
  and no notification was added.
\<close>

definition written_world :: world where
  "written_world = esbuild_writes True (new_world dev_ctx)"

definition calm :: "world \<Rightarrow> world \<Rightarrow> bool" where
  "calm w w' \<longleftrightarrow>
     isWatching w' = isWatching w \<and> timer w' = timer w
     \<and> filter notification (effects w') = filter notification (effects w)"

subsection \<open>Coalescing windows\<close>

text \<open>
  Vocabulary for a run of rebuilds that fall into one coalescing window. A rebuild is
  \<open>successful\<close> when the build has no errors, the module loads and the normalizer of that
  cycle (a later cycle: \<^verbatim>\<open>failOnError\<close> is false) returns a configuration.

  \<open>post_hook\<close> is the normalizer from the skeleton merge to the extension hooks (lines
  299--437): what it returns is the post-hook configuration, the one the snapshot is
  computed from. \<open>cycle_snapshot\<close> is the snapshot of the post-hook configuration of a
  rebuild, and the rebuild is \<open>pipeline_affecting\<close> with respect to \<open>prev\<close>, the
  snapshot of the cycle before, when the two strings differ. Along a run of rebuilds
  \<open>prev\<close> is at first the snapshot the session holds and then the snapshot of the rebuild
  before: \<open>any_pipeline_affecting\<close> says that some rebuild of the run is
  pipeline-affecting, \<open>all_compared\<close> that every rebuild of the run has a non-empty
  snapshot to be compared with (line 453 compares only then).

  \<open>coalesced t ts\<close>: each of the times \<open>ts\<close> is less than 1000 milliseconds after the one
  before, starting from \<open>t\<close>. \<open>callback\<close> picks the calls of the callbacks of
  \<^verbatim>\<open>opts.watch\<close> among the effects.
\<close>

definition spa_ctx :: ctx where
  "spa_ctx =
     \<lparr> ctx_dev = False, ctx_prod = True, ctx_debug = False, ctx_modeName = ''spa'',
       mode_ssr = False, mode_pwa = False, mode_cordova = False, mode_capacitor = False,
       mode_electron = False, mode_bex = False \<rparr>"

definition successful :: "opts \<Rightarrow> nat \<Rightarrow> build_end \<Rightarrow> world \<Rightarrow> bool" where
  "successful opts t ev w \<longleftrightarrow>
     errors_length ev = 0
     \<and> (case loaded ev of
          LoadThrows \<Rightarrow> False
        | Loaded quasarConfigFn \<Rightarrow>
            (case fst (computeConfig (cycle_env ev) opts quasarConfigFn False
                         (emit (ComputeConfig False)
                            (removeSync (emit Require (esbuild_writes True (advance t w)))))) of
               Returned (Some r) \<Rightarrow> True
             | Returned None \<Rightarrow> False
             | ProcessExit \<Rightarrow> False
             | Threw err \<Rightarrow> False))"

definition post_hook :: "env \<Rightarrow> opts \<Rightarrow> jsval \<Rightarrow> world \<Rightarrow> jsval completion \<times> world" where
  "post_hook e opts userCfg w =
     andThen (framework_defaults
                (resolve_animations e (merge_js [skeleton (this_ctx w), userCfg])), w)
       (\<lambda>cfg w. andThen (resolve_address opts cfg w)
       (\<lambda>cfg w. runHook (hooks e) cfg w))"

definition cycle_snapshot :: "opts \<Rightarrow> nat \<Rightarrow> build_end \<Rightarrow> world \<Rightarrow> string option" where
  "cycle_snapshot opts t ev w =
     (case loaded ev of
        LoadThrows \<Rightarrow> None
      | Loaded NotAFunction \<Rightarrow> None
      | Loaded (Factory fn) \<Rightarrow>
          (let w3 = emit (ComputeConfig False)
                      (removeSync (emit Require (esbuild_writes True (advance t w))))
           in case fn (this_ctx w3) of
                Rejects \<Rightarrow> None
              | Resolves userCfg \<Rightarrow>
                  (case fst (post_hook (cycle_env ev) opts userCfg w3) of
                     Returned cfg \<Rightarrow> Some (newConfigSnapshot cfg)
                   | ProcessExit \<Rightarrow> None
                   | Threw err \<Rightarrow> None)))"

definition pipeline_affecting :: "string \<Rightarrow> opts \<Rightarrow> nat \<Rightarrow> build_end \<Rightarrow> world \<Rightarrow> bool" where
  "pipeline_affecting prev opts t ev w \<longleftrightarrow>
     (case cycle_snapshot opts t ev w of None \<Rightarrow> False | Some new \<Rightarrow> new \<noteq> prev)"

fun all_successful :: "opts \<Rightarrow> (nat \<times> build_end) list \<Rightarrow> world \<Rightarrow> bool" where
  "all_successful opts [] w = True"
| "all_successful opts ((t, ev) # evs) w =
     (successful opts t ev w \<and> all_successful opts evs (snd (rebuild opts t ev w)))"

fun all_compared :: "string \<Rightarrow> opts \<Rightarrow> (nat \<times> build_end) list \<Rightarrow> world \<Rightarrow> bool" where
  "all_compared prev opts [] w = True"
| "all_compared prev opts ((t, ev) # evs) w =
     (prev \<noteq> []
      \<and> (case cycle_snapshot opts t ev w of
            None \<Rightarrow> True
          | Some new \<Rightarrow> all_compared new opts evs (snd (rebuild opts t ev w))))"

fun any_pipeline_affecting :: "string \<Rightarrow> opts \<Rightarrow> (nat \<times> build_end) list \<Rightarrow> world \<Rightarrow> bool" where
  "any_pipeline_affecting prev opts [] w = False"
| "any_pipeline_affecting prev opts ((t, ev) # evs) w =
     (pipeline_affecting prev opts t ev w
      \<or> (case cycle_snapshot opts t ev w of
            None \<Rightarrow> False
          | Some new \<Rightarrow> any_pipeline_affecting new opts evs (snd (rebuild opts t ev w))))"

fun coalesced :: "nat \<Rightarrow> nat list \<Rightarrow> bool" where
  "coalesced t [] = True"
| "coalesced t (u # us) = (t \<le> u \<and> u < t + 1000 \<and> coalesced u us)"

fun callback :: "effect \<Rightarrow> bool" where
  "callback (Callback f) = True"
| "callback CallbackMissing = True"
| "callback ScheduleUpdate = False"
| "callback (Log m) = False"
| "callback (Warn m) = False"
| "callback (Fatal m) = False"
| "callback ConsoleError = False"
| "callback RemoveSync = False"
| "callback Require = False"
| "callback (ComputeConfig b) = False"
| "callback (OnAddress a) = False"
| "callback FirstBuildIsDone = False"

text \<open>
  A session for a browser application built for production. \<open>armed_idle_world\<close> is the
  session after its first cycle, of a module whose factory yields \<^verbatim>\<open>{}\<close>, and after
  \<^verbatim>\<open>watch()\<close>, and \<open>idle_snapshot\<close> the snapshot of that cycle. \<open>build_edit\<close> is a
  rebuild after the user has set \<^verbatim>\<open>build.transpileDependencies\<close>, with the snapshot
  \<open>build_edit_snapshot\<close>; \<open>css_edit\<close> is a rebuild after the user has added a style
  sheet to that; \<open>style_edit\<close> is a rebuild after the user has added a style sheet and
  nothing else.
\<close>

definition armed_idle_world :: world where
  "armed_idle_world = watch (snd (rebuild watch_opts 0 saved_edit (new_world spa_ctx)))"

definition build_edit_cfg :: jsval where
  "build_edit_cfg = JObj [(''build'', JObj [(''transpileDependencies'', JArr [JStr ''vue''])])]"

definition idle_snapshot :: string where
  "idle_snapshot = newConfigSnapshot (merge_js [skeleton spa_ctx, JObj []])"

definition build_edit_snapshot :: string where
  "build_edit_snapshot = newConfigSnapshot (merge_js [skeleton spa_ctx, build_edit_cfg])"

definition css_edit_cfg :: jsval where
  "css_edit_cfg =
     JObj [(''build'', JObj [(''transpileDependencies'', JArr [JStr ''vue''])]),
           (''css'', JArr [JStr ''app.scss''])]"

definition style_edit_cfg :: jsval where
  "style_edit_cfg = JObj [(''css'', JArr [JStr ''app.scss''])]"

definition build_edit :: build_end where
  "build_edit =
     \<lparr> errors_length = 0, loaded = Loaded (Factory (\<lambda>c. Resolves build_edit_cfg)),
       cycle_env = env0 \<rparr>"

definition css_edit :: build_end where
  "css_edit =
     \<lparr> errors_length = 0, loaded = Loaded (Factory (\<lambda>c. Resolves css_edit_cfg)),
       cycle_env = env0 \<rparr>"

definition style_edit :: build_end where
  "style_edit =
     \<lparr> errors_length = 0, loaded = Loaded (Factory (\<lambda>c. Resolves style_edit_cfg)),
       cycle_env = env0 \<rparr>"

subsection \<open>Properties of the public path\<close>

lemma endsWith_slash: "endsWith s ''/'' \<longleftrightarrow> s \<noteq> [] \<and> last s = CHR ''/''"
proof (cases s rule: rev_cases)
  case Nil
  then show ?thesis by (simp add: endsWith_def)
next
  case (snoc ys y)
  then show ?thesis by (auto simp: endsWith_def)
qed

lemma startsWith_slash: "startsWith s ''/'' \<longleftrightarrow> s \<noteq> [] \<and> hd s = CHR ''/''"
  by (cases s) (auto simp: startsWith_def)

lemma formatPublicPath_endsWith:
  "formatPublicPath s \<noteq> [] \<Longrightarrow> endsWith (formatPublicPath s) ''/''"
  by (auto simp: formatPublicPath_def endsWith_slash Let_def split: if_splits)

lemma formatPublicPath_shape:
  "formatPublicPath s \<noteq> [] \<Longrightarrow>
     urlRegex_test (formatPublicPath s) \<or> startsWith (formatPublicPath s) ''/''"
  by (auto simp: formatPublicPath_def startsWith_slash Let_def split: if_splits)

lemma formatPublicPath_fixed:
  assumes "endsWith p ''/''" and "urlRegex_test p \<or> startsWith p ''/''"
  shows "formatPublicPath p = p"
  using assms by (auto simp: formatPublicPath_def Let_def endsWith_slash)

text \<open>
  C10. \<^verbatim>\<open>formatPublicPath\<close> is idempotent on strings, and every non-empty result ends
  with \<^verbatim>\<open>/\<close> and either matches the absolute-URL pattern or begins with \<^verbatim>\<open>/\<close>.
\<close>

theorem formatPublicPath_idempotent:
  "formatPublicPath (formatPublicPath s) = formatPublicPath s \<and>
   (formatPublicPath s \<noteq> [] \<longrightarrow>
      endsWith (formatPublicPath s) ''/'' \<and>
      (urlRegex_test (formatPublicPath s) \<or> startsWith (formatPublicPath s) ''/''))"
proof (cases "formatPublicPath s = []")
  case True
  then show ?thesis by (simp add: formatPublicPath_def)
next
  case False
  have e: "endsWith (formatPublicPath s) ''/''"
    using False by (rule formatPublicPath_endsWith)
  have u: "urlRegex_test (formatPublicPath s) \<or> startsWith (formatPublicPath s) ''/''"
    using False by (rule formatPublicPath_shape)
  from e u have "formatPublicPath (formatPublicPath s) = formatPublicPath s"
    by (rule formatPublicPath_fixed)
  with e u show ?thesis by simp
qed

theorem formatPublicPath_idempotent_witness:
  "formatPublicPath ''app'' = ''/app/'' \<and>
   formatPublicPath (formatPublicPath ''app'') = formatPublicPath ''app'' \<and>
   formatPublicPath ''app'' \<noteq> [] \<and>
   endsWith (formatPublicPath ''app'') ''/'' \<and>
   (urlRegex_test (formatPublicPath ''app'') \<or> startsWith (formatPublicPath ''app'') ''/'')"
proof -
  have v: "formatPublicPath ''app'' = ''/app/''"
    by (simp add: formatPublicPath_def endsWith_def startsWith_def urlRegex_test_def Let_def)
  have n: "formatPublicPath ''app'' \<noteq> []"
    by (simp add: v)
  show ?thesis
    using formatPublicPath_idempotent [of "''app''"] n v by simp
qed

subsection \<open>Properties of objects and of the merge\<close>

lemma map_of_put: "map_of (put k v ps) k' = (if k' = k then Some v else map_of ps k')"
  by (induction ps) auto

lemma getp_setp: "is_JObj obj \<Longrightarrow> getp (setp obj k v) k' = (if k' = k then v else getp obj k')"
  by (cases obj) (simp_all add: map_of_put)

lemma is_JObj_setp: "is_JObj obj \<Longrightarrow> is_JObj (setp obj k v)"
  by (cases obj) simp_all

lemma is_JObj_requested: "is_JObj ds \<Longrightarrow> is_JObj (requested_devServer opts ds)"
  by (simp add: requested_devServer_def Let_def is_JObj_setp)

lemma map_of_mergeKeys:
  "map_of (mergeKeys ps qs) k =
     map_option (\<lambda>v. let r = joinArrays v (getp (JObj qs) k) in if r = JUndefined then v else r)
       (map_of ps k)"
  by (induction ps) (auto simp: Let_def)

lemma map_of_filter_absent:
  "map_of (filter (\<lambda>(k, v). map_of ps k = None) qs) k =
     (if map_of ps k = None then map_of qs k else None)"
  by (induction qs) auto

lemma getp_joinArrays:
  "getp (joinArrays (JObj ps) (JObj qs)) k =
     (case map_of ps k of
        None \<Rightarrow> getp (JObj qs) k
      | Some v \<Rightarrow> (let r = joinArrays v (getp (JObj qs) k) in if r = JUndefined then v else r))"
  by (simp add: map_add_def map_of_mergeKeys map_of_filter_absent Let_def
           split: option.splits)

lemma is_JObj_joinArrays: "is_JObj (joinArrays (JObj ps) (JObj qs))"
  by simp

lemma merge_js_pair: "merge_js [JObj ps, JObj qs] = joinArrays (JObj ps) (JObj qs)"
  by (simp add: merge_js_def merge2_def)

lemma skeleton_devServer: "\<exists>ps. skeleton c = JObj ps \<and> map_of ps ''devServer'' = Some (JObj [(''server'', JObj [])])"
  by (simp add: skeleton_def)

lemma merged_devServer:
  assumes "getp (JObj ps) ''devServer'' = JUndefined
           \<or> (\<exists>qs. getp (JObj ps) ''devServer'' = JObj qs
                 \<and> \<not> truthy (getp (JObj qs) ''host'') \<and> \<not> truthy (getp (JObj qs) ''port''))"
  shows "is_JObj (getp (merge_js [skeleton c, JObj ps]) ''devServer'')
         \<and> \<not> truthy (getp (getp (merge_js [skeleton c, JObj ps]) ''devServer'') ''host'')
         \<and> \<not> truthy (getp (getp (merge_js [skeleton c, JObj ps]) ''devServer'') ''port'')"
proof -
  obtain sk where sk: "skeleton c = JObj sk"
    and dv: "map_of sk ''devServer'' = Some (JObj [(''server'', JObj [])])"
    using skeleton_devServer by blast
  let ?u = "getp (JObj ps) ''devServer''"
  have m: "getp (merge_js [skeleton c, JObj ps]) ''devServer'' =
             (let r = joinArrays (JObj [(''server'', JObj [])]) ?u
              in if r = JUndefined then JObj [(''server'', JObj [])] else r)"
    unfolding sk merge_js_pair getp_joinArrays dv by simp
  from assms show ?thesis
  proof
    assume "?u = JUndefined"
    then show ?thesis unfolding m by simp
  next
    assume "\<exists>qs. ?u = JObj qs \<and> \<not> truthy (getp (JObj qs) ''host'') \<and> \<not> truthy (getp (JObj qs) ''port'')"
    then obtain qs where u: "?u = JObj qs"
      and h: "\<not> truthy (getp (JObj qs) ''host'')" and p: "\<not> truthy (getp (JObj qs) ''port'')"
      by blast
    have r: "getp (merge_js [skeleton c, JObj ps]) ''devServer''
               = joinArrays (JObj [(''server'', JObj [])]) (JObj qs)"
      unfolding m u by simp
    show ?thesis
      unfolding r getp_joinArrays using h p by simp
  qed
qed

subsection \<open>The requested dev-server address\<close>

text \<open>
  C7. In a development context, when the options give no host and no port and the merged
  configuration has none either (the skeleton supplies none, so they can only come from
  the user's object: \<open>merged_devServer\<close>), the normalizer negotiates for the dev server
  whose host is \<^verbatim>\<open>0.0.0.0\<close> and whose port is 8080.
\<close>

theorem default_host_port:
  assumes "ctx_dev (this_ctx w)"
    and "\<not> truthy (opts_host opts)" and "\<not> truthy (opts_port opts)"
    and "is_JObj (getp cfg ''devServer'')"
    and "\<not> truthy (getp (getp cfg ''devServer'') ''host'')"
    and "\<not> truthy (getp (getp cfg ''devServer'') ''port'')"
  shows "resolve_address opts cfg w =
           andThen (negotiate opts (requested_devServer opts (getp cfg ''devServer'')) w)
             (\<lambda>ds w'. (Returned (setp cfg ''devServer'' ds), w'))
         \<and> getp (requested_devServer opts (getp cfg ''devServer'')) ''host'' = JStr ''0.0.0.0''
         \<and> getp (requested_devServer opts (getp cfg ''devServer'')) ''port'' = JNum 8080"
  using assms
  by (simp add: resolve_address_def requested_devServer_def Let_def getp_setp is_JObj_setp)

theorem default_host_port_witness:
  "ctx_dev (this_ctx (new_world dev_ctx)) \<and> \<not> truthy (opts_host plain_opts) \<and> \<not> truthy (opts_port plain_opts)
   \<and> is_JObj (getp minimal_cfg ''devServer'')
   \<and> \<not> truthy (getp (getp minimal_cfg ''devServer'') ''host'')
   \<and> \<not> truthy (getp (getp minimal_cfg ''devServer'') ''port'')
   \<and> getp (requested_devServer plain_opts (getp minimal_cfg ''devServer'')) ''host'' = JStr ''0.0.0.0''
   \<and> getp (requested_devServer plain_opts (getp minimal_cfg ''devServer'')) ''port'' = JNum 8080"
proof -
  have a: "ctx_dev (this_ctx (new_world dev_ctx))" by (simp add: new_world_def dev_ctx_def)
  have b: "\<not> truthy (opts_host plain_opts)" "\<not> truthy (opts_port plain_opts)"
    by (simp_all add: plain_opts_def)
  have c: "is_JObj (getp minimal_cfg ''devServer'')" by (simp add: minimal_cfg_def)
  have d: "\<not> truthy (getp (getp minimal_cfg ''devServer'') ''host'')"
    "\<not> truthy (getp (getp minimal_cfg ''devServer'') ''port'')"
    by (simp_all add: minimal_cfg_def)
  from default_host_port [OF a b c d] a b c d show ?thesis by simp
qed

subsection \<open>The derived public path\<close>

lemma digit_in_digits: "d < 10 \<Longrightarrow> digit d \<in> set ''0123456789''"
  unfolding digit_def by (rule nth_mem) simp

lemma decimal_digits: "set (decimal n) \<subseteq> set ''0123456789''"
proof (induction n rule: decimal.induct)
  case (1 n)
  show ?case
  proof (cases "10 \<le> n")
    case True
    have "digit (n mod 10) \<in> set ''0123456789''" by (rule digit_in_digits) simp
    with True 1 show ?thesis by (subst decimal.simps) simp
  next
    case False
    then have "digit n \<in> set ''0123456789''" by (intro digit_in_digits) simp
    with False show ?thesis by (subst decimal.simps) simp
  qed
qed

lemma decimal_not_name:
  assumes "\<not> set k \<subseteq> set ''0123456789''"
  shows "decimal n \<noteq> k"
  using assms decimal_digits [of n] by auto

lemma map_of_indexed_name:
  assumes "\<not> set k \<subseteq> set ''0123456789''"
  shows "map_of (indexed i xs) k = None"
proof (induction xs arbitrary: i)
  case Nil
  show ?case by simp
next
  case (Cons x xs)
  have "decimal i \<noteq> k" using assms by (rule decimal_not_name)
  then have "k \<noteq> decimal i" by blast
  with Cons show ?case by simp
qed

lemma getp_own_props_name:
  assumes "\<not> set k \<subseteq> set ''0123456789''"
  shows "getp (JObj (own_props b)) k = getp b k"
  using assms by (cases b) (simp_all add: map_of_indexed_name)

lemma is_JObj_merge_js_pair: "is_JObj (merge_js [a, b])"
  by (simp add: merge_js_def merge2_def)

lemma getp_merge_js_pair:
  "getp (merge_js [a, b]) k =
     (case map_of (own_props a) k of
        None \<Rightarrow> getp (JObj (own_props b)) k
      | Some v \<Rightarrow> (let r = joinArrays v (getp (JObj (own_props b)) k)
                   in if r = JUndefined then v else r))"
  unfolding merge_js_def merge2_def by (simp add: getp_joinArrays del: joinArrays.simps getp.simps)


lemma getp_mode_overrides_publicPath:
  "is_JObj b \<Longrightarrow> getp (mode_overrides c b) ''publicPath'' = getp b ''publicPath''"
  by (simp add: mode_overrides_def Let_def is_JObj_setp getp_setp)

lemma build_defaults_publicPath: "map_of (own_props (build_defaults e c)) ''publicPath'' = None"
  by (simp add: build_defaults_def)

lemma naming_case_build:
  assumes "naming_case cfg = Returned cfg1" and "is_JObj cfg"
  shows "getp cfg1 ''build'' = getp cfg ''build'' \<and> is_JObj cfg1"
  using assms by (auto simp: naming_case_def Let_def getp_setp is_JObj_setp split: if_splits)

lemma nonnull_prop_is_JObj: "\<not> nullish (getp cfg k) \<Longrightarrow> is_JObj cfg"
  by (cases cfg) simp_all


lemma naming_case_returns:
  assumes "is_JObj (getp cfg ''framework'')"
  shows "\<exists>cfg1. naming_case cfg = Returned cfg1"
  using assms by (simp add: naming_case_def Let_def)



lemma joinArrays_undefined: "joinArrays v JUndefined = JUndefined"
  by (cases v) simp_all

subsection \<open>Address negotiation\<close>

text \<open>
  C6, as stated, says that whenever the prior address does not match, the callback is
  invoked and the new pair is cached. At a first cycle whose callback answers \<^verbatim>\<open>null\<close>
  the callback is invoked, the normalizer throws \<^verbatim>\<open>NETWORK_ERROR\<close>, and nothing is
  cached.
\<close>

theorem negotiation_declined:
  "resolve_address declining_opts minimal_cfg (new_world dev_ctx)
     = (Threw ''NETWORK_ERROR'',
        emit (OnAddress (JObj [(''host'', JStr ''0.0.0.0''), (''port'', JNum 8080)]))
          (new_world dev_ctx))
   \<and> address (snd (resolve_address declining_opts minimal_cfg (new_world dev_ctx))) = JUndefined"
  by (simp add: resolve_address_def negotiate_def negotiated_def andThen_def Let_def emit_def
        requested_devServer_def declining_opts_def minimal_cfg_def new_world_def dev_ctx_def)

text \<open>
  C6, amended. In a development context, with \<open>ds\<close> the dev server as requested: if a
  prior address exists whose requested host and port are strictly equal to those of
  \<open>ds\<close>, the cycle takes the previously negotiated host and port and leaves the state as it
  is (no call of the callback, no new cache entry). Otherwise the callback, when there is
  one, is called with the requested address; an answer of \<^verbatim>\<open>null\<close> throws
  \<^verbatim>\<open>NETWORK_ERROR\<close> and caches nothing; any other defined answer is merged into the dev
  server and the requested address is cached with the host and port of the merged dev
  server. Without a callback the requested address is its own answer.
\<close>

theorem address_negotiation:
  fixes opts :: opts and cfg :: jsval and w :: world
  defines "ds \<equiv> requested_devServer opts (getp cfg ''devServer'')"
  defines "addr \<equiv> JObj [(''host'', getp ds ''host''), (''port'', getp ds ''port'')]"
  defines "prior \<equiv> truthy (address w)
                   \<and> strict_eq (getp (getp (address w) ''from'') ''host'') (getp ds ''host'')
                   \<and> strict_eq (getp (getp (address w) ''from'') ''port'') (getp ds ''port'')"
  defines "cached \<equiv> \<lambda>to. JObj [(''from'', addr),
                             (''to'', JObj [(''host'', getp (merge_js [JObj [], ds, to]) ''host''),
                                            (''port'', getp (merge_js [JObj [], ds, to]) ''port'')])]"
  assumes "ctx_dev (this_ctx w)" and "is_JObj (getp cfg ''devServer'')"
  shows "(prior \<longrightarrow>
            resolve_address opts cfg w
              = (Returned (setp cfg ''devServer''
                             (setp (setp ds ''host'' (getp (getp (address w) ''to'') ''host''))
                                ''port'' (getp (getp (address w) ''to'') ''port''))),
                 w))
       \<and> (\<not> prior \<longrightarrow>
            (\<forall>f. opts_onAddress opts = Some f \<longrightarrow>
                 (f addr = JNull \<longrightarrow>
                    resolve_address opts cfg w
                      = (Threw ''NETWORK_ERROR'', emit (OnAddress addr) w))
               \<and> (f addr \<noteq> JNull \<and> f addr \<noteq> JUndefined \<longrightarrow>
                    resolve_address opts cfg w
                      = (Returned (setp cfg ''devServer'' (merge_js [JObj [], ds, f addr])),
                         (emit (OnAddress addr) w)\<lparr>address := cached (f addr)\<rparr>)))
          \<and> (opts_onAddress opts = None \<longrightarrow>
                 resolve_address opts cfg w
                   = (Returned (setp cfg ''devServer'' (merge_js [JObj [], ds, addr])),
                      w\<lparr>address := cached addr\<rparr>)))"
  using assms(5,6) unfolding ds_def addr_def prior_def cached_def
  by (auto simp: resolve_address_def negotiate_def negotiated_def andThen_def Let_def emit_def)

theorem address_negotiation_witness:
  "ctx_dev (this_ctx negotiated_world) \<and> ctx_dev (this_ctx (new_world dev_ctx))
   \<and> is_JObj (getp minimal_cfg ''devServer'')
   \<and> resolve_address port_taken_opts minimal_cfg negotiated_world
       = (Returned (JObj [(''devServer'',
                           JObj [(''server'', JObj []), (''host'', JStr ''0.0.0.0''),
                                 (''port'', JNum 8081)])]),
          negotiated_world)
   \<and> resolve_address declining_opts minimal_cfg (new_world dev_ctx)
       = (Threw ''NETWORK_ERROR'',
          emit (OnAddress (JObj [(''host'', JStr ''0.0.0.0''), (''port'', JNum 8080)]))
            (new_world dev_ctx))
   \<and> resolve_address port_taken_opts minimal_cfg (new_world dev_ctx)
       = (Returned (JObj [(''devServer'',
                           JObj [(''server'', JObj []), (''host'', JStr ''0.0.0.0''),
                                 (''port'', JNum 8081)])]),
          (emit (OnAddress (JObj [(''host'', JStr ''0.0.0.0''), (''port'', JNum 8080)]))
             (new_world dev_ctx))
            \<lparr>address :=
               JObj [(''from'', JObj [(''host'', JStr ''0.0.0.0''), (''port'', JNum 8080)]),
                     (''to'', JObj [(''host'', JStr ''0.0.0.0''), (''port'', JNum 8081)])]\<rparr>)
   \<and> resolve_address plain_opts minimal_cfg (new_world dev_ctx)
       = (Returned (JObj [(''devServer'',
                           JObj [(''server'', JObj []), (''host'', JStr ''0.0.0.0''),
                                 (''port'', JNum 8080)])]),
          (new_world dev_ctx)
            \<lparr>address :=
               JObj [(''from'', JObj [(''host'', JStr ''0.0.0.0''), (''port'', JNum 8080)]),
                     (''to'', JObj [(''host'', JStr ''0.0.0.0''), (''port'', JNum 8080)])]\<rparr>)"
proof -
  have d1: "ctx_dev (this_ctx negotiated_world)"
    by (simp add: negotiated_world_def new_world_def dev_ctx_def)
  have d2: "ctx_dev (this_ctx (new_world dev_ctx))"
    by (simp add: new_world_def dev_ctx_def)
  have o: "is_JObj (getp minimal_cfg ''devServer'')"
    by (simp add: minimal_cfg_def)
  have a: "resolve_address port_taken_opts minimal_cfg negotiated_world
       = (Returned (JObj [(''devServer'',
                           JObj [(''server'', JObj []), (''host'', JStr ''0.0.0.0''),
                                 (''port'', JNum 8081)])]),
          negotiated_world)"
    using address_negotiation [OF d1 o, of port_taken_opts]
    by (simp add: port_taken_opts_def negotiated_world_def requested_devServer_def
          minimal_cfg_def new_world_def strict_eq_def Let_def)
  have b: "resolve_address declining_opts minimal_cfg (new_world dev_ctx)
       = (Threw ''NETWORK_ERROR'',
          emit (OnAddress (JObj [(''host'', JStr ''0.0.0.0''), (''port'', JNum 8080)]))
            (new_world dev_ctx))"
    using address_negotiation [OF d2 o, of declining_opts]
    by (simp add: declining_opts_def requested_devServer_def
          minimal_cfg_def new_world_def strict_eq_def Let_def)
  have c: "resolve_address port_taken_opts minimal_cfg (new_world dev_ctx)
       = (Returned (JObj [(''devServer'',
                           JObj [(''server'', JObj []), (''host'', JStr ''0.0.0.0''),
                                 (''port'', JNum 8081)])]),
          (emit (OnAddress (JObj [(''host'', JStr ''0.0.0.0''), (''port'', JNum 8080)]))
             (new_world dev_ctx))
            \<lparr>address :=
               JObj [(''from'', JObj [(''host'', JStr ''0.0.0.0''), (''port'', JNum 8080)]),
                     (''to'', JObj [(''host'', JStr ''0.0.0.0''), (''port'', JNum 8081)])]\<rparr>)"
    using address_negotiation [OF d2 o, of port_taken_opts]
    by (simp add: port_taken_opts_def requested_devServer_def merge_js_def merge2_def
          minimal_cfg_def new_world_def strict_eq_def Let_def)
  have d: "resolve_address plain_opts minimal_cfg (new_world dev_ctx)
       = (Returned (JObj [(''devServer'',
                           JObj [(''server'', JObj []), (''host'', JStr ''0.0.0.0''),
                                 (''port'', JNum 8080)])]),
          (new_world dev_ctx)
            \<lparr>address :=
               JObj [(''from'', JObj [(''host'', JStr ''0.0.0.0''), (''port'', JNum 8080)]),
                     (''to'', JObj [(''host'', JStr ''0.0.0.0''), (''port'', JNum 8080)])]\<rparr>)"
    using address_negotiation [OF d2 o, of plain_opts]
    by (simp add: plain_opts_def requested_devServer_def merge_js_def merge2_def
          minimal_cfg_def new_world_def strict_eq_def Let_def)
  from d1 d2 o a b c d show ?thesis by blast
qed

subsection \<open>The frame of the normalizer\<close>

lemma frame_refl: "frame w w"
  by (simp add: frame_def)

lemma frame_trans: "frame w w1 \<Longrightarrow> frame w1 w2 \<Longrightarrow> frame w w2"
  by (auto simp: frame_def)

lemma frame_emit: "quiet x \<Longrightarrow> frame w (emit x w)"
  by (simp add: frame_def emit_def)

lemma frame_warn: "frame w (warn m w)"
  by (simp add: warn_def frame_emit)

lemma frame_log: "frame w (log m w)"
  by (simp add: log_def frame_emit)

lemma andThen_final:
  assumes "frame w w1" and "step_ok w1 r"
    and "\<And>cfg w2. is_JObj cfg \<Longrightarrow> frame w w2 \<Longrightarrow> final_ok e w (k cfg w2)"
  shows "final_ok e w (andThen r k)"
proof (cases r)
  case (Pair c w2)
  from assms(2) Pair have f12: "frame w1 w2" by (simp add: step_ok_def)
  with assms(1) have f: "frame w w2" by (rule frame_trans)
  show ?thesis
  proof (cases c)
    case (Returned cfg)
    with assms(2) Pair have "is_JObj cfg" by (simp add: step_ok_def)
    with f have "final_ok e w (k cfg w2)" by (intro assms(3))
    with Pair Returned show ?thesis by (simp add: andThen_def)
  next
    case ProcessExit
    with Pair f show ?thesis by (auto simp: andThen_def final_ok_def)
  next
    case (Threw err)
    with Pair f show ?thesis by (auto simp: andThen_def final_ok_def)
  qed
qed

lemma is_JObj_resolve_animations: "is_JObj cfg \<Longrightarrow> is_JObj (resolve_animations e cfg)"
  by (simp add: resolve_animations_def is_JObj_setp)

lemma step_framework_defaults:
  "step_ok w (framework_defaults (resolve_animations e (merge_js [a, b])), w)"
  by (auto simp: step_ok_def frame_refl framework_defaults_def Let_def is_JObj_setp
        is_JObj_resolve_animations is_JObj_merge_js_pair split: if_splits)

lemma frame_negotiated: "frame w (snd (negotiated ds addr to w))"
  by (simp add: negotiated_def frame_def Let_def)

lemma negotiated_JObj: "fst (negotiated ds addr to w) = Returned x \<Longrightarrow> is_JObj x"
  by (auto simp: negotiated_def Let_def merge_js_def merge2_def split: if_splits)

lemma step_negotiate:
  assumes "is_JObj ds"
  shows "step_ok w (negotiate opts ds w)"
proof -
  have e: "frame w (emit (OnAddress a) w)" for a by (rule frame_emit) simp
  have "frame w (snd (negotiated ds addr to (emit (OnAddress a) w)))" for addr to a
    by (rule frame_trans [OF e frame_negotiated])
  then show ?thesis
    using assms
    by (auto simp: step_ok_def negotiate_def Let_def frame_refl frame_negotiated
          is_JObj_setp dest: negotiated_JObj split: option.splits)
qed

lemma step_resolve_address:
  assumes "is_JObj cfg"
  shows "step_ok w (resolve_address opts cfg w)"
proof (cases "ctx_dev (this_ctx w) \<and> is_JObj (getp cfg ''devServer'')")
  case True
  then have "is_JObj (requested_devServer opts (getp cfg ''devServer''))"
    by (simp add: is_JObj_requested)
  then have "step_ok w (negotiate opts (requested_devServer opts (getp cfg ''devServer'')) w)"
    by (rule step_negotiate)
  with True assms show ?thesis
    by (cases "negotiate opts (requested_devServer opts (getp cfg ''devServer'')) w")
       (auto simp: step_ok_def resolve_address_def andThen_def is_JObj_setp
          split: completion.splits)
next
  case False
  with assms show ?thesis
    by (auto simp: step_ok_def resolve_address_def frame_refl)
qed

lemma is_JObj_mutate: "is_JObj cfg \<Longrightarrow> is_JObj (mutate fn cfg)"
  by (cases cfg) simp_all

lemma step_runHook: "is_JObj cfg \<Longrightarrow> step_ok w (runHook hs cfg w)"
proof (induction hs arbitrary: cfg w)
  case Nil
  then show ?case by (simp add: step_ok_def frame_refl)
next
  case (Cons h hs)
  obtain extId fn where h: "h = (extId, fn)" by (cases h)
  let ?w = "log (''Extension('' @ extId @ ''): Extending quasar.config file...'') w"
  from Cons.prems have "is_JObj (mutate fn cfg)" by (rule is_JObj_mutate)
  then have "step_ok ?w (runHook hs (mutate fn cfg) ?w)" by (rule Cons.IH)
  moreover have "frame w ?w" by (rule frame_log)
  ultimately show ?case
    unfolding h by (auto simp: step_ok_def intro: frame_trans)
qed

lemma frame_take_snapshot: "frame w (take_snapshot opts cfg w)"
  by (simp add: take_snapshot_def frame_def Let_def split: option.splits)

lemma derive_build_JObj: "derive_build e c cfg = Returned cfg' \<Longrightarrow> is_JObj cfg'"
  by (auto simp: derive_build_def Let_def is_JObj_setp
        dest: naming_case_build nonnull_prop_is_JObj split: if_splits completion.splits)

lemma step_derive_build: "step_ok w (derive_build e c cfg, take_snapshot opts cfg w)"
  by (auto simp: step_ok_def frame_take_snapshot dest: derive_build_JObj)

lemma is_JObj_set_path: "is_JObj obj \<Longrightarrow> ks \<noteq> [] \<Longrightarrow> is_JObj (set_path obj ks v)"
  by (cases ks) (simp_all add: is_JObj_setp)

lemma step_derive_ssr: "is_JObj cfg \<Longrightarrow> step_ok w (derive_ssr cfg w)"
  by (auto simp: step_ok_def derive_ssr_def Let_def frame_refl frame_def is_JObj_setp)

lemma step_derive_pwa: "is_JObj cfg \<Longrightarrow> step_ok w (derive_pwa e cfg w)"
  by (auto simp: step_ok_def derive_pwa_def Let_def frame_refl is_JObj_setp
        intro: frame_trans [OF frame_warn frame_warn]
               frame_trans [OF frame_warn frame_trans [OF frame_warn frame_warn]])

lemma phaseB_final: "final_ok e w (phaseB e opts userCfg w)"
  unfolding phaseB_def
  apply (rule andThen_final [OF frame_refl step_framework_defaults])
  apply (rule andThen_final, assumption, erule step_resolve_address)
  apply (rule andThen_final, assumption, erule step_runHook)
  apply (rule andThen_final, assumption, rule step_derive_build)
  apply (rule andThen_final, assumption, erule step_derive_ssr)
  apply (rule andThen_final, assumption, erule step_derive_pwa)
  apply (auto simp: final_ok_def)
  done

lemma frame_fatal: "frame w (snd (fatal m w))"
  by (simp add: fatal_def frame_emit)

lemma computeConfig_cases:
  "\<exists>w'. frame w w'
     \<and> (computeConfig e opts fn foe w = (ProcessExit, w')
         \<or> (\<exists>err. computeConfig e opts fn foe w = (Threw err, w'))
         \<or> computeConfig e opts fn foe w = (Returned None, w')
         \<or> (\<exists>cfg. is_JObj cfg \<and> computeConfig e opts fn foe w = store_result e cfg w'))"
proof (cases fn)
  case NotAFunction
  have "frame w (emit (Fatal m) w)" for m by (rule frame_emit) simp
  with NotAFunction frame_warn [of w] show ?thesis
    by (cases foe) (auto simp: computeConfig_def fatal_def)
next
  case (Factory f)
  show ?thesis
  proof (cases "f (this_ctx w)")
    case Rejects
    have c: "frame w (emit ConsoleError w)" by (rule frame_emit) simp
    have "frame (emit ConsoleError w) (emit (Fatal m) (emit ConsoleError w))" for m
      by (rule frame_emit) simp
    with c have "frame w (emit (Fatal m) (emit ConsoleError w))" for m
      by (rule frame_trans)
    moreover from c have "frame w (warn m (emit ConsoleError w))" for m
      by (rule frame_trans) (rule frame_warn)
    ultimately have "frame w (warn m (emit ConsoleError w))"
      "frame w (emit (Fatal m) (emit ConsoleError w))" for m
      by blast+
    with Factory Rejects show ?thesis
      by (cases foe) (auto simp: computeConfig_def fatal_def)
  next
    case (Resolves userCfg)
    show ?thesis
    proof (cases "primitive userCfg")
      case True
      have "frame w (emit (Fatal m) w)" for m by (rule frame_emit) simp
      with True Factory Resolves frame_warn [of w] show ?thesis
        by (cases foe) (auto simp: computeConfig_def fatal_def)
    next
      case False
      with Factory Resolves
      have "computeConfig e opts fn foe w = phaseB e opts userCfg w"
        by (simp add: computeConfig_def)
      with phaseB_final [of e w opts userCfg] show ?thesis
        by (auto simp: final_ok_def)
    qed
  qed
qed

lemma store_result_Some:
  "store_result e cfg w = (r, w') \<Longrightarrow> \<exists>wc. r = Returned (Some (cfg, wc)) \<and> quasarConf w' = cfg"
  by (auto simp: store_result_def Let_def)

lemma computeConfig_retains:
  assumes "\<And>r. fst (computeConfig e opts fn foe w) \<noteq> Returned (Some r)"
  shows "frame w (snd (computeConfig e opts fn foe w))"
proof -
  from computeConfig_cases [of w e opts fn foe]
  obtain w' where f: "frame w w'"
    and c: "computeConfig e opts fn foe w = (ProcessExit, w')
         \<or> (\<exists>err. computeConfig e opts fn foe w = (Threw err, w'))
         \<or> computeConfig e opts fn foe w = (Returned None, w')
         \<or> (\<exists>cfg. is_JObj cfg \<and> computeConfig e opts fn foe w = store_result e cfg w')"
    by blast
  from c show ?thesis
  proof (elim disjE exE conjE)
    fix cfg assume "computeConfig e opts fn foe w = store_result e cfg w'"
    moreover obtain r w2 where "store_result e cfg w' = (r, w2)" by (cases "store_result e cfg w'")
    ultimately have "\<exists>x. fst (computeConfig e opts fn foe w) = Returned (Some x)"
      using store_result_Some by fastforce
    with assms show ?thesis by blast
  qed (use f in auto)
qed

subsection \<open>A result that is not an object\<close>

text \<open>
  C4. When the factory yields a value that is not an object: with \<^verbatim>\<open>failOnError\<close> (the
  first cycle) the normalizer calls \<^verbatim>\<open>fatal\<close> and the process ends; without it the
  normalizer returns no configuration, its only effect is one warning, and
  \<^verbatim>\<open>this.quasarConf\<close> is as before.
\<close>

theorem not_an_object:
  assumes "fn (this_ctx w) = Resolves v" and "primitive v"
  shows "(failOnError \<longrightarrow>
            computeConfig e opts (Factory fn) failOnError w
              = (ProcessExit, emit (Fatal not_an_object_msg) w))
       \<and> (\<not> failOnError \<longrightarrow>
            computeConfig e opts (Factory fn) failOnError w
              = (Returned None,
                 warn (not_an_object_msg @ ''. Please fix it then save the file again.'' @ [CHR 0x0A]) w)
            \<and> effects (snd (computeConfig e opts (Factory fn) failOnError w))
                = effects w @ [Warn (not_an_object_msg @ ''. Please fix it then save the file again.''
                                       @ [CHR 0x0A])]
            \<and> quasarConf (snd (computeConfig e opts (Factory fn) failOnError w)) = quasarConf w)"
  using assms by (simp add: computeConfig_def fatal_def warn_def emit_def)

theorem not_an_object_witness:
  "primitive (JNum 5)
   \<and> computeConfig env0 watch_opts number_factory True (new_world dev_ctx)
       = (ProcessExit, emit (Fatal not_an_object_msg) (new_world dev_ctx))
   \<and> computeConfig env0 watch_opts number_factory False armed_world
       = (Returned None,
          warn (not_an_object_msg @ ''. Please fix it then save the file again.'' @ [CHR 0x0A])
            armed_world)
   \<and> quasarConf (snd (computeConfig env0 watch_opts number_factory False armed_world))
       = quasarConf armed_world"
proof -
  have p: "primitive (JNum 5)" by simp
  from not_an_object [where fn = "\<lambda>c. Resolves (JNum 5)" and v = "JNum 5"
         and w = "new_world dev_ctx" and failOnError = True and e = env0 and opts = watch_opts]
       not_an_object [where fn = "\<lambda>c. Resolves (JNum 5)" and v = "JNum 5"
         and w = armed_world and failOnError = False and e = env0 and opts = watch_opts] p
  show ?thesis unfolding number_factory_def by (simp add: warn_def emit_def)
qed

subsection \<open>Errors on a later cycle\<close>

lemma this_ctx_take_snapshot: "this_ctx (take_snapshot opts cfg w) = this_ctx w"
  by (simp add: take_snapshot_def Let_def split: option.splits)

lemma effects_take_snapshot: "effects (take_snapshot opts cfg w) = effects w"
  by (simp add: take_snapshot_def Let_def split: option.splits)

lemma phaseB_without_icons:
  assumes "this_ctx w = pwa_ctx"
  shows "fst (phaseB env0 watch_opts (JObj []) w) = ProcessExit"
  using assms
  by (simp add: phaseB_def andThen_def env0_def watch_opts_def pwa_ctx_def
      skeleton_def merge_js_def merge2_def resolve_animations_def framework_defaults_def
      resolve_address_def this_ctx_take_snapshot derive_build_def naming_case_def derive_ssr_def
      derive_pwa_def pwa_defaults_def js_or_def Let_def build_defaults_def
      mode_overrides_def publicPath_def ctx_js_def uglify_compress_def)

lemma fst_after_ProcessExit: "fst r = ProcessExit \<Longrightarrow> fst (after_computeConfig now r) = ProcessExit"
  by (cases r) (simp add: after_computeConfig_def)

text \<open>
  C2, as stated, says that on a later cycle of a watch session every error of the taxonomy
  is a warning only and the process goes on. In an armed session past its first cycle, for
  an installable web app, a rebuild whose configuration has no manifest icons ends the
  process (\<^verbatim>\<open>process.exit(1)\<close>, line 904).
\<close>

theorem later_cycle_exits:
  "\<not> isFirst armed_world \<and> isWatching armed_world
   \<and> fst (rebuild watch_opts 5000 edit_without_icons armed_world) = ProcessExit"
proof -
  let ?w = "emit (ComputeConfig False)
              (removeSync (emit Require (esbuild_writes True (advance 5000 armed_world))))"
  have c: "this_ctx ?w = pwa_ctx"
    by (simp add: emit_def removeSync_def esbuild_writes_def advance_def armed_world_def new_world_def)
  have "computeConfig env0 watch_opts empty_factory False ?w = phaseB env0 watch_opts (JObj []) ?w"
    by (simp add: computeConfig_def empty_factory_def)
  with phaseB_without_icons [OF c]
  have "fst (computeConfig env0 watch_opts empty_factory False ?w) = ProcessExit" by simp
  then have "fst (after_computeConfig 5000 (computeConfig env0 watch_opts empty_factory False ?w)) = ProcessExit"
    by (rule fst_after_ProcessExit)
  moreover have "rebuild watch_opts 5000 edit_without_icons armed_world
      = after_computeConfig 5000 (computeConfig env0 watch_opts empty_factory False ?w)"
    by (simp add: rebuild_def onEnd_def edit_without_icons_def require_tempFile_def
          esbuild_writes_def advance_def armed_world_def new_world_def emit_def removeSync_def)
  ultimately show ?thesis
    by (simp add: armed_world_def)
qed


lemma computeConfig_keeps_conf:
  assumes "\<forall>r. fst (computeConfig e opts fn foe w) \<noteq> Returned (Some r)"
  shows "quasarConf (snd (computeConfig e opts fn foe w)) = quasarConf w"
proof -
  from assms have "frame w (snd (computeConfig e opts fn foe w))"
    by (intro computeConfig_retains) blast
  then show ?thesis by (simp add: frame_def)
qed

text \<open>
  C2, amended. On a later cycle of an armed watch session: a CompileError or a LoadError
  makes the handler remove the temporary file, print the exception (LoadError), log one
  warning and return, with \<^verbatim>\<open>this.quasarConf\<close> as before; for a SchemaError or a
  RuntimeError the normalizer logs one warning (after printing the exception of a
  RuntimeError) and returns no configuration. A NetworkError is thrown out of the
  normalizer, and a ManifestError or a ConfigValueError ends the process, on every cycle
  (the checks do not read \<^verbatim>\<open>failOnError\<close>). Whenever the normalizer ends in another way
  than by returning a configuration, \<^verbatim>\<open>this.quasarConf\<close> is as before.
\<close>

theorem later_cycle_errors:
  assumes "\<not> isFirst w" and "isWatching w"
  shows "(errors_length ev \<noteq> 0 \<longrightarrow>
            onEnd opts t ev w
              = (Returned (),
                 warn (could_not_compile_msg @ ''. Please fix them then save the file again.''
                         @ [CHR 0x0A]) (removeSync w))
            \<and> quasarConf (snd (onEnd opts t ev w)) = quasarConf w)
       \<and> (errors_length ev = 0 \<and> (loaded ev = LoadThrows \<or> \<not> tempFile_exists w) \<longrightarrow>
            onEnd opts t ev w
              = (Returned (),
                 warn (importing_error_msg @ ''. Please review the file then save it again.''
                         @ [CHR 0x0A]) (emit ConsoleError (removeSync (emit Require w))))
            \<and> quasarConf (snd (onEnd opts t ev w)) = quasarConf w)
       \<and> computeConfig e opts NotAFunction False w
           = (Returned None,
              warn (not_a_function_msg @ ''. Please fix it then save the file again.''
                      @ [CHR 0x0A]) w)
       \<and> (fn (this_ctx w) = Rejects \<longrightarrow>
            computeConfig e opts (Factory fn) False w
              = (Returned None,
                 warn (runtime_errors_msg @ ''. Please fix them then save the file again.''
                         @ [CHR 0x0A]) (emit ConsoleError w)))
       \<and> (fn (this_ctx w) = Resolves v \<and> primitive v \<longrightarrow>
            computeConfig e opts (Factory fn) False w
              = (Returned None,
                 warn (not_an_object_msg @ ''. Please fix it then save the file again.''
                         @ [CHR 0x0A]) w))
       \<and> negotiated ds addr JNull w = (Threw ''NETWORK_ERROR'', w)
       \<and> (mode_pwa (this_ctx w) \<and> \<not> nullish (getp cfg ''pwa'')
            \<and> getp (getp (merge_js [pwa_defaults e, getp cfg ''pwa'']) ''manifest'') ''icons''
                 = JArr [] \<longrightarrow>
            derive_pwa e cfg w = (ProcessExit, warn missing_icons_msg (warn [] w)))
       \<and> (mode_pwa (this_ctx w) \<and> \<not> nullish (getp cfg ''pwa'')
            \<and> getp (getp (merge_js [pwa_defaults e, getp cfg ''pwa'']) ''manifest'') ''icons''
                 = JArr (x # xs)
            \<and> getp (merge_js [pwa_defaults e, getp cfg ''pwa'']) ''workboxPluginMode''
                 \<notin> set [JStr ''GenerateSW'', JStr ''InjectManifest''] \<longrightarrow>
            fst (derive_pwa e cfg w) = ProcessExit)
       \<and> ((\<forall>r. fst (computeConfig e opts quasarConfigFn failOnError w) \<noteq> Returned (Some r)) \<longrightarrow>
            quasarConf (snd (computeConfig e opts quasarConfigFn failOnError w)) = quasarConf w)"
proof (intro conjI impI)
  assume "errors_length ev \<noteq> 0"
  with assms show "onEnd opts t ev w
              = (Returned (),
                 warn (could_not_compile_msg @ ''. Please fix them then save the file again.''
                         @ [CHR 0x0A]) (removeSync w))"
    by (simp add: onEnd_def)
  then show "quasarConf (snd (onEnd opts t ev w)) = quasarConf w"
    by (simp add: warn_def emit_def removeSync_def)
next
  assume "errors_length ev = 0 \<and> (loaded ev = LoadThrows \<or> \<not> tempFile_exists w)"
  with assms show "onEnd opts t ev w
              = (Returned (),
                 warn (importing_error_msg @ ''. Please review the file then save it again.''
                         @ [CHR 0x0A]) (emit ConsoleError (removeSync (emit Require w))))"
    by (auto simp: onEnd_def require_tempFile_def)
  then show "quasarConf (snd (onEnd opts t ev w)) = quasarConf w"
    by (simp add: warn_def emit_def removeSync_def)
next
  show "computeConfig e opts NotAFunction False w
           = (Returned None,
              warn (not_a_function_msg @ ''. Please fix it then save the file again.''
                      @ [CHR 0x0A]) w)"
    by (simp add: computeConfig_def)
next
  assume "fn (this_ctx w) = Rejects"
  then show "computeConfig e opts (Factory fn) False w
              = (Returned None,
                 warn (runtime_errors_msg @ ''. Please fix them then save the file again.''
                         @ [CHR 0x0A]) (emit ConsoleError w))"
    by (simp add: computeConfig_def)
next
  assume "fn (this_ctx w) = Resolves v \<and> primitive v"
  then show "computeConfig e opts (Factory fn) False w
              = (Returned None,
                 warn (not_an_object_msg @ ''. Please fix it then save the file again.''
                         @ [CHR 0x0A]) w)"
    by (simp add: computeConfig_def)
next
  show "negotiated ds addr JNull w = (Threw ''NETWORK_ERROR'', w)"
    by (simp add: negotiated_def)
next
  assume "mode_pwa (this_ctx w) \<and> \<not> nullish (getp cfg ''pwa'')
            \<and> getp (getp (merge_js [pwa_defaults e, getp cfg ''pwa'']) ''manifest'') ''icons''
                 = JArr []"
  moreover from this
  have "\<not> nullish (getp (merge_js [pwa_defaults e, getp cfg ''pwa'']) ''manifest'')"
    by (cases "getp (merge_js [pwa_defaults e, getp cfg ''pwa'']) ''manifest''") auto
  ultimately show "derive_pwa e cfg w = (ProcessExit, warn missing_icons_msg (warn [] w))"
    by (simp add: derive_pwa_def Let_def)
next
  assume a: "mode_pwa (this_ctx w) \<and> \<not> nullish (getp cfg ''pwa'')
            \<and> getp (getp (merge_js [pwa_defaults e, getp cfg ''pwa'']) ''manifest'') ''icons''
                 = JArr (x # xs)
            \<and> getp (merge_js [pwa_defaults e, getp cfg ''pwa'']) ''workboxPluginMode''
                 \<notin> set [JStr ''GenerateSW'', JStr ''InjectManifest'']"
  moreover from this
  have "\<not> nullish (getp (merge_js [pwa_defaults e, getp cfg ''pwa'']) ''manifest'')"
    by (cases "getp (merge_js [pwa_defaults e, getp cfg ''pwa'']) ''manifest''") auto
  ultimately show "fst (derive_pwa e cfg w) = ProcessExit"
    by (simp add: derive_pwa_def Let_def)
next
  assume "\<forall>r. fst (computeConfig e opts quasarConfigFn failOnError w) \<noteq> Returned (Some r)"
  then show "quasarConf (snd (computeConfig e opts quasarConfigFn failOnError w)) = quasarConf w"
    by (rule computeConfig_keeps_conf)
qed


theorem later_cycle_errors_witness:
  "\<not> isFirst armed_world \<and> isWatching armed_world
   \<and> onEnd watch_opts 5000 failed_build armed_world
       = (Returned (),
          warn (could_not_compile_msg @ ''. Please fix them then save the file again.''
                  @ [CHR 0x0A]) (removeSync armed_world))
   \<and> quasarConf (snd (onEnd watch_opts 5000 failed_build armed_world)) = quasarConf armed_world
   \<and> onEnd watch_opts 5000 broken_module armed_world
       = (Returned (),
          warn (importing_error_msg @ ''. Please review the file then save it again.''
                  @ [CHR 0x0A]) (emit ConsoleError (removeSync (emit Require armed_world))))
   \<and> computeConfig env0 watch_opts throwing_factory False armed_world
       = (Returned None,
          warn (runtime_errors_msg @ ''. Please fix them then save the file again.''
                  @ [CHR 0x0A]) (emit ConsoleError armed_world))
   \<and> computeConfig env0 watch_opts number_factory False armed_world
       = (Returned None,
          warn (not_an_object_msg @ ''. Please fix it then save the file again.''
                  @ [CHR 0x0A]) armed_world)
   \<and> derive_pwa env0 no_icons_cfg armed_world
       = (ProcessExit, warn missing_icons_msg (warn [] armed_world))
   \<and> fst (derive_pwa env0 bad_workbox_cfg armed_world) = ProcessExit
   \<and> quasarConf (snd (computeConfig env0 watch_opts NotAFunction False armed_world))
       = quasarConf armed_world"
proof -
  have a: "\<not> isFirst armed_world" and b: "isWatching armed_world"
    by (simp_all add: armed_world_def)
  have pwa: "mode_pwa (this_ctx armed_world)"
    by (simp add: armed_world_def new_world_def pwa_ctx_def)
  have i1: "\<not> nullish (getp no_icons_cfg ''pwa'')"
    "getp (getp (merge_js [pwa_defaults env0, getp no_icons_cfg ''pwa'']) ''manifest'') ''icons''
       = JArr []"
    by (simp_all add: no_icons_cfg_def pwa_defaults_def merge_js_def merge2_def env0_def js_or_def)
  have i2: "\<not> nullish (getp bad_workbox_cfg ''pwa'')"
    "getp (getp (merge_js [pwa_defaults env0, getp bad_workbox_cfg ''pwa'']) ''manifest'') ''icons''
       = JArr [JObj [(''src'', JStr ''a.png'')]]"
    "getp (merge_js [pwa_defaults env0, getp bad_workbox_cfg ''pwa'']) ''workboxPluginMode''
       \<notin> set [JStr ''GenerateSW'', JStr ''InjectManifest'']"
    by (simp_all add: bad_workbox_cfg_def pwa_defaults_def merge_js_def merge2_def env0_def js_or_def)
  have n: "\<forall>r. fst (computeConfig env0 watch_opts NotAFunction False armed_world) \<noteq> Returned (Some r)"
    by (simp add: computeConfig_def)
  note t1 = later_cycle_errors [OF a b, where ev = failed_build and opts = watch_opts
      and t = 5000 and e = env0 and fn = "\<lambda>c. Rejects" and v = "JNum 5" and cfg = no_icons_cfg
      and quasarConfigFn = NotAFunction and failOnError = False]
  note t2 = later_cycle_errors [OF a b, where ev = broken_module and opts = watch_opts
      and t = 5000 and e = env0 and fn = "\<lambda>c. Resolves (JNum 5)" and v = "JNum 5"
      and cfg = bad_workbox_cfg and x = "JObj [(''src'', JStr ''a.png'')]" and xs = "[]"]
  have e1: "errors_length failed_build \<noteq> 0" by (simp add: failed_build_def)
  have e2: "errors_length broken_module = 0 \<and> (loaded broken_module = LoadThrows \<or> \<not> tempFile_exists armed_world)"
    by (simp add: broken_module_def)
  from t1 e1 have c1: "onEnd watch_opts 5000 failed_build armed_world
       = (Returned (),
          warn (could_not_compile_msg @ ''. Please fix them then save the file again.''
                  @ [CHR 0x0A]) (removeSync armed_world))"
    and c2: "quasarConf (snd (onEnd watch_opts 5000 failed_build armed_world)) = quasarConf armed_world"
    by blast+
  from t2 e2 have c3: "onEnd watch_opts 5000 broken_module armed_world
       = (Returned (),
          warn (importing_error_msg @ ''. Please review the file then save it again.''
                  @ [CHR 0x0A]) (emit ConsoleError (removeSync (emit Require armed_world))))"
    by blast
  from t1 have c4: "computeConfig env0 watch_opts throwing_factory False armed_world
       = (Returned None,
          warn (runtime_errors_msg @ ''. Please fix them then save the file again.''
                  @ [CHR 0x0A]) (emit ConsoleError armed_world))"
    unfolding throwing_factory_def by blast
  from t2 have c5: "computeConfig env0 watch_opts number_factory False armed_world
       = (Returned None,
          warn (not_an_object_msg @ ''. Please fix it then save the file again.''
                  @ [CHR 0x0A]) armed_world)"
    unfolding number_factory_def by simp
  from t1 pwa i1 have c6: "derive_pwa env0 no_icons_cfg armed_world
       = (ProcessExit, warn missing_icons_msg (warn [] armed_world))"
    by blast
  from t2 pwa i2 have c7: "fst (derive_pwa env0 bad_workbox_cfg armed_world) = ProcessExit"
    by blast
  from t1 n have c8: "quasarConf (snd (computeConfig env0 watch_opts NotAFunction False armed_world))
       = quasarConf armed_world"
    by blast
  from a b c1 c2 c3 c4 c5 c6 c7 c8 show ?thesis by blast
qed

subsection \<open>The configuration snapshot\<close>

lemma decimal_nonempty: "decimal n \<noteq> []"
  by (subst decimal.simps) simp

lemma stringify_truthy: "truthy v \<Longrightarrow> \<exists>s. stringify v = Some s \<and> s \<noteq> []"
  by (cases v) (simp_all add: number_toString_def decimal_nonempty quote_def)

lemma join_empty_sep: "join [] xs = concat xs"
  by (induction "[] :: string" xs rule: join.induct) simp_all

lemma truthy_prop_truthy: "truthy (getp obj k) \<Longrightarrow> truthy obj"
  by (cases obj) simp_all

lemma falsy_getp: "\<not> truthy obj \<Longrightarrow> getp obj k = JUndefined"
  by (cases obj) simp_all

lemma snapshot_by_whitelist:
  "newConfigSnapshot cfg =
     concat (join_items
       [ encoded_or_empty (getp cfg ''build''),
         encoded_or_empty (getp (getp cfg ''ssr'') ''pwa''),
         getp (getp cfg ''framework'') ''autoImportComponentCase'',
         encoded_or_empty (getp cfg ''devServer''),
         encoded_or_empty (getp cfg ''pwa''),
         encoded_or_empty (getp cfg ''electron''),
         encoded_or_empty (getp cfg ''bex''),
         encoded_or_empty (getp cfg ''htmlVariables'') ])"
proof -
  have s: "(if truthy (getp cfg ''ssr'') \<and> truthy (getp (getp cfg ''ssr'') ''pwa'')
            then encode (getp (getp cfg ''ssr'') ''pwa'') else JStr [])
           = encoded_or_empty (getp (getp cfg ''ssr'') ''pwa'')"
    using truthy_prop_truthy [of "getp cfg ''ssr''" "''pwa''"]
    by (auto simp: encoded_or_empty_def)
  have f: "(if nullish (if truthy (getp cfg ''framework'')
                        then getp (getp cfg ''framework'') ''autoImportComponentCase''
                        else JStr []) then []
            else toString (if truthy (getp cfg ''framework'')
                           then getp (getp cfg ''framework'') ''autoImportComponentCase''
                           else JStr []))
           = (if nullish (getp (getp cfg ''framework'') ''autoImportComponentCase'') then []
              else toString (getp (getp cfg ''framework'') ''autoImportComponentCase''))"
    using falsy_getp [of "getp cfg ''framework''" "''autoImportComponentCase''"]
    by simp
  show ?thesis
    unfolding newConfigSnapshot_def array_join_def join_empty_sep snapshot_parts_def s
    using f by simp
qed

lemma snapshot_of_whitelisted:
  assumes "whitelisted cfg1 = whitelisted cfg2"
  shows "newConfigSnapshot cfg1 = newConfigSnapshot cfg2"
  using assms unfolding snapshot_by_whitelist by (simp add: whitelisted_def)

lemma snapshot_nonempty:
  assumes "truthy (getp cfg ''build'')"
  shows "newConfigSnapshot cfg \<noteq> []"
proof -
  from stringify_truthy [OF assms] obtain s where "stringify (getp cfg ''build'') = Some s" "s \<noteq> []"
    by blast
  with assms show ?thesis
    unfolding snapshot_by_whitelist by (simp add: encoded_or_empty_def encode_def)
qed

lemma take_snapshot_twice:
  assumes "opts_watch opts" and "newConfigSnapshot cfg1 \<noteq> []"
  shows "webpackConfChanged (take_snapshot opts cfg2 (take_snapshot opts cfg1 w))
           = Some (newConfigSnapshot cfg2 \<noteq> newConfigSnapshot cfg1)"
  using assms by (simp add: take_snapshot_def Let_def split: option.splits)

lemma ssr_pwa_cfg_parts:
  "getp ssr_pwa_cfg ''build'' = getp (skeleton dev_ctx) ''build''"
  "getp (getp ssr_pwa_cfg ''ssr'') ''pwa'' = JBool True"
  "getp (getp ssr_pwa_cfg ''framework'') ''autoImportComponentCase'' = JUndefined"
  "getp ssr_pwa_cfg ''devServer'' = getp (skeleton dev_ctx) ''devServer''"
  "getp ssr_pwa_cfg ''pwa'' = getp (skeleton dev_ctx) ''pwa''"
  "getp ssr_pwa_cfg ''electron'' = getp (skeleton dev_ctx) ''electron''"
  "getp ssr_pwa_cfg ''bex'' = getp (skeleton dev_ctx) ''bex''"
  "getp ssr_pwa_cfg ''htmlVariables'' = getp (skeleton dev_ctx) ''htmlVariables''"
  by (simp_all add: ssr_pwa_cfg_def skeleton_def merge_js_def merge2_def)

lemma case_true_cfg_parts:
  "getp case_true_cfg ''build'' = getp (skeleton dev_ctx) ''build''"
  "getp (getp case_true_cfg ''ssr'') ''pwa'' = JUndefined"
  "getp (getp case_true_cfg ''framework'') ''autoImportComponentCase'' = JStr ''true''"
  "getp case_true_cfg ''devServer'' = getp (skeleton dev_ctx) ''devServer''"
  "getp case_true_cfg ''pwa'' = getp (skeleton dev_ctx) ''pwa''"
  "getp case_true_cfg ''electron'' = getp (skeleton dev_ctx) ''electron''"
  "getp case_true_cfg ''bex'' = getp (skeleton dev_ctx) ''bex''"
  "getp case_true_cfg ''htmlVariables'' = getp (skeleton dev_ctx) ''htmlVariables''"
  by (simp_all add: case_true_cfg_def skeleton_def merge_js_def merge2_def)

lemma colliding_snapshots: "newConfigSnapshot case_true_cfg = newConfigSnapshot ssr_pwa_cfg"
  unfolding snapshot_by_whitelist ssr_pwa_cfg_parts case_true_cfg_parts
  by (simp add: encoded_or_empty_def encode_def)

lemma merged_framework:
  "is_JObj (getp (merge_js [skeleton c, JObj []]) ''framework'')"
  "is_JObj (getp (merge_js [skeleton c,
      JObj [(''build'', JObj [(''transpileDependencies'', JArr [JStr ''vue''])])]]) ''framework'')"
  "is_JObj (getp (merge_js [skeleton c,
      JObj [(''build'', JObj [(''transpileDependencies'', JArr [JStr ''vue''])]),
            (''css'', JArr [JStr ''app.scss''])]]) ''framework'')"
  "is_JObj (getp (merge_js [skeleton c, JObj [(''css'', JArr [JStr ''app.scss''])]]) ''framework'')"
  by (simp_all add: skeleton_def merge_js_def merge2_def)

lemma merged_build:
  "\<exists>ps. getp (merge_js [skeleton c, JObj []]) ''build''
          = JObj ((''transpileDependencies'', JArr []) # ps)
      \<and> getp (merge_js [skeleton c, JObj [(''css'', JArr [JStr ''app.scss''])]]) ''build''
          = JObj ((''transpileDependencies'', JArr []) # ps)
      \<and> getp (merge_js [skeleton c,
           JObj [(''build'', JObj [(''transpileDependencies'', JArr [JStr ''vue''])])]]) ''build''
          = JObj ((''transpileDependencies'', JArr [JStr ''vue'']) # ps)
      \<and> getp (merge_js [skeleton c,
           JObj [(''build'', JObj [(''transpileDependencies'', JArr [JStr ''vue''])]),
                 (''css'', JArr [JStr ''app.scss''])]]) ''build''
          = JObj ((''transpileDependencies'', JArr [JStr ''vue'']) # ps)
      \<and> map_of ps ''publicPath'' = None"
  by (simp add: skeleton_def merge_js_def merge2_def)

lemma merged_rest:
  "tl (whitelisted (merge_js [skeleton c, JObj []])) = tl (whitelisted (skeleton c))"
  "tl (whitelisted (merge_js [skeleton c, JObj [(''css'', JArr [JStr ''app.scss''])]]))
     = tl (whitelisted (skeleton c))"
  "tl (whitelisted (merge_js [skeleton c,
      JObj [(''build'', JObj [(''transpileDependencies'', JArr [JStr ''vue''])])]]))
     = tl (whitelisted (skeleton c))"
  "tl (whitelisted (merge_js [skeleton c,
      JObj [(''build'', JObj [(''transpileDependencies'', JArr [JStr ''vue''])]),
            (''css'', JArr [JStr ''app.scss''])]]))
     = tl (whitelisted (skeleton c))"
  by (simp_all add: whitelisted_def skeleton_def merge_js_def merge2_def)

lemma stringify_head_differs:
  "stringify (JObj ((k, JArr []) # ps)) \<noteq> stringify (JObj ((k, JArr [JStr s]) # ps))"
  by (cases "stringify_props ps") (simp_all add: quote_def)

lemma snapshot_build_differs:
  assumes "tl (whitelisted cfg1) = tl (whitelisted cfg2)"
    and "getp cfg1 ''build'' = JObj ((k, JArr []) # ps)"
    and "getp cfg2 ''build'' = JObj ((k, JArr [JStr s]) # ps)"
  shows "newConfigSnapshot cfg1 \<noteq> newConfigSnapshot cfg2"
proof -
  obtain s1 where s1: "stringify (JObj ((k, JArr []) # ps)) = Some s1" by simp
  obtain s2 where s2: "stringify (JObj ((k, JArr [JStr s]) # ps)) = Some s2" by simp
  have ne: "s1 \<noteq> s2"
    using stringify_head_differs [of k ps s] unfolding s1 s2 by simp
  from assms(1) s1 s2 ne show ?thesis
    unfolding snapshot_by_whitelist assms(2,3)
    by (simp add: whitelisted_def encoded_or_empty_def encode_def del: stringify.simps)
qed

lemma merged_build_usable:
  "\<not> nullish (getp (merge_js [skeleton c, JObj []]) ''build'')"
  "\<not> truthy (getp (getp (merge_js [skeleton c, JObj []]) ''build'') ''publicPath'')"
  "truthy (getp (merge_js [skeleton c, JObj []]) ''build'')"
  "\<not> nullish (getp (merge_js [skeleton c,
      JObj [(''build'', JObj [(''transpileDependencies'', JArr [JStr ''vue''])])]]) ''build'')"
  "\<not> truthy (getp (getp (merge_js [skeleton c,
      JObj [(''build'', JObj [(''transpileDependencies'', JArr [JStr ''vue''])])]]) ''build'')
      ''publicPath'')"
  "truthy (getp (merge_js [skeleton c,
      JObj [(''build'', JObj [(''transpileDependencies'', JArr [JStr ''vue''])])]]) ''build'')"
  "\<not> nullish (getp (merge_js [skeleton c,
      JObj [(''build'', JObj [(''transpileDependencies'', JArr [JStr ''vue''])]),
            (''css'', JArr [JStr ''app.scss''])]]) ''build'')"
  "\<not> truthy (getp (getp (merge_js [skeleton c,
      JObj [(''build'', JObj [(''transpileDependencies'', JArr [JStr ''vue''])]),
            (''css'', JArr [JStr ''app.scss''])]]) ''build'') ''publicPath'')"
  "\<not> nullish (getp (merge_js [skeleton c, JObj [(''css'', JArr [JStr ''app.scss''])]]) ''build'')"
  "\<not> truthy (getp (getp (merge_js [skeleton c, JObj [(''css'', JArr [JStr ''app.scss''])]])
      ''build'') ''publicPath'')"
  by (simp_all add: skeleton_def merge_js_def merge2_def)

lemma plain_vs_css:
  "truthy (getp plain_cfg ''build'')" "plain_cfg \<noteq> css_cfg"
  "whitelisted plain_cfg = whitelisted css_cfg"
  "whitelisted plain_cfg \<noteq> whitelisted transpile_cfg"
  "newConfigSnapshot transpile_cfg \<noteq> newConfigSnapshot plain_cfg"
proof -
  show "truthy (getp plain_cfg ''build'')"
    unfolding plain_cfg_def by (rule merged_build_usable)
  have "getp plain_cfg ''css'' \<noteq> getp css_cfg ''css''"
    by (simp add: plain_cfg_def css_cfg_def skeleton_def merge_js_def merge2_def)
  then show "plain_cfg \<noteq> css_cfg" by auto
  from merged_build [of dev_ctx] obtain ps
    where b0: "getp plain_cfg ''build'' = JObj ((''transpileDependencies'', JArr []) # ps)"
      and b1: "getp css_cfg ''build'' = JObj ((''transpileDependencies'', JArr []) # ps)"
      and b2: "getp transpile_cfg ''build''
                 = JObj ((''transpileDependencies'', JArr [JStr ''vue'']) # ps)"
    unfolding plain_cfg_def css_cfg_def transpile_cfg_def by blast
  have t1: "tl (whitelisted plain_cfg) = tl (whitelisted css_cfg)"
    unfolding plain_cfg_def css_cfg_def by (simp only: merged_rest)
  with b0 b1 show "whitelisted plain_cfg = whitelisted css_cfg"
    by (simp add: whitelisted_def)
  from b0 b2 show "whitelisted plain_cfg \<noteq> whitelisted transpile_cfg"
    by (simp add: whitelisted_def)
  have t2: "tl (whitelisted plain_cfg) = tl (whitelisted transpile_cfg)"
    unfolding plain_cfg_def transpile_cfg_def by (simp only: merged_rest)
  from snapshot_build_differs [OF t2 b0 b2]
  show "newConfigSnapshot transpile_cfg \<noteq> newConfigSnapshot plain_cfg" by simp
qed

text \<open>
  C5, as stated, says that the comparison reports a change whenever a whitelisted subtree
  differs. The configuration with \<^verbatim>\<open>ssr.pwa\<close> true and no naming case, followed by the
  one with no \<^verbatim>\<open>ssr.pwa\<close> and the naming case \<^verbatim>\<open>'true'\<close>, differ on two whitelisted
  subtrees; both snapshots are the same string (the parts are joined without a separator,
  and the naming case is not encoded), and the comparison reports no change.
\<close>

theorem snapshot_misses_change:
  "getp (getp ssr_pwa_cfg ''ssr'') ''pwa'' = JBool True
   \<and> getp (getp case_true_cfg ''ssr'') ''pwa'' = JUndefined
   \<and> whitelisted ssr_pwa_cfg \<noteq> whitelisted case_true_cfg
   \<and> webpackConfChanged
        (take_snapshot watch_opts case_true_cfg
           (take_snapshot watch_opts ssr_pwa_cfg (new_world dev_ctx))) = Some False"
proof -
  have b: "truthy (getp ssr_pwa_cfg ''build'')"
    by (simp add: ssr_pwa_cfg_parts skeleton_def)
  then have n: "newConfigSnapshot ssr_pwa_cfg \<noteq> []" by (rule snapshot_nonempty)
  have o: "opts_watch watch_opts" by (simp add: watch_opts_def)
  have "whitelisted ssr_pwa_cfg \<noteq> whitelisted case_true_cfg"
    by (simp add: whitelisted_def ssr_pwa_cfg_parts case_true_cfg_parts)
  with take_snapshot_twice [OF o n, of case_true_cfg "new_world dev_ctx"] colliding_snapshots
  show ?thesis by (simp add: ssr_pwa_cfg_parts case_true_cfg_parts)
qed

text \<open>
  C5, amended. In a watch session, after a cycle whose configuration has a build subtree,
  the comparison of the next cycle reports a change exactly when the two snapshot strings
  differ; two configurations that agree on all whitelisted subtrees have the same snapshot,
  whatever else differs, and the comparison reports no change.
\<close>

theorem snapshot_whitelist:
  assumes "opts_watch opts" and "truthy (getp cfg1 ''build'')"
  shows "webpackConfChanged (take_snapshot opts cfg2 (take_snapshot opts cfg1 w))
           = Some (newConfigSnapshot cfg2 \<noteq> newConfigSnapshot cfg1)
       \<and> (whitelisted cfg1 = whitelisted cfg2 \<longrightarrow>
            webpackConfChanged (take_snapshot opts cfg2 (take_snapshot opts cfg1 w)) = Some False)"
proof -
  from assms(2) have n: "newConfigSnapshot cfg1 \<noteq> []" by (rule snapshot_nonempty)
  from take_snapshot_twice [OF assms(1) n]
  have t: "webpackConfChanged (take_snapshot opts cfg2 (take_snapshot opts cfg1 w))
           = Some (newConfigSnapshot cfg2 \<noteq> newConfigSnapshot cfg1)" .
  with snapshot_of_whitelisted [of cfg1 cfg2] show ?thesis by auto
qed

theorem snapshot_whitelist_witness:
  "opts_watch watch_opts \<and> truthy (getp plain_cfg ''build'')
   \<and> plain_cfg \<noteq> css_cfg \<and> whitelisted plain_cfg = whitelisted css_cfg
   \<and> webpackConfChanged
        (take_snapshot watch_opts css_cfg
           (take_snapshot watch_opts plain_cfg (new_world dev_ctx))) = Some False
   \<and> whitelisted plain_cfg \<noteq> whitelisted transpile_cfg
   \<and> webpackConfChanged
        (take_snapshot watch_opts transpile_cfg
           (take_snapshot watch_opts plain_cfg (new_world dev_ctx))) = Some True"
proof -
  have o: "opts_watch watch_opts" by (simp add: watch_opts_def)
  note p = plain_vs_css
  from snapshot_whitelist [OF o p(1), of css_cfg "new_world dev_ctx"] p(3)
  have 1: "webpackConfChanged
        (take_snapshot watch_opts css_cfg
           (take_snapshot watch_opts plain_cfg (new_world dev_ctx))) = Some False" by blast
  from snapshot_whitelist [OF o p(1), of transpile_cfg "new_world dev_ctx"] p(5)
  have 2: "webpackConfChanged
        (take_snapshot watch_opts transpile_cfg
           (take_snapshot watch_opts plain_cfg (new_world dev_ctx))) = Some True" by simp
  from o p(1,2,3,4) 1 2 show ?thesis by blast
qed

subsection \<open>The frame of the watcher\<close>

lemma quiet_not_notification: "quiet x \<Longrightarrow> \<not> notification x"
  by (cases x) simp_all

lemma filter_quiet: "list_all quiet es \<Longrightarrow> filter notification es = []"
  by (induction es) (auto simp: quiet_not_notification)

lemma frame_wframe: "frame w w' \<Longrightarrow> wframe w w'"
  by (auto simp: frame_def wframe_def filter_quiet)

lemma wframe_store_result: "wframe w (snd (store_result e cfg w))"
  by (simp add: store_result_def wframe_def Let_def)

lemma wframe_trans: "wframe w w1 \<Longrightarrow> wframe w1 w2 \<Longrightarrow> wframe w w2"
  by (simp add: wframe_def)

lemma computeConfig_wframe: "wframe w (snd (computeConfig e opts fn foe w))"
proof -
  from computeConfig_cases [of w e opts fn foe]
  obtain w' where f: "frame w w'"
    and c: "computeConfig e opts fn foe w = (ProcessExit, w')
         \<or> (\<exists>err. computeConfig e opts fn foe w = (Threw err, w'))
         \<or> computeConfig e opts fn foe w = (Returned None, w')
         \<or> (\<exists>cfg. is_JObj cfg \<and> computeConfig e opts fn foe w = store_result e cfg w')"
    by blast
  from f have wf: "wframe w w'" by (rule frame_wframe)
  from c show ?thesis
  proof (elim disjE exE conjE)
    fix cfg assume "computeConfig e opts fn foe w = store_result e cfg w'"
    with wframe_trans [OF wf wframe_store_result [of w' e cfg]] show ?thesis by simp
  qed (use wf in auto)
qed

lemma computeConfig_Some_JObj:
  assumes "computeConfig e opts fn foe w = (Returned (Some (qc, wc)), w')"
  shows "is_JObj qc"
proof -
  from computeConfig_cases [of w e opts fn foe] assms
  obtain cfg w1 where "is_JObj cfg" and "store_result e cfg w1 = (Returned (Some (qc, wc)), w')"
    by auto
  then show ?thesis by (auto simp: store_result_def Let_def)
qed

subsection \<open>The temporary file\<close>

text \<open>
  The one-shot reader always leaves the temporary file removed, and so does every rebuild
  of a watch session that the handler does not skip.
\<close>

lemma removeSync_gone: "\<not> tempFile_exists (removeSync w)"
  by (simp add: removeSync_def emit_def)

lemma tempFile_emit: "tempFile_exists (emit x w) = tempFile_exists w"
  by (simp add: emit_def)

lemma tempFile_warn: "tempFile_exists (warn m w) = tempFile_exists w"
  by (simp add: warn_def emit_def)

lemma tempFile_fatal: "tempFile_exists (snd (fatal m w)) = tempFile_exists w"
  by (simp add: fatal_def emit_def)

lemma tempFile_computeConfig:
  "tempFile_exists (snd (computeConfig e opts fn foe w)) = tempFile_exists w"
  using computeConfig_wframe [of w e opts fn foe] by (simp add: wframe_def)

lemma tempFile_after:
  "tempFile_exists (snd (after_computeConfig now r)) = tempFile_exists (snd r)"
  by (cases r)
     (auto simp: after_computeConfig_def scheduleUpdate_def log_def emit_def
        split: completion.splits option.splits)

lemma build_removes_tempFile: "\<not> tempFile_exists (snd (build e opts succeeded m w))"
  by (auto simp: build_def Let_def require_tempFile_def tempFile_fatal tempFile_emit
        tempFile_computeConfig removeSync_gone split: load_result.splits)

lemma handled_rebuild_removes_tempFile:
  assumes "isFirst w \<or> isWatching w"
  shows "\<not> tempFile_exists (snd (rebuild opts t ev w))"
proof -
  let ?w = "esbuild_writes (errors_length ev = 0) (advance t w)"
  have "isFirst ?w = isFirst w" "isWatching ?w = isWatching w"
    by (auto simp: esbuild_writes_def advance_def expire_def emit_def split: option.splits)
  with assms have "isFirst ?w \<or> isWatching ?w" by simp
  then have "\<not> tempFile_exists (snd (onEnd opts t ev ?w))"
    by (auto simp: onEnd_def require_tempFile_def tempFile_fatal tempFile_emit tempFile_warn
          tempFile_after tempFile_computeConfig removeSync_gone split: load_result.splits)
  then show ?thesis by (simp add: rebuild_def)
qed

text \<open>
  C1. The temporary file is to be absent after the handling of every build-finished
  event. It is not for the events the handler skips: after the first build and before
  \<^verbatim>\<open>watch()\<close>, a successful rebuild writes the file, and the handler returns at line
  193 without removing it.
\<close>

theorem unarmed_rebuild_leaves_tempFile:
  "\<not> isFirst unarmed_world \<and> \<not> isWatching unarmed_world
   \<and> \<not> tempFile_exists unarmed_world
   \<and> tempFile_exists (snd (rebuild watch_opts 500 saved_edit unarmed_world))"
  by (simp add: rebuild_def onEnd_def esbuild_writes_def advance_def unarmed_world_def
        new_world_def saved_edit_def)

subsection \<open>Before watch() is called\<close>

lemma wframe_refl: "wframe w w"
  by (simp add: wframe_def)

lemma wframe_emit: "\<not> notification x \<Longrightarrow> wframe w (emit x w)"
  by (simp add: wframe_def emit_def)

lemma wframe_fatal: "wframe w (snd (fatal m w))"
  by (simp add: fatal_def wframe_emit)

lemma wframe_removeSync_then:
  "wframe (removeSync w) w' \<Longrightarrow> isWatching w' = isWatching w \<and> isFirst w' = isFirst w
      \<and> updateFn w' = updateFn w \<and> timer w' = timer w \<and> firstBuild w' = firstBuild w
      \<and> filter notification (effects w') = filter notification (effects w)"
  by (simp add: wframe_def removeSync_def emit_def)

lemma calm_after_first:
  assumes "isFirst w"
  shows "calm w (snd (after_computeConfig now (r, w)))"
  using assms
  by (auto simp: after_computeConfig_def calm_def emit_def split: completion.splits option.splits)

lemma onEnd_unarmed_calm:
  assumes "\<not> isWatching w"
  shows "calm w (snd (onEnd opts t ev w))"
proof (cases "isFirst w")
  case False
  with assms show ?thesis by (simp add: onEnd_def calm_def)
next
  case True
  show ?thesis
  proof (cases "errors_length ev \<noteq> 0")
    case e: True
    with True show ?thesis
      by (simp add: onEnd_def calm_def fatal_def emit_def removeSync_def)
  next
    case e: False
    show ?thesis
    proof (cases "fst (require_tempFile (loaded ev) w)")
      case LoadThrows
      with True e show ?thesis
        by (cases "require_tempFile (loaded ev) w")
           (auto simp: onEnd_def calm_def fatal_def emit_def removeSync_def require_tempFile_def)
    next
      case (Loaded fn)
      let ?w3 = "emit (ComputeConfig True) (removeSync (emit Require w))"
      let ?r = "computeConfig (cycle_env ev) opts fn True ?w3"
      have c3: "calm w ?w3" "isFirst ?w3"
        using True by (simp_all add: calm_def emit_def removeSync_def)
      have wf: "wframe ?w3 (snd ?r)" by (rule computeConfig_wframe)
      then have c4: "calm ?w3 (snd ?r)" "isFirst (snd ?r)"
        using c3(2) by (simp_all add: wframe_def calm_def)
      from calm_after_first [OF c4(2), of t "fst ?r"]
      have "calm (snd ?r) (snd (after_computeConfig t ?r))" by simp
      with c3(1) c4(1) have "calm w (snd (after_computeConfig t ?r))"
        by (simp add: calm_def)
      moreover from Loaded have l: "tempFile_exists w" "loaded ev = Loaded fn"
        by (auto simp: require_tempFile_def split: if_splits)
      from l True e assms
      have "onEnd opts t ev w = after_computeConfig t ?r"
        by (simp add: onEnd_def require_tempFile_def)
      ultimately show ?thesis by simp
    qed
  qed
qed

lemma rebuild_unarmed_calm:
  assumes "\<not> isWatching w" and "timer w = None"
  shows "calm w (snd (rebuild opts t ev w))"
proof -
  let ?w = "esbuild_writes (errors_length ev = 0) (advance t w)"
  from assms(2) have a: "advance t w = w" by (simp add: advance_def)
  have c: "calm w ?w" "\<not> isWatching ?w"
    using assms by (simp_all add: a calm_def esbuild_writes_def)
  from onEnd_unarmed_calm [OF c(2)] have "calm ?w (snd (onEnd opts t ev ?w))" .
  with c(1) show ?thesis by (simp add: rebuild_def calm_def)
qed

lemma session_unarmed_calm:
  assumes "\<not> isWatching w" and "timer w = None"
  shows "calm w (snd (session opts evs w))"
  using assms
proof (induction evs arbitrary: w)
  case Nil
  show ?case by (simp add: calm_def)
next
  case (Cons x evs)
  obtain t ev where x: "x = (t, ev)" by (cases x)
  obtain r w' where r: "rebuild opts t ev w = (r, w')" by (cases "rebuild opts t ev w")
  from rebuild_unarmed_calm [OF Cons.prems, of opts t ev] r
  have c: "calm w w'" by simp
  show ?case
  proof (cases r)
    case (Returned u)
    from c Cons.prems have "\<not> isWatching w'" "timer w' = None" by (simp_all add: calm_def)
    then have "calm w' (snd (session opts evs w'))" by (rule Cons.IH)
    with c Returned r x show ?thesis by (simp add: calm_def)
  next
    case ProcessExit
    with c r x show ?thesis by simp
  next
    case (Threw err)
    with c r x show ?thesis by simp
  qed
qed

text \<open>
  C9, as stated, says that every build-finished event received before \<^verbatim>\<open>watch()\<close> is
  still fully processed. After the first build, a successful rebuild that arrives before
  \<^verbatim>\<open>watch()\<close> is skipped: the handler returns at once, the module is not required and
  the normalizer does not run (no effect at all), the state is the one esbuild left.
\<close>

theorem unarmed_rebuild_skipped:
  "\<not> isWatching unarmed_world
   \<and> rebuild watch_opts 500 saved_edit unarmed_world
       = (Returned (), unarmed_world\<lparr>tempFile_exists := True\<rparr>)
   \<and> effects (snd (rebuild watch_opts 500 saved_edit unarmed_world)) = []"
  by (simp add: rebuild_def onEnd_def esbuild_writes_def advance_def unarmed_world_def
        new_world_def saved_edit_def)

text \<open>
  C9, amended. Before \<^verbatim>\<open>watch()\<close>: a build-finished event after the first is skipped,
  the handler returns with the state as it is; the first build-finished event of a
  successful build is processed (the module is required, the temporary file removed, the
  normalizer run with \<^verbatim>\<open>failOnError\<close>), and when the normalizer returns a configuration
  the first build's promise is resolved with it; and through any sequence of
  build-finished events no update is scheduled and no callback is called.
\<close>

theorem unarmed_events:
  assumes "\<not> isWatching w"
  shows "(\<not> isFirst w \<longrightarrow> onEnd opts t ev w = (Returned (), w))
       \<and> (isFirst w \<and> errors_length ev = 0 \<and> tempFile_exists w \<and> loaded ev = Loaded fn \<longrightarrow>
            onEnd opts t ev w
              = after_computeConfig t
                  (computeConfig (cycle_env ev) opts fn True
                     (emit (ComputeConfig True) (removeSync (emit Require w))))
            \<and> (\<forall>qc wc w1.
                  computeConfig (cycle_env ev) opts fn True
                    (emit (ComputeConfig True) (removeSync (emit Require w)))
                    = (Returned (Some (qc, wc)), w1) \<longrightarrow>
                  onEnd opts t ev w
                    = (Returned (),
                       emit FirstBuildIsDone (w1\<lparr>isFirst := False, firstBuild := Some (qc, wc)\<rparr>))))
       \<and> (timer w = None \<longrightarrow>
            filter notification (effects (snd (session opts evs w)))
              = filter notification (effects w))"
proof (intro conjI impI allI)
  assume "\<not> isFirst w"
  with assms show "onEnd opts t ev w = (Returned (), w)" by (simp add: onEnd_def)
next
  assume a: "isFirst w \<and> errors_length ev = 0 \<and> tempFile_exists w \<and> loaded ev = Loaded fn"
  then show o: "onEnd opts t ev w
              = after_computeConfig t
                  (computeConfig (cycle_env ev) opts fn True
                     (emit (ComputeConfig True) (removeSync (emit Require w))))"
    by (simp add: onEnd_def require_tempFile_def)
  fix qc wc w1
  assume c: "computeConfig (cycle_env ev) opts fn True
                    (emit (ComputeConfig True) (removeSync (emit Require w)))
                    = (Returned (Some (qc, wc)), w1)"
  from computeConfig_wframe [of "emit (ComputeConfig True) (removeSync (emit Require w))"
         "cycle_env ev" opts fn True] c a
  have "isFirst w1" by (simp add: wframe_def emit_def removeSync_def)
  with o c show "onEnd opts t ev w
                    = (Returned (),
                       emit FirstBuildIsDone (w1\<lparr>isFirst := False, firstBuild := Some (qc, wc)\<rparr>))"
    by (simp add: after_computeConfig_def)
next
  assume "timer w = None"
  with assms have "calm w (snd (session opts evs w))" by (rule session_unarmed_calm)
  then show "filter notification (effects (snd (session opts evs w)))
              = filter notification (effects w)"
    by (simp add: calm_def)
qed

theorem unarmed_events_witness:
  "\<not> isWatching unarmed_world \<and> \<not> isFirst unarmed_world \<and> timer unarmed_world = None
   \<and> onEnd watch_opts 500 saved_edit unarmed_world = (Returned (), unarmed_world)
   \<and> filter notification
        (effects (snd (session watch_opts [(500, saved_edit), (900, saved_edit)] unarmed_world)))
       = filter notification (effects unarmed_world)
   \<and> \<not> isWatching written_world \<and> isFirst written_world \<and> tempFile_exists written_world
   \<and> errors_length saved_edit = 0 \<and> loaded saved_edit = Loaded empty_factory
   \<and> onEnd watch_opts 0 saved_edit written_world
       = after_computeConfig 0
           (computeConfig (cycle_env saved_edit) watch_opts empty_factory True
              (emit (ComputeConfig True) (removeSync (emit Require written_world))))"
proof -
  have u: "\<not> isWatching unarmed_world" "\<not> isFirst unarmed_world" "timer unarmed_world = None"
    by (simp_all add: unarmed_world_def new_world_def)
  have v: "\<not> isWatching written_world" "isFirst written_world" "tempFile_exists written_world"
    by (simp_all add: written_world_def esbuild_writes_def new_world_def)
  have s: "errors_length saved_edit = 0" "loaded saved_edit = Loaded empty_factory"
    by (simp_all add: saved_edit_def)
  from unarmed_events [OF u(1), of watch_opts 500 saved_edit empty_factory
         "[(500, saved_edit), (900, saved_edit)]"]
       unarmed_events [OF v(1), of watch_opts 0 saved_edit empty_factory "[]"] u v s
  show ?thesis by simp
qed

subsection \<open>The debounced update\<close>

lemma callback_notification: "callback x \<Longrightarrow> notification x"
  by (cases x) simp_all

lemma filter_callback_of_notification:
  "filter notification xs = filter notification ys \<Longrightarrow> filter callback xs = filter callback ys"
proof -
  assume a: "filter notification xs = filter notification ys"
  have "filter callback zs = filter callback (filter notification zs)" for zs
    by (induction zs) (auto simp: callback_notification)
  with a show ?thesis by metis
qed

lemma this_ctx_computeConfig:
  assumes "\<not> mode_ssr (this_ctx w)"
  shows "this_ctx (snd (computeConfig e opts fn foe w)) = this_ctx w"
proof -
  from computeConfig_cases [of w e opts fn foe]
  obtain w' where f: "frame w w'"
    and c: "computeConfig e opts fn foe w = (ProcessExit, w')
         \<or> (\<exists>err. computeConfig e opts fn foe w = (Threw err, w'))
         \<or> computeConfig e opts fn foe w = (Returned None, w')
         \<or> (\<exists>cfg. is_JObj cfg \<and> computeConfig e opts fn foe w = store_result e cfg w')"
    by blast
  from f assms have t: "this_ctx w' = this_ctx w" by (simp add: frame_def)
  from c show ?thesis
  proof (elim disjE exE conjE)
    fix cfg assume "computeConfig e opts fn foe w = store_result e cfg w'"
    with t show ?thesis by (simp add: store_result_def Let_def)
  qed (use t in auto)
qed

lemma this_ctx_after: "this_ctx (snd (after_computeConfig now r)) = this_ctx (snd r)"
  by (cases r)
     (auto simp: after_computeConfig_def scheduleUpdate_def log_def emit_def
        split: completion.splits option.splits)

lemma this_ctx_advance: "this_ctx (advance t w) = this_ctx w"
  by (simp add: advance_def expire_def emit_def split: option.splits)

lemma this_ctx_emit: "this_ctx (emit x w) = this_ctx w"
  by (simp add: emit_def)

lemma this_ctx_removeSync: "this_ctx (removeSync w) = this_ctx w"
  by (simp add: removeSync_def emit_def)

lemma this_ctx_warn: "this_ctx (warn m w) = this_ctx w"
  by (simp add: warn_def emit_def)

lemma this_ctx_fatal: "this_ctx (snd (fatal m w)) = this_ctx w"
  by (simp add: fatal_def emit_def)

lemma this_ctx_onEnd:
  assumes "\<not> mode_ssr (this_ctx w)"
  shows "this_ctx (snd (onEnd opts t ev w)) = this_ctx w"
proof (cases "\<not> isFirst w \<and> \<not> isWatching w")
  case True
  then show ?thesis by (simp add: onEnd_def)
next
  case g: False
  show ?thesis
  proof (cases "errors_length ev \<noteq> 0")
    case True
    with g show ?thesis
      by (simp add: onEnd_def this_ctx_fatal this_ctx_warn this_ctx_removeSync)
  next
    case e: False
    show ?thesis
    proof (cases "fst (require_tempFile (loaded ev) w)")
      case LoadThrows
      then have "require_tempFile (loaded ev) w = (LoadThrows, emit Require w)"
        by (simp add: require_tempFile_def)
      with g e show ?thesis
        by (simp add: onEnd_def this_ctx_fatal this_ctx_warn this_ctx_removeSync this_ctx_emit)
    next
      case (Loaded fn)
      then have r: "require_tempFile (loaded ev) w = (Loaded fn, emit Require w)"
        by (simp add: require_tempFile_def)
      let ?w3 = "emit (ComputeConfig (isFirst w)) (removeSync (emit Require w))"
      have c3: "this_ctx ?w3 = this_ctx w"
        by (simp add: this_ctx_emit this_ctx_removeSync)
      with assms have "\<not> mode_ssr (this_ctx ?w3)" by simp
      then have "this_ctx (snd (computeConfig (cycle_env ev) opts fn (isFirst w) ?w3)) = this_ctx ?w3"
        by (rule this_ctx_computeConfig)
      with g e r c3 show ?thesis
        by (simp add: onEnd_def this_ctx_after)
    qed
  qed
qed

lemma this_ctx_rebuild:
  assumes "\<not> mode_ssr (this_ctx w)"
  shows "this_ctx (snd (rebuild opts t ev w)) = this_ctx w"
proof -
  let ?w0 = "esbuild_writes (errors_length ev = 0) (advance t w)"
  have c0: "this_ctx ?w0 = this_ctx w" by (simp add: esbuild_writes_def this_ctx_advance)
  with assms have "\<not> mode_ssr (this_ctx ?w0)" by simp
  then have "this_ctx (snd (onEnd opts t ev ?w0)) = this_ctx ?w0" by (rule this_ctx_onEnd)
  with c0 show ?thesis by (simp add: rebuild_def)
qed

lemma andThen_assoc:
  "andThen (andThen r k) k' = andThen r (\<lambda>x w. andThen (k x w) k')"
  by (cases r) (simp add: andThen_def split: completion.splits)

lemma phaseB_post_hook:
  "phaseB e opts userCfg w =
     andThen (post_hook e opts userCfg w)
       (\<lambda>cfg w. andThen (derive_build e (this_ctx w) cfg, take_snapshot opts cfg w)
       (\<lambda>cfg w. andThen (derive_ssr cfg w)
       (\<lambda>cfg w. andThen (derive_pwa e cfg w)
       (\<lambda>cfg w. store_result e cfg w))))"
  by (simp add: phaseB_def post_hook_def andThen_assoc)

lemma snapshot_negotiated:
  "configSnapshot (snd (negotiated ds addr to w)) = configSnapshot w
   \<and> webpackConfChanged (snd (negotiated ds addr to w)) = webpackConfChanged w"
  by (simp add: negotiated_def Let_def)

lemma snapshot_negotiate:
  "configSnapshot (snd (negotiate opts ds w)) = configSnapshot w
   \<and> webpackConfChanged (snd (negotiate opts ds w)) = webpackConfChanged w"
  by (simp add: negotiate_def Let_def snapshot_negotiated emit_def split: option.splits)

lemma snapshot_resolve_address:
  "configSnapshot (snd (resolve_address opts cfg w)) = configSnapshot w
   \<and> webpackConfChanged (snd (resolve_address opts cfg w)) = webpackConfChanged w"
proof (cases "negotiate opts (requested_devServer opts (getp cfg ''devServer'')) w")
  case (Pair c w1)
  with snapshot_negotiate [of opts "requested_devServer opts (getp cfg ''devServer'')" w]
  show ?thesis
    by (cases c) (simp_all add: resolve_address_def andThen_def)
qed

lemma snapshot_runHook:
  "configSnapshot (snd (runHook hs cfg w)) = configSnapshot w
   \<and> webpackConfChanged (snd (runHook hs cfg w)) = webpackConfChanged w"
  by (induction hs cfg w rule: runHook.induct) (simp_all add: log_def emit_def)

lemma snapshot_post_hook:
  "configSnapshot (snd (post_hook e opts userCfg w)) = configSnapshot w
   \<and> webpackConfChanged (snd (post_hook e opts userCfg w)) = webpackConfChanged w"
proof (cases "framework_defaults (resolve_animations e (merge_js [skeleton (this_ctx w), userCfg]))")
  case (Returned cfg)
  show ?thesis
  proof (cases "resolve_address opts cfg w")
    case (Pair c w1)
    with snapshot_resolve_address [of opts cfg w] snapshot_runHook [of "hooks e" _ w1] Returned
    show ?thesis
      by (cases c) (simp_all add: post_hook_def andThen_def)
  qed
qed (simp_all add: post_hook_def andThen_def)

lemma snapshot_derive_ssr:
  "configSnapshot (snd (derive_ssr cfg w)) = configSnapshot w
   \<and> webpackConfChanged (snd (derive_ssr cfg w)) = webpackConfChanged w"
  by (simp add: derive_ssr_def Let_def)

lemma snapshot_derive_pwa:
  "configSnapshot (snd (derive_pwa e cfg w)) = configSnapshot w
   \<and> webpackConfChanged (snd (derive_pwa e cfg w)) = webpackConfChanged w"
  by (simp add: derive_pwa_def Let_def warn_def emit_def)

lemma snapshot_store_result:
  "configSnapshot (snd (store_result e cfg w)) = configSnapshot w
   \<and> webpackConfChanged (snd (store_result e cfg w)) = webpackConfChanged w"
  by (simp add: store_result_def Let_def)

lemma phaseB_snapshot:
  assumes "phaseB e opts userCfg w = (Returned (Some r), w')"
  shows "\<exists>cfg w5. post_hook e opts userCfg w = (Returned cfg, w5)
           \<and> configSnapshot w' = configSnapshot (take_snapshot opts cfg w5)
           \<and> webpackConfChanged w' = webpackConfChanged (take_snapshot opts cfg w5)"
proof -
  obtain c w5 where ph: "post_hook e opts userCfg w = (c, w5)" by (cases "post_hook e opts userCfg w")
  from assms ph obtain cfg where c: "c = Returned cfg"
    by (cases c) (simp_all add: phaseB_post_hook andThen_def)
  let ?w6 = "take_snapshot opts cfg w5"
  from assms ph c obtain cfg1 where db: "derive_build e (this_ctx w5) cfg = Returned cfg1"
    by (cases "derive_build e (this_ctx w5) cfg") (simp_all add: phaseB_post_hook andThen_def)
  obtain c2 w7 where ss: "derive_ssr cfg1 ?w6 = (c2, w7)" by (cases "derive_ssr cfg1 ?w6")
  from assms ph c db ss obtain cfg2 where c2: "c2 = Returned cfg2"
    by (cases c2) (simp_all add: phaseB_post_hook andThen_def)
  obtain c3 w8 where pw: "derive_pwa e cfg2 w7 = (c3, w8)" by (cases "derive_pwa e cfg2 w7")
  from assms ph c db ss c2 pw obtain cfg3 where c3: "c3 = Returned cfg3"
    by (cases c3) (simp_all add: phaseB_post_hook andThen_def)
  from assms ph c db ss c2 pw c3 have st: "store_result e cfg3 w8 = (Returned (Some r), w')"
    by (simp add: phaseB_post_hook andThen_def)
  from snapshot_derive_ssr [of cfg1 ?w6] ss
  have 1: "configSnapshot w7 = configSnapshot ?w6" "webpackConfChanged w7 = webpackConfChanged ?w6"
    by simp_all
  from snapshot_derive_pwa [of e cfg2 w7] pw
  have 2: "configSnapshot w8 = configSnapshot w7" "webpackConfChanged w8 = webpackConfChanged w7"
    by simp_all
  from snapshot_store_result [of e cfg3 w8] st
  have 3: "configSnapshot w' = configSnapshot w8" "webpackConfChanged w' = webpackConfChanged w8"
    by simp_all
  from ph c 1 2 3 show ?thesis by simp
qed

lemma take_snapshot_compares:
  assumes "opts_watch opts" and "configSnapshot w = Some prev" and "prev \<noteq> []"
  shows "configSnapshot (take_snapshot opts cfg w) = Some (newConfigSnapshot cfg)
       \<and> webpackConfChanged (take_snapshot opts cfg w) = Some (newConfigSnapshot cfg \<noteq> prev)"
  using assms by (simp add: take_snapshot_def Let_def)

lemma take_snapshot_stores:
  assumes "opts_watch opts"
  shows "configSnapshot (take_snapshot opts cfg w) = Some (newConfigSnapshot cfg)"
  using assms by (simp add: take_snapshot_def Let_def split: option.splits)


lemma computeConfig_Some_phaseB:
  assumes "fst (computeConfig e opts fn foe w) = Returned (Some r)"
  shows "\<exists>f u. fn = Factory f \<and> f (this_ctx w) = Resolves u
           \<and> computeConfig e opts fn foe w = phaseB e opts u w"
proof (cases fn)
  case NotAFunction
  with assms show ?thesis by (simp add: computeConfig_def fatal_def split: if_splits)
next
  case (Factory f)
  show ?thesis
  proof (cases "f (this_ctx w)")
    case Rejects
    with assms Factory show ?thesis by (simp add: computeConfig_def fatal_def split: if_splits)
  next
    case (Resolves u)
    with assms Factory show ?thesis by (simp add: computeConfig_def fatal_def split: if_splits)
  qed
qed

lemma rebuild_successful:
  assumes "isWatching w" and "\<not> isFirst w"
    and "timer w = None \<or> (\<exists>d. timer w = Some d \<and> t < d)"
    and "successful opts t ev w"
    and "opts_watch opts" and "configSnapshot w = Some prev" and "prev \<noteq> []"
  shows "\<exists>w' new. rebuild opts t ev w = (Returned (), w')
           \<and> isWatching w' \<and> \<not> isFirst w' \<and> timer w' = Some (t + 1000)
           \<and> cycle_snapshot opts t ev w = Some new \<and> configSnapshot w' = Some new
           \<and> updateFn w' = Some (if updateFn w = Some OnBuildChange \<or> new \<noteq> prev
                                  then OnBuildChange else OnAppChange)
           \<and> filter callback (effects w') = filter callback (effects w)"
proof -
  from assms(3) have adv: "advance t w = w" by (auto simp: advance_def)
  let ?w0 = "esbuild_writes True w"
  let ?w3 = "emit (ComputeConfig False) (removeSync (emit Require ?w0))"
  from assms(4) have e: "errors_length ev = 0" by (simp add: successful_def)
  from assms(4) obtain fn where l: "loaded ev = Loaded fn"
    by (cases "loaded ev") (simp_all add: successful_def)
  let ?r = "computeConfig (cycle_env ev) opts fn False ?w3"
  from assms(4) l adv obtain qc wc where f: "fst ?r = Returned (Some (qc, wc))"
    by (auto simp: successful_def split: completion.splits option.splits)
  obtain w4 where r: "?r = (Returned (Some (qc, wc)), w4)"
    using f by (cases ?r) simp
  from computeConfig_Some_JObj [OF r] have qc: "qc \<noteq> JUndefined" by auto
  from computeConfig_wframe [of ?w3 "cycle_env ev" opts fn False] r
  have wf: "wframe ?w3 w4" by simp
  then have k: "isWatching w4" "\<not> isFirst w4" "updateFn w4 = updateFn w"
    "filter notification (effects w4) = filter notification (effects w)"
    using assms(1,2)
    by (simp_all add: wframe_def emit_def removeSync_def esbuild_writes_def)
  from computeConfig_Some_phaseB [OF f] obtain g u where fn: "fn = Factory g"
    and gu: "g (this_ctx ?w3) = Resolves u"
    and pb: "?r = phaseB (cycle_env ev) opts u ?w3" by blast
  from pb r have "phaseB (cycle_env ev) opts u ?w3 = (Returned (Some (qc, wc)), w4)" by simp
  from phaseB_snapshot [OF this] obtain cfg w5
    where ph: "post_hook (cycle_env ev) opts u ?w3 = (Returned cfg, w5)"
      and s4: "configSnapshot w4 = configSnapshot (take_snapshot opts cfg w5)"
      and c4: "webpackConfChanged w4 = webpackConfChanged (take_snapshot opts cfg w5)"
    by blast
  from snapshot_post_hook [of "cycle_env ev" opts u ?w3] ph assms(6)
  have s5: "configSnapshot w5 = Some prev"
    by (simp add: emit_def removeSync_def esbuild_writes_def)
  define new where "new = newConfigSnapshot cfg"
  from take_snapshot_compares [OF assms(5) s5 assms(7), of cfg] s4 c4
  have n4: "configSnapshot w4 = Some new" "webpackConfChanged w4 = Some (new \<noteq> prev)"
    by (simp_all add: new_def)
  have cs: "cycle_snapshot opts t ev w = Some new"
    using l fn gu ph adv by (simp add: cycle_snapshot_def new_def)
  let ?f = "if updateFn w = Some OnBuildChange \<or> new \<noteq> prev then OnBuildChange else OnAppChange"
  let ?w' = "scheduleUpdate t (log ''Scheduled to apply quasar.config changes in 1s''
               (w4\<lparr>updateFn := Some ?f\<rparr>))"
  have o: "onEnd opts t ev ?w0 = (Returned (), ?w')"
    using assms(1,2) e l r qc k n4
    by (simp add: onEnd_def esbuild_writes_def require_tempFile_def after_computeConfig_def)
  then have rb: "rebuild opts t ev w = (Returned (), ?w')"
    by (simp add: rebuild_def adv e)
  have c: "filter callback (effects ?w') = filter callback (effects w)"
    using filter_callback_of_notification [OF k(4)]
    by (simp add: scheduleUpdate_def log_def emit_def)
  from rb k cs n4 c show ?thesis
    by (simp add: scheduleUpdate_def log_def emit_def)
qed

lemma window_run:
  assumes "isWatching w" and "\<not> isFirst w" and "timer w = Some (t + 1000)"
    and "updateFn w = Some f" and "opts_watch opts" and "configSnapshot w = Some prev"
    and "coalesced t (map fst evs)" and "all_successful opts evs w"
    and "all_compared prev opts evs w"
  shows "\<exists>w'. session opts evs w = (Returned (), w')
           \<and> timer w' = Some (last (t # map fst evs) + 1000)
           \<and> updateFn w' = Some (if f = OnBuildChange \<or> any_pipeline_affecting prev opts evs w
                                  then OnBuildChange else OnAppChange)
           \<and> filter callback (effects w') = filter callback (effects w)"
  using assms
proof (induction evs arbitrary: w t f prev)
  case Nil
  then show ?case by (cases f) simp_all
next
  case (Cons x evs)
  obtain u ev where x: "x = (u, ev)" by (cases x)
  from Cons.prems(7) x have tu: "t \<le> u" "u < t + 1000" and co: "coalesced u (map fst evs)"
    by simp_all
  from Cons.prems(8) x have s: "successful opts u ev w"
    and rest: "all_successful opts evs (snd (rebuild opts u ev w))" by simp_all
  from Cons.prems(9) x have pn: "prev \<noteq> []" by simp
  from Cons.prems(3) tu have "timer w = None \<or> (\<exists>d. timer w = Some d \<and> u < d)" by simp
  from rebuild_successful [OF Cons.prems(1,2) this s Cons.prems(5,6) pn]
  obtain w1 new where rb: "rebuild opts u ev w = (Returned (), w1)"
    and w1: "isWatching w1" "\<not> isFirst w1" "timer w1 = Some (u + 1000)"
    and cs: "cycle_snapshot opts u ev w = Some new" and s1: "configSnapshot w1 = Some new"
    and u1: "updateFn w1 = Some (if updateFn w = Some OnBuildChange \<or> new \<noteq> prev
                                  then OnBuildChange else OnAppChange)"
    and c1: "filter callback (effects w1) = filter callback (effects w)"
    by blast
  from rest rb have rest1: "all_successful opts evs w1" by simp
  from Cons.prems(9) x cs rb have cmp1: "all_compared new opts evs w1" by simp
  from Cons.IH [OF w1 u1 Cons.prems(5) s1 co rest1 cmp1]
  obtain w' where se: "session opts evs w1 = (Returned (), w')"
    and t': "timer w' = Some (last (u # map fst evs) + 1000)"
    and u': "updateFn w' = Some (if (if updateFn w = Some OnBuildChange \<or> new \<noteq> prev
                                      then OnBuildChange else OnAppChange) = OnBuildChange
                                    \<or> any_pipeline_affecting new opts evs w1
                                  then OnBuildChange else OnAppChange)"
    and c': "filter callback (effects w') = filter callback (effects w1)"
    by blast
  from se rb x have "session opts (x # evs) w = (Returned (), w')" by simp
  moreover from t' x have "timer w' = Some (last (t # map fst (x # evs)) + 1000)" by simp
  moreover from u' Cons.prems(4) rb x cs
  have "updateFn w' = Some (if f = OnBuildChange \<or> any_pipeline_affecting prev opts (x # evs) w
                            then OnBuildChange else OnAppChange)"
    by (auto simp: pipeline_affecting_def)
  moreover from c' c1 have "filter callback (effects w') = filter callback (effects w)" by simp
  ultimately show ?case by blast
qed

text \<open>
  C3. In an armed watch session past its first cycle, with no update pending and holding
  the snapshot \<open>prev\<close> of its last cycle, let one or more successful rebuilds complete
  their normalization each less than one second after the one before, each compared with
  a non-empty snapshot (a snapshot is non-empty as soon as the configuration has a build
  subtree). Then no callback is called while they are handled, and once a second has
  passed since the last one exactly one callback has been called: \<^verbatim>\<open>onBuildChange\<close> if
  the snapshot of any of the cycles differs from the snapshot of the cycle before it (a
  later cycle whose snapshot does not differ does not take it back), \<^verbatim>\<open>onAppChange\<close>
  otherwise; and nothing is left pending.
\<close>

theorem coalesced_updates:
  assumes "isWatching w" and "\<not> isFirst w" and "timer w = None" and "updateFn w = None"
    and "opts_watch opts" and "configSnapshot w = Some prev"
    and "coalesced t (map fst evs)"
    and "all_successful opts ((t, ev) # evs) w"
    and "all_compared prev opts ((t, ev) # evs) w"
    and "last (t # map fst evs) + 1000 \<le> T"
  shows "\<exists>w'. session opts ((t, ev) # evs) w = (Returned (), w')
           \<and> filter callback (effects w') = filter callback (effects w)
           \<and> filter callback (effects (advance T w'))
               = filter callback (effects w)
                   @ [Callback (if any_pipeline_affecting prev opts ((t, ev) # evs) w
                                then OnBuildChange else OnAppChange)]
           \<and> timer (advance T w') = None \<and> updateFn (advance T w') = None"
proof -
  from assms(8) have s: "successful opts t ev w"
    and rest: "all_successful opts evs (snd (rebuild opts t ev w))" by simp_all
  from assms(9) have pn: "prev \<noteq> []" by simp
  from assms(3) have "timer w = None \<or> (\<exists>d. timer w = Some d \<and> t < d)" by simp
  from rebuild_successful [OF assms(1,2) this s assms(5,6) pn]
  obtain w1 new where rb: "rebuild opts t ev w = (Returned (), w1)"
    and w1: "isWatching w1" "\<not> isFirst w1" "timer w1 = Some (t + 1000)"
    and cs: "cycle_snapshot opts t ev w = Some new" and s1: "configSnapshot w1 = Some new"
    and u1: "updateFn w1 = Some (if updateFn w = Some OnBuildChange \<or> new \<noteq> prev
                                  then OnBuildChange else OnAppChange)"
    and c1: "filter callback (effects w1) = filter callback (effects w)"
    by blast
  from rest rb have rest1: "all_successful opts evs w1" by simp
  from assms(9) cs rb have cmp1: "all_compared new opts evs w1" by simp
  from window_run [OF w1 u1 assms(5) s1 assms(7) rest1 cmp1]
  obtain w' where se: "session opts evs w1 = (Returned (), w')"
    and t': "timer w' = Some (last (t # map fst evs) + 1000)"
    and u': "updateFn w' = Some (if (if updateFn w = Some OnBuildChange \<or> new \<noteq> prev
                                      then OnBuildChange else OnAppChange) = OnBuildChange
                                    \<or> any_pipeline_affecting new opts evs w1
                                  then OnBuildChange else OnAppChange)"
    and c': "filter callback (effects w') = filter callback (effects w1)"
    by blast
  let ?f = "if any_pipeline_affecting prev opts ((t, ev) # evs) w
            then OnBuildChange else OnAppChange"
  from u' assms(4) rb cs have uf: "updateFn w' = Some ?f"
    by (auto simp: pipeline_affecting_def)
  from se rb have 1: "session opts ((t, ev) # evs) w = (Returned (), w')" by simp
  from c' c1 have 2: "filter callback (effects w') = filter callback (effects w)" by simp
  from t' assms(10) uf
  have a: "advance T w' = (emit (Callback ?f) w')\<lparr>updateFn := None, timer := None\<rparr>"
    by (simp add: advance_def expire_def)
  from a 2 have 3: "filter callback (effects (advance T w'))
               = filter callback (effects w) @ [Callback ?f]"
    by (simp add: emit_def)
  from a have 4: "timer (advance T w') = None" "updateFn (advance T w') = None" by simp_all
  from 1 2 3 4 show ?thesis by blast
qed

lemma derive_build_returns:
  assumes "\<not> nullish (getp cfg ''build'')" and "is_JObj (getp cfg ''framework'')"
    and "\<not> truthy (getp (getp cfg ''build'') ''publicPath'')"
  shows "\<exists>cfg'. derive_build e c cfg = Returned cfg'"
proof -
  from assms(1) have obj: "is_JObj cfg" by (rule nonnull_prop_is_JObj)
  from naming_case_returns [OF assms(2)]
  obtain cfg1 where nc: "naming_case cfg = Returned cfg1" by blast
  from naming_case_build [OF nc obj]
  have b1: "getp cfg1 ''build'' = getp cfg ''build''" by simp
  define build where "build = mode_overrides c (merge_js [build_defaults e c, getp cfg ''build''])"
  have name: "\<not> set ''publicPath'' \<subseteq> set ''0123456789''" by simp
  have user: "getp build ''publicPath'' = getp (getp cfg ''build'') ''publicPath''"
    unfolding build_def
    by (simp add: getp_mode_overrides_publicPath is_JObj_merge_js_pair getp_merge_js_pair
          build_defaults_publicPath getp_own_props_name [OF name] del: getp.simps)
  from assms(3) obtain pp where "publicPath c build = Returned pp"
    by (auto simp: publicPath_def user)
  with assms(1) nc b1 show ?thesis
    by (simp add: derive_build_def build_def [symmetric])
qed

lemma post_hook_plain:
  assumes "\<not> ctx_dev (this_ctx w)" and "hooks e = []"
    and "is_JObj (getp (merge_js [skeleton (this_ctx w), u]) ''framework'')"
  shows "\<exists>cfg. post_hook e opts u w = (Returned cfg, w)
           \<and> whitelisted cfg = whitelisted (merge_js [skeleton (this_ctx w), u])
           \<and> is_JObj (getp cfg ''framework'')"
proof -
  define M where "M = merge_js [skeleton (this_ctx w), u]"
  define A where "A = resolve_animations e M"
  have m: "is_JObj M" unfolding M_def by (rule is_JObj_merge_js_pair)
  then have a: "is_JObj A" unfolding A_def by (rule is_JObj_resolve_animations)
  have g: "getp A k = getp M k" if "k \<noteq> ''animations''" for k
    using that m by (simp add: A_def resolve_animations_def getp_setp)
  define fw where "fw = getp A ''framework''"
  have fwm: "fw = getp M ''framework''" unfolding fw_def by (rule g) simp
  with assms(3) have fo: "is_JObj fw" by (simp add: M_def)
  define fw1 where "fw1 = (if \<not> truthy (getp fw ''plugins'') then setp fw ''plugins'' (JArr []) else fw)"
  define fw2 where "fw2 = (if \<not> truthy (getp fw1 ''config'') then setp fw1 ''config'' (JObj []) else fw1)"
  from fo have fo1: "is_JObj fw1" by (simp add: fw1_def is_JObj_setp)
  then have fo2: "is_JObj fw2" by (simp add: fw2_def is_JObj_setp)
  have c1: "getp fw1 ''autoImportComponentCase'' = getp fw ''autoImportComponentCase''"
    using fo by (simp add: fw1_def getp_setp)
  have c2: "getp fw2 ''autoImportComponentCase'' = getp fw ''autoImportComponentCase''"
    using fo1 c1 by (simp add: fw2_def getp_setp)
  define cfg where "cfg = setp A ''framework'' fw2"
  have fd: "framework_defaults A = Returned cfg"
    using fo by (simp add: framework_defaults_def Let_def fw_def [symmetric]
          fw1_def [symmetric] fw2_def [symmetric] cfg_def)
  have ph: "post_hook e opts u w = (Returned cfg, w)"
    using assms(1,2) fd
    by (simp add: post_hook_def andThen_def M_def [symmetric] A_def [symmetric]
          resolve_address_def)
  have wl: "whitelisted cfg = whitelisted M"
    using a fo2 c2 fwm by (simp add: whitelisted_def cfg_def getp_setp g)
  have "is_JObj (getp cfg ''framework'')"
    using a fo2 by (simp add: cfg_def getp_setp)
  with ph wl show ?thesis unfolding M_def by blast
qed

lemma phaseB_plain_returns:
  assumes "\<not> ctx_dev (this_ctx w)" and "\<not> mode_ssr (this_ctx w)" and "\<not> mode_pwa (this_ctx w)"
    and "hooks e = []"
    and "is_JObj (getp (merge_js [skeleton (this_ctx w), u]) ''framework'')"
    and "\<not> nullish (getp (merge_js [skeleton (this_ctx w), u]) ''build'')"
    and "\<not> truthy (getp (getp (merge_js [skeleton (this_ctx w), u]) ''build'') ''publicPath'')"
  shows "\<exists>r. fst (phaseB e opts u w) = Returned (Some r)"
proof -
  from post_hook_plain [OF assms(1,4,5), of opts]
  obtain cfg where ph: "post_hook e opts u w = (Returned cfg, w)"
    and wl: "whitelisted cfg = whitelisted (merge_js [skeleton (this_ctx w), u])"
    and fw: "is_JObj (getp cfg ''framework'')" by blast
  from wl have b: "getp cfg ''build'' = getp (merge_js [skeleton (this_ctx w), u]) ''build''"
    by (simp add: whitelisted_def)
  from derive_build_returns [of cfg e "this_ctx w"] assms(6,7) b fw
  obtain cfg1 where db: "derive_build e (this_ctx w) cfg = Returned cfg1" by auto
  from ph db assms(2,3) show ?thesis
    by (simp add: phaseB_post_hook andThen_def derive_ssr_def derive_pwa_def
          this_ctx_take_snapshot store_result_def Let_def)
qed

lemma first_rebuild:
  assumes "isFirst w" and "timer w = None" and "errors_length ev = 0"
    and "loaded ev = Loaded fn" and "opts_watch opts"
    and "fst (computeConfig (cycle_env ev) opts fn True
                (emit (ComputeConfig True) (removeSync (emit Require (esbuild_writes True w)))))
           = Returned (Some r)"
  shows "\<exists>w' f u cfg w5. rebuild opts t ev w = (Returned (), w')
           \<and> \<not> isFirst w' \<and> timer w' = None \<and> updateFn w' = updateFn w
           \<and> isWatching w' = isWatching w
           \<and> fn = Factory f \<and> f (this_ctx w) = Resolves u
           \<and> post_hook (cycle_env ev) opts u
                (emit (ComputeConfig True) (removeSync (emit Require (esbuild_writes True w))))
               = (Returned cfg, w5)
           \<and> configSnapshot w' = Some (newConfigSnapshot cfg)
           \<and> filter callback (effects w') = filter callback (effects w)"
proof -
  from assms(2) have adv: "advance t w = w" by (simp add: advance_def)
  let ?w0 = "esbuild_writes True w"
  let ?w3 = "emit (ComputeConfig True) (removeSync (emit Require ?w0))"
  let ?r = "computeConfig (cycle_env ev) opts fn True ?w3"
  obtain qc wc where rr: "r = (qc, wc)" by (cases r)
  obtain w4 where r: "?r = (Returned (Some (qc, wc)), w4)"
    using assms(6) rr by (cases ?r) simp
  from computeConfig_wframe [of ?w3 "cycle_env ev" opts fn True] r
  have wf: "wframe ?w3 w4" by simp
  then have k: "isWatching w4 = isWatching w" "isFirst w4" "updateFn w4 = updateFn w"
    "timer w4 = None"
    "filter notification (effects w4) = filter notification (effects w)"
    using assms(1,2)
    by (simp_all add: wframe_def emit_def removeSync_def esbuild_writes_def)
  from computeConfig_Some_phaseB [OF assms(6)] obtain g u where fn: "fn = Factory g"
    and gu: "g (this_ctx ?w3) = Resolves u"
    and pb: "?r = phaseB (cycle_env ev) opts u ?w3" by blast
  from pb r have "phaseB (cycle_env ev) opts u ?w3 = (Returned (Some (qc, wc)), w4)" by simp
  from phaseB_snapshot [OF this] obtain cfg w5
    where ph: "post_hook (cycle_env ev) opts u ?w3 = (Returned cfg, w5)"
      and s4: "configSnapshot w4 = configSnapshot (take_snapshot opts cfg w5)"
    by blast
  from s4 take_snapshot_stores [OF assms(5), of cfg w5]
  have n4: "configSnapshot w4 = Some (newConfigSnapshot cfg)" by simp
  let ?w' = "emit FirstBuildIsDone (w4\<lparr>isFirst := False, firstBuild := Some (qc, wc)\<rparr>)"
  have o: "onEnd opts t ev ?w0 = (Returned (), ?w')"
    using assms(1,3,4) r k
    by (simp add: onEnd_def esbuild_writes_def require_tempFile_def after_computeConfig_def)
  then have rb: "rebuild opts t ev w = (Returned (), ?w')"
    by (simp add: rebuild_def adv assms(3))
  have c: "filter callback (effects ?w') = filter callback (effects w)"
    using filter_callback_of_notification [OF k(5)] by (simp add: emit_def)
  have gu': "g (this_ctx w) = Resolves u"
    using gu by (simp add: emit_def removeSync_def esbuild_writes_def)
  from rb k n4 c fn gu' ph show ?thesis
    by (simp add: emit_def)
qed

lemma successful_plain:
  assumes "this_ctx w = c" and "\<not> ctx_dev c" and "\<not> mode_ssr c" and "\<not> mode_pwa c"
    and "hooks (cycle_env ev) = []" and "errors_length ev = 0"
    and "loaded ev = Loaded (Factory f)" and "f c = Resolves u" and "\<not> primitive u"
    and "is_JObj (getp (merge_js [skeleton c, u]) ''framework'')"
    and "\<not> nullish (getp (merge_js [skeleton c, u]) ''build'')"
    and "\<not> truthy (getp (getp (merge_js [skeleton c, u]) ''build'') ''publicPath'')"
  shows "successful opts t ev w"
proof -
  let ?w3 = "emit (ComputeConfig False)
               (removeSync (emit Require (esbuild_writes True (advance t w))))"
  have c: "this_ctx ?w3 = c"
    using assms(1) by (simp add: emit_def removeSync_def esbuild_writes_def this_ctx_advance)
  have "computeConfig (cycle_env ev) opts (Factory f) False ?w3
          = phaseB (cycle_env ev) opts u ?w3"
    using assms(8,9) by (simp add: computeConfig_def c)
  moreover from phaseB_plain_returns [of ?w3 "cycle_env ev" u opts] assms c
  obtain r where "fst (phaseB (cycle_env ev) opts u ?w3) = Returned (Some r)" by auto
  ultimately show ?thesis
    using assms(6,7) by (simp add: successful_def)
qed

lemma cycle_snapshot_plain:
  assumes "this_ctx w = c" and "\<not> ctx_dev c" and "hooks (cycle_env ev) = []"
    and "loaded ev = Loaded (Factory f)" and "f c = Resolves u"
    and "is_JObj (getp (merge_js [skeleton c, u]) ''framework'')"
  shows "cycle_snapshot opts t ev w = Some (newConfigSnapshot (merge_js [skeleton c, u]))"
proof -
  let ?w3 = "emit (ComputeConfig False)
               (removeSync (emit Require (esbuild_writes True (advance t w))))"
  have c: "this_ctx ?w3 = c"
    using assms(1) by (simp add: emit_def removeSync_def esbuild_writes_def this_ctx_advance)
  from post_hook_plain [of ?w3 "cycle_env ev" u opts] assms c
  obtain cfg where ph: "post_hook (cycle_env ev) opts u ?w3 = (Returned cfg, ?w3)"
    and wl: "whitelisted cfg = whitelisted (merge_js [skeleton c, u])" by auto
  from wl have "newConfigSnapshot cfg = newConfigSnapshot (merge_js [skeleton c, u])"
    by (rule snapshot_of_whitelisted)
  with ph assms(4,5) c show ?thesis
    by (simp add: cycle_snapshot_def Let_def)
qed

lemma spa_ctx_flags:
  "\<not> ctx_dev spa_ctx" "\<not> mode_ssr spa_ctx" "\<not> mode_pwa spa_ctx"
  by (simp_all add: spa_ctx_def)

lemma armed_idle_facts:
  "isWatching armed_idle_world" "\<not> isFirst armed_idle_world"
  "timer armed_idle_world = None" "updateFn armed_idle_world = None"
  "configSnapshot armed_idle_world = Some idle_snapshot"
  "this_ctx armed_idle_world = spa_ctx"
  "filter callback (effects armed_idle_world) = []"
proof -
  let ?w = "new_world spa_ctx"
  let ?w3 = "emit (ComputeConfig True) (removeSync (emit Require (esbuild_writes True ?w)))"
  have n: "isFirst ?w" "timer ?w = None" "updateFn ?w = None" "effects ?w = []"
    "this_ctx ?w = spa_ctx"
    by (simp_all add: new_world_def)
  have c3: "this_ctx ?w3 = spa_ctx"
    by (simp add: emit_def removeSync_def esbuild_writes_def new_world_def)
  have e: "errors_length saved_edit = 0" "loaded saved_edit = Loaded empty_factory"
    "cycle_env saved_edit = env0"
    by (simp_all add: saved_edit_def)
  have h: "hooks env0 = []" by (simp add: env0_def)
  have o: "opts_watch watch_opts" by (simp add: watch_opts_def)
  have "computeConfig env0 watch_opts empty_factory True ?w3
          = phaseB env0 watch_opts (JObj []) ?w3"
    by (simp add: computeConfig_def empty_factory_def)
  moreover from phaseB_plain_returns [of ?w3 env0 "JObj []" watch_opts]
    c3 spa_ctx_flags h merged_framework(1) [of spa_ctx] merged_build_usable(1,2) [of spa_ctx]
  obtain r where "fst (phaseB env0 watch_opts (JObj []) ?w3) = Returned (Some r)" by auto
  ultimately
  have f: "fst (computeConfig (cycle_env saved_edit) watch_opts empty_factory True ?w3)
             = Returned (Some r)"
    by (simp add: e)
  from first_rebuild [OF n(1,2) e(1,2) o f, of 0]
  obtain w' g u cfg w5 where rb: "rebuild watch_opts 0 saved_edit ?w = (Returned (), w')"
    and k: "\<not> isFirst w'" "timer w' = None" "updateFn w' = updateFn ?w"
    and fa: "empty_factory = Factory g" and gu: "g (this_ctx ?w) = Resolves u"
    and ph: "post_hook (cycle_env saved_edit) watch_opts u ?w3 = (Returned cfg, w5)"
    and cs: "configSnapshot w' = Some (newConfigSnapshot cfg)"
    and cb: "filter callback (effects w') = filter callback (effects ?w)"
    by blast
  from fa gu have u: "u = JObj []" by (auto simp: empty_factory_def)
  from post_hook_plain [of ?w3 env0 "JObj []" watch_opts]
    c3 spa_ctx_flags h merged_framework(1) [of spa_ctx]
  obtain cfg' where ph': "post_hook env0 watch_opts (JObj []) ?w3 = (Returned cfg', ?w3)"
    and wl: "whitelisted cfg' = whitelisted (merge_js [skeleton spa_ctx, JObj []])" by auto
  from ph ph' u e(3) have "cfg = cfg'" by simp
  with snapshot_of_whitelisted [OF wl] have "newConfigSnapshot cfg = idle_snapshot"
    unfolding idle_snapshot_def by simp
  with cs have cs': "configSnapshot w' = Some idle_snapshot" by simp
  have a: "armed_idle_world = watch w'"
    by (simp add: armed_idle_world_def rb)
  have "\<not> mode_ssr (this_ctx ?w)" by (simp add: n spa_ctx_flags)
  from this_ctx_rebuild [OF this, of watch_opts 0 saved_edit] rb n(5)
  have tc: "this_ctx w' = spa_ctx" by simp
  show "isWatching armed_idle_world" by (simp add: a watch_def)
  show "\<not> isFirst armed_idle_world" using k by (simp add: a watch_def)
  show "timer armed_idle_world = None" using k by (simp add: a watch_def)
  show "updateFn armed_idle_world = None" using k n by (simp add: a watch_def)
  show "configSnapshot armed_idle_world = Some idle_snapshot" using cs' by (simp add: a watch_def)
  show "this_ctx armed_idle_world = spa_ctx" using tc by (simp add: a watch_def)
  show "filter callback (effects armed_idle_world) = []" using cb n by (simp add: a watch_def)
qed

lemma edit_snapshots:
  "idle_snapshot \<noteq> []" "build_edit_snapshot \<noteq> []" "build_edit_snapshot \<noteq> idle_snapshot"
  "newConfigSnapshot (merge_js [skeleton spa_ctx, css_edit_cfg]) = build_edit_snapshot"
  "newConfigSnapshot (merge_js [skeleton spa_ctx, style_edit_cfg]) = idle_snapshot"
proof -
  show "idle_snapshot \<noteq> []"
    unfolding idle_snapshot_def by (rule snapshot_nonempty) (rule merged_build_usable)
  show "build_edit_snapshot \<noteq> []"
    unfolding build_edit_snapshot_def build_edit_cfg_def
    by (rule snapshot_nonempty) (rule merged_build_usable)
  from merged_build [of spa_ctx] obtain ps
    where b0: "getp (merge_js [skeleton spa_ctx, JObj []]) ''build''
                 = JObj ((''transpileDependencies'', JArr []) # ps)"
      and b1: "getp (merge_js [skeleton spa_ctx, build_edit_cfg]) ''build''
                 = JObj ((''transpileDependencies'', JArr [JStr ''vue'']) # ps)"
      and b2: "getp (merge_js [skeleton spa_ctx, css_edit_cfg]) ''build''
                 = JObj ((''transpileDependencies'', JArr [JStr ''vue'']) # ps)"
      and b3: "getp (merge_js [skeleton spa_ctx, style_edit_cfg]) ''build''
                 = JObj ((''transpileDependencies'', JArr []) # ps)"
    unfolding build_edit_cfg_def css_edit_cfg_def style_edit_cfg_def by blast
  have t: "tl (whitelisted (merge_js [skeleton spa_ctx, JObj []]))
             = tl (whitelisted (merge_js [skeleton spa_ctx, build_edit_cfg]))"
    unfolding build_edit_cfg_def by (simp only: merged_rest)
  from snapshot_build_differs [OF t b0 b1]
  show "build_edit_snapshot \<noteq> idle_snapshot"
    unfolding idle_snapshot_def build_edit_snapshot_def by simp
  have t2: "tl (whitelisted (merge_js [skeleton spa_ctx, css_edit_cfg]))
             = tl (whitelisted (merge_js [skeleton spa_ctx, build_edit_cfg]))"
    unfolding build_edit_cfg_def css_edit_cfg_def by (simp only: merged_rest)
  have "whitelisted (merge_js [skeleton spa_ctx, css_edit_cfg])
          = whitelisted (merge_js [skeleton spa_ctx, build_edit_cfg])"
    using t2 b1 b2 by (simp add: whitelisted_def)
  then show "newConfigSnapshot (merge_js [skeleton spa_ctx, css_edit_cfg]) = build_edit_snapshot"
    unfolding build_edit_snapshot_def by (rule snapshot_of_whitelisted)
  have t3: "tl (whitelisted (merge_js [skeleton spa_ctx, style_edit_cfg]))
             = tl (whitelisted (merge_js [skeleton spa_ctx, JObj []]))"
    unfolding style_edit_cfg_def by (simp only: merged_rest)
  have "whitelisted (merge_js [skeleton spa_ctx, style_edit_cfg])
          = whitelisted (merge_js [skeleton spa_ctx, JObj []])"
    using t3 b0 b3 by (simp add: whitelisted_def)
  then show "newConfigSnapshot (merge_js [skeleton spa_ctx, style_edit_cfg]) = idle_snapshot"
    unfolding idle_snapshot_def by (rule snapshot_of_whitelisted)
qed

theorem coalesced_updates_witness:
  "isWatching armed_idle_world \<and> \<not> isFirst armed_idle_world
   \<and> timer armed_idle_world = None \<and> updateFn armed_idle_world = None
   \<and> opts_watch watch_opts \<and> configSnapshot armed_idle_world = Some idle_snapshot
   \<and> coalesced 1000 (map fst [(1450, css_edit)])
   \<and> all_successful watch_opts [(1000, build_edit), (1450, css_edit)] armed_idle_world
   \<and> all_compared idle_snapshot watch_opts [(1000, build_edit), (1450, css_edit)]
        armed_idle_world
   \<and> last (1000 # map fst [(1450, css_edit)]) + 1000 \<le> (3000 :: nat)
   \<and> pipeline_affecting idle_snapshot watch_opts 1000 build_edit armed_idle_world
   \<and> \<not> pipeline_affecting build_edit_snapshot watch_opts 1450 css_edit
          (snd (rebuild watch_opts 1000 build_edit armed_idle_world))
   \<and> (\<exists>w'. session watch_opts [(1000, build_edit), (1450, css_edit)] armed_idle_world
               = (Returned (), w')
           \<and> filter callback (effects w') = []
           \<and> filter callback (effects (advance 3000 w')) = [Callback OnBuildChange]
           \<and> timer (advance 3000 w') = None \<and> updateFn (advance 3000 w') = None)
   \<and> coalesced 1000 (map fst ([] :: (nat \<times> build_end) list))
   \<and> all_successful watch_opts [(1000, style_edit)] armed_idle_world
   \<and> all_compared idle_snapshot watch_opts [(1000, style_edit)] armed_idle_world
   \<and> last (1000 # map fst ([] :: (nat \<times> build_end) list)) + 1000 \<le> (2000 :: nat)
   \<and> \<not> pipeline_affecting idle_snapshot watch_opts 1000 style_edit armed_idle_world
   \<and> (\<exists>w'. session watch_opts [(1000, style_edit)] armed_idle_world = (Returned (), w')
           \<and> filter callback (effects w') = []
           \<and> filter callback (effects (advance 2000 w')) = [Callback OnAppChange]
           \<and> timer (advance 2000 w') = None \<and> updateFn (advance 2000 w') = None)"
proof -
  let ?A = armed_idle_world
  let ?B = "snd (rebuild watch_opts 1000 build_edit ?A)"
  note a = armed_idle_facts
  have o: "opts_watch watch_opts" by (simp add: watch_opts_def)
  have h: "hooks env0 = []" by (simp add: env0_def)
  have be: "errors_length build_edit = 0" "cycle_env build_edit = env0"
    "loaded build_edit = Loaded (Factory (\<lambda>c. Resolves build_edit_cfg))"
    by (simp_all add: build_edit_def)
  have ce: "errors_length css_edit = 0" "cycle_env css_edit = env0"
    "loaded css_edit = Loaded (Factory (\<lambda>c. Resolves css_edit_cfg))"
    by (simp_all add: css_edit_def)
  have se: "errors_length style_edit = 0" "cycle_env style_edit = env0"
    "loaded style_edit = Loaded (Factory (\<lambda>c. Resolves style_edit_cfg))"
    by (simp_all add: style_edit_def)
  have np: "\<not> primitive build_edit_cfg" "\<not> primitive css_edit_cfg"
    "\<not> primitive style_edit_cfg"
    by (simp_all add: build_edit_cfg_def css_edit_cfg_def style_edit_cfg_def)
  have "\<not> mode_ssr (this_ctx ?A)" by (simp add: a spa_ctx_flags)
  from this_ctx_rebuild [OF this, of watch_opts 1000 build_edit] a(6)
  have tb: "this_ctx ?B = spa_ctx" by simp
  have fb: "is_JObj (getp (merge_js [skeleton spa_ctx, build_edit_cfg]) ''framework'')"
    "\<not> nullish (getp (merge_js [skeleton spa_ctx, build_edit_cfg]) ''build'')"
    "\<not> truthy (getp (getp (merge_js [skeleton spa_ctx, build_edit_cfg]) ''build'') ''publicPath'')"
    unfolding build_edit_cfg_def
    by (rule merged_framework merged_build_usable)+
  have fc: "is_JObj (getp (merge_js [skeleton spa_ctx, css_edit_cfg]) ''framework'')"
    "\<not> nullish (getp (merge_js [skeleton spa_ctx, css_edit_cfg]) ''build'')"
    "\<not> truthy (getp (getp (merge_js [skeleton spa_ctx, css_edit_cfg]) ''build'') ''publicPath'')"
    unfolding css_edit_cfg_def
    by (rule merged_framework merged_build_usable)+
  have fs: "is_JObj (getp (merge_js [skeleton spa_ctx, style_edit_cfg]) ''framework'')"
    "\<not> nullish (getp (merge_js [skeleton spa_ctx, style_edit_cfg]) ''build'')"
    "\<not> truthy (getp (getp (merge_js [skeleton spa_ctx, style_edit_cfg]) ''build'') ''publicPath'')"
    unfolding style_edit_cfg_def
    by (rule merged_framework merged_build_usable)+
  have s1: "successful watch_opts 1000 build_edit ?A"
    by (rule successful_plain [OF a(6) spa_ctx_flags _ be(1,3) _ np(1) fb])
       (simp_all add: be h)
  have s2: "successful watch_opts 1450 css_edit ?B"
    by (rule successful_plain [OF tb spa_ctx_flags _ ce(1,3) _ np(2) fc])
       (simp_all add: ce h)
  have s3: "successful watch_opts 1000 style_edit ?A"
    by (rule successful_plain [OF a(6) spa_ctx_flags _ se(1,3) _ np(3) fs])
       (simp_all add: se h)
  have c1: "cycle_snapshot watch_opts 1000 build_edit ?A = Some build_edit_snapshot"
    unfolding build_edit_snapshot_def
    by (rule cycle_snapshot_plain [OF a(6) spa_ctx_flags(1) _ be(3) _ fb(1)])
       (simp_all add: be h)
  have c2: "cycle_snapshot watch_opts 1450 css_edit ?B = Some build_edit_snapshot"
    unfolding edit_snapshots(4) [symmetric]
    by (rule cycle_snapshot_plain [OF tb spa_ctx_flags(1) _ ce(3) _ fc(1)])
       (simp_all add: ce h)
  have c3: "cycle_snapshot watch_opts 1000 style_edit ?A = Some idle_snapshot"
    unfolding edit_snapshots(5) [symmetric]
    by (rule cycle_snapshot_plain [OF a(6) spa_ctx_flags(1) _ se(3) _ fs(1)])
       (simp_all add: se h)
  have e: "coalesced 1000 (map fst [(1450, css_edit)])" by simp
  have f: "all_successful watch_opts [(1000, build_edit), (1450, css_edit)] ?A"
    using s1 s2 by simp
  have g: "all_compared idle_snapshot watch_opts [(1000, build_edit), (1450, css_edit)] ?A"
    using c1 c2 edit_snapshots(1,2) by simp
  have i: "last (1000 # map fst [(1450, css_edit)]) + 1000 \<le> (3000 :: nat)" by simp
  have p1: "pipeline_affecting idle_snapshot watch_opts 1000 build_edit ?A"
    using c1 edit_snapshots(3) by (simp add: pipeline_affecting_def)
  have p2: "\<not> pipeline_affecting build_edit_snapshot watch_opts 1450 css_edit ?B"
    using c2 by (simp add: pipeline_affecting_def)
  from p1
  have any: "any_pipeline_affecting idle_snapshot watch_opts
               [(1000, build_edit), (1450, css_edit)] ?A" by simp
  have e': "coalesced 1000 (map fst ([] :: (nat \<times> build_end) list))" by simp
  have f': "all_successful watch_opts [(1000, style_edit)] ?A" using s3 by simp
  have g': "all_compared idle_snapshot watch_opts [(1000, style_edit)] ?A"
    using c3 edit_snapshots(1) by simp
  have i': "last (1000 # map fst ([] :: (nat \<times> build_end) list)) + 1000 \<le> (2000 :: nat)"
    by simp
  have p3: "\<not> pipeline_affecting idle_snapshot watch_opts 1000 style_edit ?A"
    using c3 by (simp add: pipeline_affecting_def)
  then have none: "\<not> any_pipeline_affecting idle_snapshot watch_opts [(1000, style_edit)] ?A"
    using c3 by simp
  from coalesced_updates [OF a(1,2,3,4) o a(5) e f g i] any a(7)
  have 1: "\<exists>w'. session watch_opts [(1000, build_edit), (1450, css_edit)] ?A = (Returned (), w')
           \<and> filter callback (effects w') = []
           \<and> filter callback (effects (advance 3000 w')) = [Callback OnBuildChange]
           \<and> timer (advance 3000 w') = None \<and> updateFn (advance 3000 w') = None"
    by simp
  from coalesced_updates [OF a(1,2,3,4) o a(5) e' f' g' i'] none a(7)
  have 2: "\<exists>w'. session watch_opts [(1000, style_edit)] ?A = (Returned (), w')
           \<and> filter callback (effects w') = []
           \<and> filter callback (effects (advance 2000 w')) = [Callback OnAppChange]
           \<and> timer (advance 2000 w') = None \<and> updateFn (advance 2000 w') = None"
    by simp
  from a(1,2,3,4,5) o e f g i p1 p2 1 e' f' g' i' p3 2 show ?thesis by blast
qed

end
